theory Spec2Isabelle
  imports Complex_Main "HOL-Library.Word" "HOL-Library.Monad_Syntax"
begin

unbundle bit_operations_syntax

section \<open>Go values\<close>

subsection \<open>float64\<close>

text \<open>
  A Go \<open>float64\<close> is a finite number, one of the two infinities, or NaN. Arithmetic on
  finite values is taken exact (rounding to 53 bits and overflow to an infinity are not
  modelled, and the two zeros are one value, a zero divisor counting as \<open>+0\<close>); the special
  values follow IEEE 754 and the documented special cases of Go's \<open>math\<close> package.
\<close>

datatype f64 = NaN | NInf | Fin real | PInf

fun fneg :: "f64 \<Rightarrow> f64" where
  "fneg NaN = NaN"
| "fneg NInf = PInf"
| "fneg PInf = NInf"
| "fneg (Fin a) = Fin (- a)"

fun fadd :: "f64 \<Rightarrow> f64 \<Rightarrow> f64" where
  "fadd NaN _ = NaN"
| "fadd _ NaN = NaN"
| "fadd PInf NInf = NaN"
| "fadd NInf PInf = NaN"
| "fadd PInf _ = PInf"
| "fadd _ PInf = PInf"
| "fadd NInf _ = NInf"
| "fadd _ NInf = NInf"
| "fadd (Fin a) (Fin b) = Fin (a + b)"

definition fsub :: "f64 \<Rightarrow> f64 \<Rightarrow> f64" where
  "fsub a b = fadd a (fneg b)"

definition inf_of_sign :: "real \<Rightarrow> f64" where
  "inf_of_sign s = (if s > 0 then PInf else if s < 0 then NInf else NaN)"

fun fmul :: "f64 \<Rightarrow> f64 \<Rightarrow> f64" where
  "fmul NaN _ = NaN"
| "fmul _ NaN = NaN"
| "fmul (Fin a) (Fin b) = Fin (a * b)"
| "fmul PInf (Fin b) = inf_of_sign b"
| "fmul NInf (Fin b) = inf_of_sign (- b)"
| "fmul (Fin a) PInf = inf_of_sign a"
| "fmul (Fin a) NInf = inf_of_sign (- a)"
| "fmul PInf PInf = PInf"
| "fmul NInf NInf = PInf"
| "fmul PInf NInf = NInf"
| "fmul NInf PInf = NInf"

fun fdiv :: "f64 \<Rightarrow> f64 \<Rightarrow> f64" where
  "fdiv NaN _ = NaN"
| "fdiv _ NaN = NaN"
| "fdiv (Fin a) (Fin b) = (if b \<noteq> 0 then Fin (a / b) else inf_of_sign a)"
| "fdiv (Fin a) _ = Fin 0"
| "fdiv PInf (Fin b) = (if b \<ge> 0 then PInf else NInf)"
| "fdiv NInf (Fin b) = (if b \<ge> 0 then NInf else PInf)"
| "fdiv _ _ = NaN"

text \<open>The comparisons \<open><\<close> and \<open>>\<close> of Go: false as soon as one side is NaN.\<close>

fun flt :: "f64 \<Rightarrow> f64 \<Rightarrow> bool" where
  "flt (Fin a) (Fin b) = (a < b)"
| "flt NInf (Fin _) = True"
| "flt NInf PInf = True"
| "flt (Fin _) PInf = True"
| "flt _ _ = False"

definition fgt :: "f64 \<Rightarrow> f64 \<Rightarrow> bool" where
  "fgt a b = flt b a"

text \<open>
  \<open>math.Min\<close> and \<open>math.Max\<close>: the matching infinity wins first, then NaN
  (\<open>Min(x, -Inf) = -Inf\<close>, \<open>Min(x, NaN) = NaN\<close>; \<open>Max(x, +Inf) = +Inf\<close>,
  \<open>Max(x, NaN) = NaN\<close>), then the smaller (larger) argument.
\<close>

definition math_Min :: "f64 \<Rightarrow> f64 \<Rightarrow> f64" where
  "math_Min x y =
     (if x = NInf \<or> y = NInf then NInf
      else if x = NaN \<or> y = NaN then NaN
      else if flt x y then x else y)"

definition math_Max :: "f64 \<Rightarrow> f64 \<Rightarrow> f64" where
  "math_Max x y =
     (if x = PInf \<or> y = PInf then PInf
      else if x = NaN \<or> y = NaN then NaN
      else if flt y x then x else y)"

fun math_Sqrt :: "f64 \<Rightarrow> f64" where
  "math_Sqrt (Fin a) = (if a < 0 then NaN else Fin (sqrt a))"
| "math_Sqrt PInf = PInf"
| "math_Sqrt _ = NaN"

fun math_Log2 :: "f64 \<Rightarrow> f64" where
  "math_Log2 (Fin a) = (if a < 0 then NaN else if a = 0 then NInf else Fin (log 2 a))"
| "math_Log2 PInf = PInf"
| "math_Log2 _ = NaN"

text \<open>The conversion \<open>float64(n)\<close> of an \<open>int\<close>.\<close>

definition float64 :: "int \<Rightarrow> f64" where
  "float64 n = Fin (real_of_int n)"

text \<open>The helper \<open>abs\<close> of text_detector.go.\<close>

definition abs_f :: "f64 \<Rightarrow> f64" where
  "abs_f x = (if flt x (Fin 0) then fneg x else x)"

text \<open>Membership in the closed unit interval; NaN and the infinities are outside.\<close>

fun in_unit :: "f64 \<Rightarrow> bool" where
  "in_unit (Fin a) = (0 \<le> a \<and> a \<le> 1)"
| "in_unit _ = False"

subsection \<open>Bytes, indexing and slicing\<close>

text \<open>
  A \<open>[]byte\<close> and a \<open>string\<close> are both sequences of bytes, here lists of \<open>char\<close>.
  Lengths and indices are Go \<open>int\<close>s (64 bits; no computation below leaves that range,
  so they are unbounded integers). An index expression \<open>s[i]\<close> panics unless
  \<open>0 \<le> i < len(s)\<close> and a slice expression \<open>s[lo:hi]\<close> panics unless
  \<open>0 \<le> lo \<le> hi \<le> len(s)\<close> (the capacity is taken to be the length, the stricter
  bound). The panic is the value \<open>None\<close>.
\<close>

type_synonym byte = char
type_synonym bytes = "char list"

definition len :: "'a list \<Rightarrow> int" where
  "len xs = int (length xs)"

definition idx :: "'a list \<Rightarrow> int \<Rightarrow> 'a option" where
  "idx xs i = (if 0 \<le> i \<and> i < len xs then Some (xs ! nat i) else None)"

definition slice :: "'a list \<Rightarrow> int \<Rightarrow> int \<Rightarrow> 'a list option" where
  "slice xs lo hi =
     (if 0 \<le> lo \<and> lo \<le> hi \<and> hi \<le> len xs
      then Some (take (nat (hi - lo)) (drop (nat lo) xs)) else None)"

text \<open>The numeric value of a byte, as an 8-bit word for the bit operations and as an \<open>int\<close>.\<close>

definition bval :: "byte \<Rightarrow> 8 word" where
  "bval c = of_char c"

definition ival :: "byte \<Rightarrow> int" where
  "ival c = of_char c"

text \<open>
  The short-circuit operators \<open>&&\<close> and \<open>||\<close> on conditions that may panic: the right
  operand is evaluated only when the left one does not decide.
\<close>

definition and_also :: "bool option \<Rightarrow> bool option \<Rightarrow> bool option" where
  "and_also a b = (case a of None \<Rightarrow> None | Some False \<Rightarrow> Some False | Some True \<Rightarrow> b)"

definition or_else :: "bool option \<Rightarrow> bool option \<Rightarrow> bool option" where
  "or_else a b = (case a of None \<Rightarrow> None | Some True \<Rightarrow> Some True | Some False \<Rightarrow> b)"

text \<open>\<open>data[i] == c\<close> and \<open>bytes.Equal(data[lo:hi], s)\<close>.\<close>

definition byte_eq :: "bytes \<Rightarrow> int \<Rightarrow> byte \<Rightarrow> bool option" where
  "byte_eq data i c = map_option (\<lambda>b. b = c) (idx data i)"

definition slice_eq :: "bytes \<Rightarrow> int \<Rightarrow> int \<Rightarrow> bytes \<Rightarrow> bool option" where
  "slice_eq data lo hi s = map_option (\<lambda>b. b = s) (slice data lo hi)"

text \<open>\<open>bytes.Contains\<close> and \<open>strings.Contains\<close>: \<open>sub\<close> occurs in \<open>s\<close> as a contiguous run.\<close>

definition has_prefix :: "bytes \<Rightarrow> bytes \<Rightarrow> bool" where
  "has_prefix s sub = (take (length sub) s = sub)"

fun Contains :: "bytes \<Rightarrow> bytes \<Rightarrow> bool" where
  "Contains [] sub = (sub = [])"
| "Contains (x # xs) sub = (has_prefix (x # xs) sub \<or> Contains xs sub)"

text \<open>The helper \<open>min\<close> on \<open>int\<close> of the analyzers.\<close>

definition min_int :: "int \<Rightarrow> int \<Rightarrow> int" where
  "min_int a b = (if a < b then a else b)"

section \<open>Format sniffers\<close>

text \<open>\<open>detectVideoFormat\<close> (video analyzer): the format from the magic bytes.\<close>

definition detectVideoFormat :: "bytes \<Rightarrow> string option" where
  "detectVideoFormat data =
     (if len data < 12 then Some ''unknown''
      else do {
        ftyp \<leftarrow> and_also (Some (len data \<ge> 8))
                 (and_also (byte_eq data 4 CHR ''f'')
                 (and_also (byte_eq data 5 CHR ''t'')
                 (and_also (byte_eq data 6 CHR ''y'') (byte_eq data 7 CHR ''p''))));
        if ftyp then Some ''mp4''
        else do {
          branded \<leftarrow>
            (if len data \<ge> 12 then do {
               isftyp \<leftarrow> slice_eq data 4 8 ''ftyp'';
               if isftyp then do {
                 brand \<leftarrow> slice data 8 12;
                 Some (Some (if brand \<in> set [''isom'', ''iso2'', ''mp41'', ''mp42'', ''avc1'', ''M4V '']
                             then ''mp4''
                             else if brand = ''qt  '' then ''mov''
                             else ''mp4''))
               } else Some None
             } else Some None);
          case branded of
            Some f \<Rightarrow> Some f
          | None \<Rightarrow> do {
              ebml \<leftarrow> and_also (byte_eq data 0 (CHR 0x1A))
                       (and_also (byte_eq data 1 (CHR 0x45))
                       (and_also (byte_eq data 2 (CHR 0xDF)) (byte_eq data 3 (CHR 0xA3))));
              if ebml then do {
                head \<leftarrow> slice data 0 (min_int 100 (len data));
                Some (if Contains head ''webm'' then ''webm'' else ''mkv'')
              } else do {
                avi \<leftarrow> (if len data \<ge> 12
                         then and_also (slice_eq data 0 4 ''RIFF'') (slice_eq data 8 12 ''AVI '')
                         else Some False);
                if avi then Some ''avi''
                else do {
                  flv \<leftarrow> and_also (Some (len data \<ge> 4))
                           (and_also (byte_eq data 0 CHR ''F'')
                           (and_also (byte_eq data 1 CHR ''L'') (byte_eq data 2 CHR ''V'')));
                  if flv then Some ''flv''
                  else do {
                    sync \<leftarrow> byte_eq data 0 (CHR 0x47);
                    ts \<leftarrow> (if sync
                            then and_also (Some (len data > 376))
                                   (and_also (byte_eq data 188 (CHR 0x47))
                                             (byte_eq data 376 (CHR 0x47)))
                            else Some False);
                    Some (if ts then ''ts'' else ''unknown'')
                  }
                }
              }
            }
        }
      })"

text \<open>\<open>detectAudioFormat\<close> (audio analyzer).\<close>

definition detectAudioFormat :: "bytes \<Rightarrow> string option" where
  "detectAudioFormat data =
     (if len data < 12 then Some ''unknown''
      else do {
        sync \<leftarrow> and_also (byte_eq data 0 (CHR 0xFF))
                 (map_option (\<lambda>b. bval b AND 0xE0 = 0xE0) (idx data 1));
        if sync then Some ''mp3''
        else do {
          id3 \<leftarrow> and_also (byte_eq data 0 CHR ''I'')
                  (and_also (byte_eq data 1 CHR ''D'') (byte_eq data 2 CHR ''3''));
          if id3 then Some ''mp3''
          else do {
            wav \<leftarrow> and_also (slice_eq data 0 4 ''RIFF'') (slice_eq data 8 12 ''WAVE'');
            if wav then Some ''wav''
            else do {
              flac \<leftarrow> slice_eq data 0 4 ''fLaC'';
              if flac then Some ''flac''
              else do {
                ogg \<leftarrow> slice_eq data 0 4 ''OggS'';
                if ogg then Some ''ogg''
                else do {
                  ftyp \<leftarrow> and_also (Some (len data \<ge> 8)) (slice_eq data 4 8 ''ftyp'');
                  if ftyp then do {
                    known \<leftarrow> (if len data \<ge> 12 then do {
                                brand \<leftarrow> slice data 8 12;
                                Some (brand = ''M4A '' \<or> brand = ''mp42'' \<or> brand = ''isom'')
                              } else Some False);
                    Some (if known then ''m4a'' else ''m4a'')
                  } else do {
                    adts \<leftarrow> and_also (byte_eq data 0 (CHR 0xFF))
                              (map_option (\<lambda>b. bval b AND 0xF0 = 0xF0) (idx data 1));
                    Some (if adts then ''aac'' else ''unknown'')
                  }
                }
              }
            }
          }
        }
      })"

text \<open>\<open>detectImageFormat\<close> (image analyzer).\<close>

definition detectImageFormat :: "bytes \<Rightarrow> string option" where
  "detectImageFormat data =
     (if len data < 8 then Some ''unknown''
      else do {
        jpeg \<leftarrow> and_also (byte_eq data 0 (CHR 0xFF))
                 (and_also (byte_eq data 1 (CHR 0xD8)) (byte_eq data 2 (CHR 0xFF)));
        if jpeg then Some ''jpeg''
        else do {
          png \<leftarrow> and_also (byte_eq data 0 (CHR 0x89))
                  (and_also (byte_eq data 1 (CHR 0x50))
                  (and_also (byte_eq data 2 (CHR 0x4E)) (byte_eq data 3 (CHR 0x47))));
          if png then Some ''png''
          else do {
            gif \<leftarrow> and_also (byte_eq data 0 (CHR 0x47))
                    (and_also (byte_eq data 1 (CHR 0x49))
                    (and_also (byte_eq data 2 (CHR 0x46)) (byte_eq data 3 (CHR 0x38))));
            if gif then Some ''gif''
            else do {
              webp \<leftarrow> (if len data \<ge> 12 then do {
                         riff \<leftarrow> and_also (byte_eq data 0 (CHR 0x52))
                                  (and_also (byte_eq data 1 (CHR 0x49))
                                  (and_also (byte_eq data 2 (CHR 0x46)) (byte_eq data 3 (CHR 0x46))));
                         if riff
                         then and_also (byte_eq data 8 (CHR 0x57))
                                (and_also (byte_eq data 9 (CHR 0x45))
                                (and_also (byte_eq data 10 (CHR 0x42)) (byte_eq data 11 (CHR 0x50))))
                         else Some False
                       } else Some False);
              if webp then Some ''webp''
              else do {
                bmp \<leftarrow> and_also (byte_eq data 0 (CHR 0x42)) (byte_eq data 1 (CHR 0x4D));
                Some (if bmp then ''bmp'' else ''unknown'')
              }
            }
          }
        }
      })"

subsection \<open>Totality and dependence on the prefix\<close>

lemma idx_Some: "0 \<le> i \<Longrightarrow> i < len xs \<Longrightarrow> idx xs i = Some (xs ! nat i)"
  by (simp add: idx_def)

lemma slice_Some:
  "0 \<le> lo \<Longrightarrow> lo \<le> hi \<Longrightarrow> hi \<le> len xs
   \<Longrightarrow> slice xs lo hi = Some (take (nat (hi - lo)) (drop (nat lo) xs))"
  by (simp add: slice_def)

lemma and_also_left: "and_also (Some c) b = (if c then b else Some False)"
  by (cases c) (simp_all add: and_also_def)

lemma or_else_left: "or_else (Some c) b = (if c then Some True else b)"
  by (cases c) (simp_all add: or_else_def)

lemma byte_eq_Some:
  "0 \<le> i \<Longrightarrow> i < len data \<Longrightarrow> byte_eq data i c = Some (data ! nat i = c)"
  by (simp add: byte_eq_def idx_Some)

lemma slice_eq_Some:
  "0 \<le> lo \<Longrightarrow> lo \<le> hi \<Longrightarrow> hi \<le> len data
   \<Longrightarrow> slice_eq data lo hi s = Some (take (nat (hi - lo)) (drop (nat lo) data) = s)"
  by (simp add: slice_eq_def slice_Some)

lemmas go_defined =
  idx_Some slice_Some byte_eq_Some slice_eq_Some and_also_left or_else_left min_int_def

lemma len_take: "len (take n xs) = min (int n) (len xs)"
  by (simp add: len_def)

lemma idx_take: "i < int n \<Longrightarrow> idx (take n xs) i = idx xs i"
  by (auto simp add: idx_def len_take)

lemma slice_take: "hi \<le> int n \<Longrightarrow> slice (take n xs) lo hi = slice xs lo hi"
  by (auto simp add: slice_def len_take drop_take min_def)

lemma len_take_cmp:
  "k \<le> int n \<Longrightarrow> (k \<le> len (take n xs)) = (k \<le> len xs)"
  "k \<le> int n \<Longrightarrow> (len (take n xs) < k) = (len xs < k)"
  "k < int n \<Longrightarrow> (k < len (take n xs)) = (k < len xs)"
  by (auto simp add: len_take)

lemma slice_head_take:
  "k \<le> int n
   \<Longrightarrow> slice (take n xs) 0 (min_int k (len (take n xs))) = slice xs 0 (min_int k (len xs))"
  by (auto simp add: slice_def len_take min_int_def min_def)

lemmas take_simps =
  idx_take slice_take len_take_cmp slice_head_take byte_eq_def slice_eq_def

lemma detectImageFormat_total: "\<exists>f. detectImageFormat data = Some f"
proof (cases "len data < 8")
  case True
  then show ?thesis by (simp add: detectImageFormat_def)
next
  case False
  then have "8 \<le> len data" by simp
  then show ?thesis
    unfolding detectImageFormat_def by (simp add: go_defined)
qed

lemma detectAudioFormat_total: "\<exists>f. detectAudioFormat data = Some f"
proof (cases "len data < 12")
  case True
  then show ?thesis by (simp add: detectAudioFormat_def)
next
  case False
  then have "12 \<le> len data" by simp
  then show ?thesis
    unfolding detectAudioFormat_def by (simp add: go_defined)
qed

lemma detectVideoFormat_total: "\<exists>f. detectVideoFormat data = Some f"
proof (cases "len data < 12")
  case True
  then show ?thesis by (simp add: detectVideoFormat_def)
next
  case False
  then have "12 \<le> len data" by simp
  then show ?thesis
    unfolding detectVideoFormat_def by (simp add: go_defined)
qed

lemma detectImageFormat_prefix: "detectImageFormat (take 12 data) = detectImageFormat data"
  unfolding detectImageFormat_def by (simp add: take_simps cong: if_cong)

lemma detectAudioFormat_prefix: "detectAudioFormat (take 12 data) = detectAudioFormat data"
  unfolding detectAudioFormat_def by (simp add: take_simps cong: if_cong)

lemma detectVideoFormat_prefix: "detectVideoFormat (take 377 data) = detectVideoFormat data"
  unfolding detectVideoFormat_def by (simp add: take_simps cong: if_cong)

text \<open>
  Claim C5: each of the three format sniffers returns a format for every input, without
  a panic; an input shorter than the sniffer's minimum (8 bytes for images, 12 for audio
  and video, so also the empty input and inputs of 1 to 3 bytes) yields "unknown"; and
  the result depends only on a prefix of the input (12 bytes for images and audio, 377
  for video, whose MPEG-TS test reads bytes 188 and 376).
\<close>

theorem C5_sniffers_total_and_prefix_determined:
  "(\<exists>f. detectImageFormat data = Some f)
   \<and> (\<exists>f. detectAudioFormat data = Some f)
   \<and> (\<exists>f. detectVideoFormat data = Some f)
   \<and> (len short < 8 \<longrightarrow> detectImageFormat short = Some ''unknown'')
   \<and> (len short < 12 \<longrightarrow> detectAudioFormat short = Some ''unknown'')
   \<and> (len short < 12 \<longrightarrow> detectVideoFormat short = Some ''unknown'')
   \<and> (take 12 d = take 12 d' \<longrightarrow> detectImageFormat d = detectImageFormat d')
   \<and> (take 12 d = take 12 d' \<longrightarrow> detectAudioFormat d = detectAudioFormat d')
   \<and> (take 377 d = take 377 d' \<longrightarrow> detectVideoFormat d = detectVideoFormat d')"
proof -
  have short: "len short < 8 \<longrightarrow> detectImageFormat short = Some ''unknown''"
    "len short < 12 \<longrightarrow> detectAudioFormat short = Some ''unknown''"
    "len short < 12 \<longrightarrow> detectVideoFormat short = Some ''unknown''"
    by (simp_all add: detectImageFormat_def detectAudioFormat_def detectVideoFormat_def)
  have "take 12 d = take 12 d' \<longrightarrow> detectImageFormat d = detectImageFormat d'"
    by (metis detectImageFormat_prefix)
  moreover have "take 12 d = take 12 d' \<longrightarrow> detectAudioFormat d = detectAudioFormat d'"
    by (metis detectAudioFormat_prefix)
  moreover have "take 377 d = take 377 d' \<longrightarrow> detectVideoFormat d = detectVideoFormat d'"
    by (metis detectVideoFormat_prefix)
  ultimately show ?thesis
    using short detectImageFormat_total detectAudioFormat_total detectVideoFormat_total
    by blast
qed

theorem C5_sniffers_witness:
  "len [CHR 0xFF, CHR 0xD8, CHR 0xFF] < 8
   \<and> detectImageFormat [CHR 0xFF, CHR 0xD8, CHR 0xFF] = Some ''unknown''
   \<and> detectAudioFormat [CHR 0xFF, CHR 0xD8, CHR 0xFF] = Some ''unknown''
   \<and> detectVideoFormat [CHR 0xFF, CHR 0xD8, CHR 0xFF] = Some ''unknown''
   \<and> take 377 (replicate 377 (CHR 0x47) @ ''A'') = take 377 (replicate 377 (CHR 0x47) @ ''B'')
   \<and> detectImageFormat (replicate 377 (CHR 0x47) @ ''A'')
       = detectImageFormat (replicate 377 (CHR 0x47) @ ''B'')
   \<and> detectAudioFormat (replicate 377 (CHR 0x47) @ ''A'')
       = detectAudioFormat (replicate 377 (CHR 0x47) @ ''B'')
   \<and> detectVideoFormat (replicate 377 (CHR 0x47) @ ''A'')
       = detectVideoFormat (replicate 377 (CHR 0x47) @ ''B'')"
  using C5_sniffers_total_and_prefix_determined
          [of _ "[CHR 0xFF, CHR 0xD8, CHR 0xFF]"
              "replicate 377 (CHR 0x47) @ ''A''" "replicate 377 (CHR 0x47) @ ''B''"]
  by (simp add: len_def)

subsection \<open>The ftyp brand\<close>

text \<open>
  In \<open>detectVideoFormat\<close> the first test, for \<open>ftyp\<close> at bytes 4 to 7, returns "mp4" at
  once; the brand lookup that follows it is never reached with \<open>ftyp\<close> in place.
\<close>

lemma ftyp_always_mp4:
  assumes "12 \<le> len data" and "take 4 (drop 4 data) = ''ftyp''"
  shows "detectVideoFormat data = Some ''mp4''"
proof -
  have l: "12 \<le> length data" using assms(1) by (simp add: len_def)
  have n: "data ! (4 + i) = ''ftyp'' ! i" if "i < 4" for i
  proof -
    have "''ftyp'' ! i = take 4 (drop 4 data) ! i" by (simp add: assms(2))
    also have "\<dots> = data ! (4 + i)" using that l by simp
    finally show ?thesis by simp
  qed
  have "data ! 4 = CHR ''f'' \<and> data ! 5 = CHR ''t'' \<and> data ! 6 = CHR ''y'' \<and> data ! 7 = CHR ''p''"
    using n[of 0] n[of 1] n[of 2] n[of 3] by simp
  then show ?thesis
    using assms(1) unfolding detectVideoFormat_def by (simp add: go_defined)
qed

text \<open>
  Claim C6 says that the brand \<open>qt  \<close> yields "mov". On the twelve bytes of the
  repository's own test case "QuickTime MOV" the sniffer returns "mp4".
\<close>

theorem C6_qt_brand_returns_mp4:
  "detectVideoFormat ([CHR 0x00, CHR 0x00, CHR 0x00, CHR 0x18] @ ''ftypqt  '') = Some ''mp4''"
  by (simp add: detectVideoFormat_def len_def idx_def and_also_def byte_eq_def)

section \<open>Weight tables and the weighted score\<close>

subsection \<open>Text\<close>

record TextAnalyzerWeights =
  w_SentenceVariance :: f64
  w_VocabularyRichness :: f64
  w_Burstiness :: f64
  w_PunctuationVariety :: f64
  w_AIPhraseDetection :: f64
  w_WordLengthVariance :: f64
  w_ContractionsUsage :: f64
  w_RepetitionPenalty :: f64

definition DefaultWeights :: TextAnalyzerWeights where
  "DefaultWeights = \<lparr>
     w_SentenceVariance = Fin 0.15,
     w_VocabularyRichness = Fin 0.20,
     w_Burstiness = Fin 0.10,
     w_PunctuationVariety = Fin 0.10,
     w_AIPhraseDetection = Fin 0.20,
     w_WordLengthVariance = Fin 0.05,
     w_ContractionsUsage = Fin 0.10,
     w_RepetitionPenalty = Fin 0.10 \<rparr>"

record TextSignals =
  SentenceVariance :: f64
  VocabularyRichness :: f64
  Burstiness :: f64
  PunctuationVariety :: f64
  AIPhraseScore :: f64
  WordLengthVariance :: f64
  ContractionsUsage :: f64
  RepetitionScore :: f64

definition text_totalWeight :: "TextAnalyzerWeights \<Rightarrow> f64" where
  "text_totalWeight w =
     fadd (fadd (fadd (fadd (fadd (fadd (fadd
       (w_SentenceVariance w) (w_VocabularyRichness w)) (w_Burstiness w))
       (w_PunctuationVariety w)) (w_AIPhraseDetection w)) (w_WordLengthVariance w))
       (w_ContractionsUsage w)) (w_RepetitionPenalty w)"

definition text_calculateWeightedScore :: "TextAnalyzerWeights \<Rightarrow> TextSignals \<Rightarrow> f64" where
  "text_calculateWeightedScore w signals =
     (let score =
        fadd (fadd (fadd (fadd (fadd (fadd (fadd
          (fmul (SentenceVariance signals) (w_SentenceVariance w))
          (fmul (VocabularyRichness signals) (w_VocabularyRichness w)))
          (fmul (Burstiness signals) (w_Burstiness w)))
          (fmul (PunctuationVariety signals) (w_PunctuationVariety w)))
          (fmul (AIPhraseScore signals) (w_AIPhraseDetection w)))
          (fmul (WordLengthVariance signals) (w_WordLengthVariance w)))
          (fmul (ContractionsUsage signals) (w_ContractionsUsage w)))
          (fmul (RepetitionScore signals) (w_RepetitionPenalty w));
        totalWeight = text_totalWeight w;
        score = (if fgt totalWeight (Fin 0) then fdiv score totalWeight else score)
      in math_Max (Fin 0) (math_Min (Fin 1) score))"

subsection \<open>Image\<close>

record ImageAnalyzerWeights =
  iw_MetadataScore :: f64
  iw_ColorDistribution :: f64
  iw_EdgeConsistency :: f64
  iw_NoisePattern :: f64
  iw_CompressionAnalysis :: f64
  iw_SymmetryDetection :: f64

definition DefaultImageWeights :: ImageAnalyzerWeights where
  "DefaultImageWeights = \<lparr>
     iw_MetadataScore = Fin 0.25,
     iw_ColorDistribution = Fin 0.20,
     iw_EdgeConsistency = Fin 0.15,
     iw_NoisePattern = Fin 0.15,
     iw_CompressionAnalysis = Fin 0.15,
     iw_SymmetryDetection = Fin 0.10 \<rparr>"

record ImageSignals =
  i_MetadataScore :: f64
  i_ColorDistribution :: f64
  i_EdgeConsistency :: f64
  i_NoisePattern :: f64
  i_CompressionAnalysis :: f64
  i_SymmetryScore :: f64

definition image_totalWeight :: "ImageAnalyzerWeights \<Rightarrow> f64" where
  "image_totalWeight w =
     fadd (fadd (fadd (fadd (fadd
       (iw_MetadataScore w) (iw_ColorDistribution w)) (iw_EdgeConsistency w))
       (iw_NoisePattern w)) (iw_CompressionAnalysis w)) (iw_SymmetryDetection w)"

definition image_calculateWeightedScore :: "ImageAnalyzerWeights \<Rightarrow> ImageSignals \<Rightarrow> f64" where
  "image_calculateWeightedScore w signals =
     (let score =
        fadd (fadd (fadd (fadd (fadd
          (fmul (i_MetadataScore signals) (iw_MetadataScore w))
          (fmul (i_ColorDistribution signals) (iw_ColorDistribution w)))
          (fmul (i_EdgeConsistency signals) (iw_EdgeConsistency w)))
          (fmul (i_NoisePattern signals) (iw_NoisePattern w)))
          (fmul (i_CompressionAnalysis signals) (iw_CompressionAnalysis w)))
          (fmul (i_SymmetryScore signals) (iw_SymmetryDetection w));
        totalWeight = image_totalWeight w;
        score = (if fgt totalWeight (Fin 0) then fdiv score totalWeight else score)
      in math_Max (Fin 0) (math_Min (Fin 1) score))"

subsection \<open>Audio\<close>

record AudioAnalyzerWeights =
  aw_MetadataScore :: f64
  aw_FormatAnalysis :: f64
  aw_PatternAnalysis :: f64
  aw_QualityIndicators :: f64
  aw_AISignatures :: f64
  aw_NoiseProfile :: f64

definition DefaultAudioWeights :: AudioAnalyzerWeights where
  "DefaultAudioWeights = \<lparr>
     aw_MetadataScore = Fin 0.25,
     aw_FormatAnalysis = Fin 0.15,
     aw_PatternAnalysis = Fin 0.20,
     aw_QualityIndicators = Fin 0.15,
     aw_AISignatures = Fin 0.15,
     aw_NoiseProfile = Fin 0.10 \<rparr>"

record AudioSignals =
  a_MetadataScore :: f64
  a_FormatAnalysis :: f64
  a_PatternAnalysis :: f64
  a_QualityIndicators :: f64
  a_AISignatures :: f64
  a_NoiseProfile :: f64

definition audio_totalWeight :: "AudioAnalyzerWeights \<Rightarrow> f64" where
  "audio_totalWeight w =
     fadd (fadd (fadd (fadd (fadd
       (aw_MetadataScore w) (aw_FormatAnalysis w)) (aw_PatternAnalysis w))
       (aw_QualityIndicators w)) (aw_AISignatures w)) (aw_NoiseProfile w)"

definition audio_calculateWeightedScore :: "AudioAnalyzerWeights \<Rightarrow> AudioSignals \<Rightarrow> f64" where
  "audio_calculateWeightedScore w signals =
     (let score =
        fadd (fadd (fadd (fadd (fadd
          (fmul (a_MetadataScore signals) (aw_MetadataScore w))
          (fmul (a_FormatAnalysis signals) (aw_FormatAnalysis w)))
          (fmul (a_PatternAnalysis signals) (aw_PatternAnalysis w)))
          (fmul (a_QualityIndicators signals) (aw_QualityIndicators w)))
          (fmul (a_AISignatures signals) (aw_AISignatures w)))
          (fmul (a_NoiseProfile signals) (aw_NoiseProfile w));
        totalWeight = audio_totalWeight w;
        score = (if fgt totalWeight (Fin 0) then fdiv score totalWeight else score)
      in math_Max (Fin 0) (math_Min (Fin 1) score))"

subsection \<open>Video\<close>

record VideoAnalyzerWeights =
  vw_MetadataScore :: f64
  vw_ContainerAnalysis :: f64
  vw_AudioPresence :: f64
  vw_TemporalPattern :: f64
  vw_EncodingSignature :: f64
  vw_BitrateConsistency :: f64

definition DefaultVideoWeights :: VideoAnalyzerWeights where
  "DefaultVideoWeights = \<lparr>
     vw_MetadataScore = Fin 0.25,
     vw_ContainerAnalysis = Fin 0.20,
     vw_AudioPresence = Fin 0.15,
     vw_TemporalPattern = Fin 0.15,
     vw_EncodingSignature = Fin 0.15,
     vw_BitrateConsistency = Fin 0.10 \<rparr>"

record VideoSignals =
  v_MetadataScore :: f64
  v_ContainerAnalysis :: f64
  v_AudioPresence :: f64
  v_TemporalPattern :: f64
  v_EncodingSignature :: f64
  v_BitrateConsistency :: f64

definition video_totalWeight :: "VideoAnalyzerWeights \<Rightarrow> f64" where
  "video_totalWeight w =
     fadd (fadd (fadd (fadd (fadd
       (vw_MetadataScore w) (vw_ContainerAnalysis w)) (vw_AudioPresence w))
       (vw_TemporalPattern w)) (vw_EncodingSignature w)) (vw_BitrateConsistency w)"

definition video_calculateWeightedScore :: "VideoAnalyzerWeights \<Rightarrow> VideoSignals \<Rightarrow> f64" where
  "video_calculateWeightedScore w signals =
     (let score =
        fadd (fadd (fadd (fadd (fadd
          (fmul (v_MetadataScore signals) (vw_MetadataScore w))
          (fmul (v_ContainerAnalysis signals) (vw_ContainerAnalysis w)))
          (fmul (v_AudioPresence signals) (vw_AudioPresence w)))
          (fmul (v_TemporalPattern signals) (vw_TemporalPattern w)))
          (fmul (v_EncodingSignature signals) (vw_EncodingSignature w)))
          (fmul (v_BitrateConsistency signals) (vw_BitrateConsistency w));
        totalWeight = video_totalWeight w;
        score = (if fgt totalWeight (Fin 0) then fdiv score totalWeight else score)
      in math_Max (Fin 0) (math_Min (Fin 1) score))"

text \<open>The clamp of the specification's formula, on real numbers.\<close>

definition clamp01 :: "real \<Rightarrow> real" where
  "clamp01 x = max 0 (min 1 x)"

text \<open>The tolerance of the weight-table contract: a finite sum within 0.01 of 1.\<close>

fun near_one :: "f64 \<Rightarrow> bool" where
  "near_one (Fin s) = (\<bar>s - 1\<bar> \<le> 0.01)"
| "near_one _ = False"

section \<open>Properties of the weighted score\<close>

lemma totalWeight_defaults:
  "text_totalWeight DefaultWeights = Fin 1"
  "image_totalWeight DefaultImageWeights = Fin 1"
  "audio_totalWeight DefaultAudioWeights = Fin 1"
  "video_totalWeight DefaultVideoWeights = Fin 1"
  by (simp_all add: text_totalWeight_def DefaultWeights_def image_totalWeight_def
      DefaultImageWeights_def audio_totalWeight_def DefaultAudioWeights_def
      video_totalWeight_def DefaultVideoWeights_def)

lemma clamp_Fin: "math_Max (Fin 0) (math_Min (Fin 1) (Fin x)) = Fin (clamp01 x)"
  by (auto simp: math_Max_def math_Min_def clamp01_def)


lemma text_score_finite:
  "text_calculateWeightedScore DefaultWeights
     \<lparr>SentenceVariance = Fin a, VocabularyRichness = Fin b, Burstiness = Fin c,
      PunctuationVariety = Fin d, AIPhraseScore = Fin e, WordLengthVariance = Fin f,
      ContractionsUsage = Fin g, RepetitionScore = Fin h\<rparr>
   = Fin (clamp01 ((a * 0.15 + b * 0.20 + c * 0.10 + d * 0.10 + e * 0.20 + f * 0.05
                    + g * 0.10 + h * 0.10)
                   / (0.15 + 0.20 + 0.10 + 0.10 + 0.20 + 0.05 + 0.10 + 0.10)))"
  unfolding text_calculateWeightedScore_def Let_def totalWeight_defaults
  by (simp add: DefaultWeights_def fgt_def clamp_Fin)

lemma image_score_finite:
  "image_calculateWeightedScore DefaultImageWeights
     \<lparr>i_MetadataScore = Fin a, i_ColorDistribution = Fin b, i_EdgeConsistency = Fin c,
      i_NoisePattern = Fin d, i_CompressionAnalysis = Fin e, i_SymmetryScore = Fin f\<rparr>
   = Fin (clamp01 ((a * 0.25 + b * 0.20 + c * 0.15 + d * 0.15 + e * 0.15 + f * 0.10)
                   / (0.25 + 0.20 + 0.15 + 0.15 + 0.15 + 0.10)))"
  unfolding image_calculateWeightedScore_def Let_def totalWeight_defaults
  by (simp add: DefaultImageWeights_def fgt_def clamp_Fin)

lemma audio_score_finite:
  "audio_calculateWeightedScore DefaultAudioWeights
     \<lparr>a_MetadataScore = Fin a, a_FormatAnalysis = Fin b, a_PatternAnalysis = Fin c,
      a_QualityIndicators = Fin d, a_AISignatures = Fin e, a_NoiseProfile = Fin f\<rparr>
   = Fin (clamp01 ((a * 0.25 + b * 0.15 + c * 0.20 + d * 0.15 + e * 0.15 + f * 0.10)
                   / (0.25 + 0.15 + 0.20 + 0.15 + 0.15 + 0.10)))"
  unfolding audio_calculateWeightedScore_def Let_def totalWeight_defaults
  by (simp add: DefaultAudioWeights_def fgt_def clamp_Fin)

lemma video_score_finite:
  "video_calculateWeightedScore DefaultVideoWeights
     \<lparr>v_MetadataScore = Fin a, v_ContainerAnalysis = Fin b, v_AudioPresence = Fin c,
      v_TemporalPattern = Fin d, v_EncodingSignature = Fin e, v_BitrateConsistency = Fin f\<rparr>
   = Fin (clamp01 ((a * 0.25 + b * 0.20 + c * 0.15 + d * 0.15 + e * 0.15 + f * 0.10)
                   / (0.25 + 0.20 + 0.15 + 0.15 + 0.15 + 0.10)))"
  unfolding video_calculateWeightedScore_def Let_def totalWeight_defaults
  by (simp add: DefaultVideoWeights_def fgt_def clamp_Fin)



text \<open>
  Claim C9: for each of the four modalities the default weights, summed as the weighted
  score sums them, give a total within 0.01 of 1.
\<close>

theorem C9_default_weights_sum_to_one:
  "near_one (text_totalWeight DefaultWeights)
   \<and> near_one (image_totalWeight DefaultImageWeights)
   \<and> near_one (audio_totalWeight DefaultAudioWeights)
   \<and> near_one (video_totalWeight DefaultVideoWeights)"
  by (simp add: totalWeight_defaults)

section \<open>The environment\<close>

text \<open>
  What the detector takes from outside the repository is a parameter of the model, the
  record \<open>Env\<close>:
  \<^item> the Unicode-aware functions of Go's library applied to whole texts and buffers:
    \<open>strings.ToLower\<close> (and \<open>bytes.ToLower\<close>, the same mapping), \<open>strings.TrimSpace\<close>, and
    the runes of a text for which \<open>unicode.IsPunct\<close> holds, in order, as code points;
  \<^item> the digest \<open>sha256\<close>;
  \<^item> the network: the HTTP fetch of a URL (the whole body) and the external detectors
    (called with the API key and the content), each giving an error message or a value;
  \<^item> the clock: the duration measured by \<open>time.Since\<close>;
  \<^item> the order in which a \<open>range\<close> loop visits the keys of the two encoder maps (Go leaves
    the iteration order of a map unspecified).
  The theorems hold for every environment. Concrete evaluations use \<open>ascii_env\<close>, defined
  below, whose library functions are the ASCII ones (exact on ASCII input), in which every
  network call fails, and whose digest is a stand-in.
\<close>

record Env =
  strings_ToLower :: "string \<Rightarrow> string"
  strings_TrimSpace :: "string \<Rightarrow> string"
  punct_runes :: "string \<Rightarrow> nat list"
  sha256_Sum :: "bytes \<Rightarrow> bytes"
  http_Get :: "string \<Rightarrow> string + bytes"
  hive_text :: "string \<Rightarrow> string \<Rightarrow> string + f64"
  gptzero_text :: "string \<Rightarrow> string \<Rightarrow> string + f64"
  openai_text :: "string \<Rightarrow> string \<Rightarrow> string + f64"
  hive_image :: "string \<Rightarrow> bytes \<Rightarrow> string + f64"
  hive_audio :: "string \<Rightarrow> bytes \<Rightarrow> string + f64"
  hive_video :: "string \<Rightarrow> string \<Rightarrow> string + f64"
  time_Since :: int
  video_encoders_order :: "string list"
  audio_encoders_order :: "string list"

section \<open>Text analysis\<close>

text \<open>
  The text analyzer works on the bytes of the text. The regular expressions of the
  tokenizer and of the sentence splitter match ASCII characters only, so they are exact
  on bytes, and the words of the tokenizer are ASCII, on which \<open>strings.ToLower\<close> is
  \<open>ToLower\<close> below. The statistics record of the result, which no score depends on, is
  left out.
\<close>

subsection \<open>Strings\<close>

definition ToLower_byte :: "char \<Rightarrow> char" where
  "ToLower_byte c =
     (let n = (of_char c :: nat) in if 65 \<le> n \<and> n \<le> 90 then char_of (n + 32) else c)"

definition ToLower :: "string \<Rightarrow> string" where
  "ToLower s = map ToLower_byte s"

text \<open>\<open>strings.Count\<close>: the number of non-overlapping occurrences.\<close>

function Count :: "string \<Rightarrow> string \<Rightarrow> int" where
  "Count s sub =
     (if sub = [] then len s + 1
      else if s = [] then 0
      else if has_prefix s sub then 1 + Count (drop (length sub) s) sub
      else Count (tl s) sub)"
  by pat_completeness auto
termination
  by (relation "measure (\<lambda>(s, sub). length s)") auto

declare Count.simps [simp del]

text \<open>
  White space: \<open>\s\<close> of the regular expressions is \<open>[\t\n\f\r ]\<close>; on ASCII text
  \<open>strings.TrimSpace\<close> also trims the vertical tab.
\<close>

definition is_re_space :: "char \<Rightarrow> bool" where
  "is_re_space c = (c \<in> set [CHR 0x09, CHR 0x0A, CHR 0x0C, CHR 0x0D, CHR 0x20])"

definition is_space :: "char \<Rightarrow> bool" where
  "is_space c = (is_re_space c \<or> c = CHR 0x0B)"

definition ascii_TrimSpace :: "string \<Rightarrow> string" where
  "ascii_TrimSpace s = rev (dropWhile is_space (rev (dropWhile is_space s)))"

text \<open>\<open>unicode.IsPunct\<close> on ASCII: the characters of the Unicode category P.\<close>

definition IsPunct :: "char \<Rightarrow> bool" where
  "IsPunct c = (c \<in> set
     [CHR 0x21, CHR 0x22, CHR 0x23, CHR 0x25, CHR 0x26, CHR 0x27, CHR 0x28, CHR 0x29,
      CHR 0x2A, CHR 0x2C, CHR 0x2D, CHR 0x2E, CHR 0x2F, CHR 0x3A, CHR 0x3B, CHR 0x3F,
      CHR 0x40, CHR 0x5B, CHR 0x5C, CHR 0x5D, CHR 0x5F, CHR 0x7B, CHR 0x7D])"

text \<open>
  \<open>tokenize\<close>: all matches of \<open>[a-zA-Z']+\<close>, that is the maximal runs of letters and
  apostrophes, from left to right.
\<close>

definition is_word_char :: "char \<Rightarrow> bool" where
  "is_word_char c =
     (let n = (of_char c :: nat)
      in (97 \<le> n \<and> n \<le> 122) \<or> (65 \<le> n \<and> n \<le> 90) \<or> n = 39)"

function tokenize :: "string \<Rightarrow> string list" where
  "tokenize [] = []"
| "tokenize (c # cs) =
     (if is_word_char c
      then (c # takeWhile is_word_char cs) # tokenize (dropWhile is_word_char cs)
      else tokenize cs)"
  by pat_completeness auto
termination
  by (relation "measure length") (auto simp: le_imp_less_Suc length_dropWhile_le)

declare tokenize.simps [simp del]

text \<open>
  \<open>splitSentences\<close>: the text is split at the matches of \<open>[.!?]+\s+\<close> (a run of
  sentence-ending marks followed by white space; the leftmost match starts at the first
  mark of the run and takes all the white space), each part is trimmed, and the empty
  parts are dropped. \<open>split_parts rest cur\<close> returns the parts of \<open>cur @ rest\<close>, where
  \<open>cur\<close> is the part being read.
\<close>

definition is_ender :: "char \<Rightarrow> bool" where
  "is_ender c = (c = CHR ''.'' \<or> c = CHR ''!'' \<or> c = CHR ''?'')"

function split_parts :: "string \<Rightarrow> string \<Rightarrow> string list" where
  "split_parts [] cur = [cur]"
| "split_parts (c # cs) cur =
     (if is_ender c
      then (let marks = c # takeWhile is_ender cs;
                after = dropWhile is_ender cs
            in if after \<noteq> [] \<and> is_re_space (hd after)
               then cur # split_parts (dropWhile is_re_space after) []
               else split_parts after (cur @ marks))
      else split_parts cs (cur @ [c]))"
  by pat_completeness auto
termination
  by (relation "measure (\<lambda>(rest, cur). length rest)")
     (auto simp: le_imp_less_Suc length_dropWhile_le
           intro: le_less_trans [OF length_dropWhile_le] )

declare split_parts.simps [simp del]

definition splitSentences :: "Env \<Rightarrow> string \<Rightarrow> string list" where
  "splitSentences E text =
     filter (\<lambda>p. len p > 0) (map (strings_TrimSpace E) (split_parts text []))"

definition commonWords :: "string list" where
  "commonWords = [
     ''a'', ''an'', ''the'',
     ''i'', ''you'', ''he'', ''she'', ''it'',
     ''we'', ''they'', ''me'', ''him'', ''her'',
     ''us'', ''them'', ''my'', ''your'', ''his'',
     ''its'', ''our'', ''their'', ''this'', ''that'',
     ''in'', ''on'', ''at'', ''to'', ''for'',
     ''of'', ''with'', ''by'', ''from'', ''about'',
     ''into'', ''through'', ''during'', ''before'', ''after'',
     ''and'', ''or'', ''but'', ''so'', ''yet'',
     ''if'', ''when'', ''while'', ''because'', ''although'',
     ''is'', ''are'', ''was'', ''were'', ''be'',
     ''been'', ''being'', ''have'', ''has'', ''had'',
     ''do'', ''does'', ''did'', ''will'', ''would'',
     ''could'', ''should'', ''may'', ''might'', ''must'',
     ''can'', ''get'', ''got'', ''make'', ''made'',
     ''not'', ''no'', ''yes'', ''just'', ''only'',
     ''also'', ''very'', ''more'', ''most'', ''some'',
     ''any'', ''all'', ''many'', ''much'', ''other'',
     ''such'', ''than'', ''then'', ''now'', ''here'',
     ''there'', ''where'', ''what'', ''which'', ''who'',
     ''how'', ''why'', ''each'', ''every'', ''both'',
     ''few'', ''new'', ''old'', ''good'', ''bad'',
     ''first'', ''last'', ''long'', ''little'', ''own'',
     ''same'', ''big'', ''high'', ''small'', ''large'',
     ''next'', ''early'', ''young'', ''important'', ''public'',
     ''able'', ''man'', ''woman'', ''time'', ''year'',
     ''people'', ''way'', ''day'', ''thing'', ''world'',
     ''life'', ''hand'', ''part'', ''place'', ''case'',
     ''week'', ''work'', ''fact'', ''group'', ''number'',
     ''night'', ''point'', ''home'', ''water'', ''room'',
     ''mother'', ''area'', ''money'', ''story'', ''month'',
     ''lot'', ''right'', ''study'', ''book'', ''eye'',
     ''job'', ''word'', ''business'', ''issue'', ''side'',
     ''kind'', ''head'', ''house'', ''service'', ''friend'',
     ''father'', ''power'', ''hour'', ''game'', ''line'',
     ''end'', ''member'', ''law'', ''car'', ''city'',
     ''community'', ''name'']"

definition isCommonWord :: "string \<Rightarrow> bool" where
  "isCommonWord word = (ToLower word \<in> set commonWords)"

text \<open>Sums of \<open>float64\<close> values, accumulated from the left as the loops do.\<close>

definition fsum :: "f64 list \<Rightarrow> f64" where
  "fsum xs = foldl fadd (Fin 0) xs"

text \<open>
  Mean and population variance as the analyzers compute them: the sum divided by the
  count, and the sum of squared differences from the mean divided by the count.
\<close>

definition fmean :: "f64 list \<Rightarrow> f64" where
  "fmean xs = fdiv (fsum xs) (float64 (len xs))"

definition fvariance :: "f64 list \<Rightarrow> f64 \<Rightarrow> f64" where
  "fvariance xs mean =
     fdiv (fsum (map (\<lambda>x. fmul (fsub x mean) (fsub x mean)) xs)) (float64 (len xs))"

subsection \<open>The eight signals\<close>

definition analyzeSentenceVariance :: "Env \<Rightarrow> string \<Rightarrow> f64" where
  "analyzeSentenceVariance E text =
     (let sentences = splitSentences E text
      in if len sentences < 3 then Fin 0.5
         else
           (let lengths = map (\<lambda>s. float64 (len (tokenize s))) sentences;
                mean = fmean lengths;
                variance = fvariance lengths mean;
                stdDev = math_Sqrt variance;
                cv = (if fgt mean (Fin 0) then fdiv stdDev mean else Fin 0)
            in fsub (Fin 1) (math_Min (fdiv cv (Fin 0.8)) (Fin 1))))"

text \<open>
  The keys of a Go map built by inserting the elements of a list: each distinct element
  once. The loops over such maps below only count or sum, and sums of exact numbers do
  not depend on the order.
\<close>

definition map_keys :: "'a list \<Rightarrow> 'a list" where
  "map_keys xs = remdups xs"

definition analyzeVocabularyRichness :: "string \<Rightarrow> f64" where
  "analyzeVocabularyRichness text =
     (let words = tokenize text
      in if len words < 10 then Fin 0.5
         else
           (let unique = map_keys (map ToLower words);
                ttr = fdiv (float64 (len unique)) (float64 (len words));
                uncommonCount = len (filter (\<lambda>w. \<not> isCommonWord w \<and> len w > 3) unique);
                uncommonRatio = fdiv (float64 uncommonCount) (float64 (len unique));
                ttrScore = fsub (Fin 1) (math_Min (fdiv ttr (Fin 0.6)) (Fin 1));
                aiScore = fadd (fmul ttrScore (Fin 0.6))
                               (fmul (fsub (Fin 1) uncommonRatio) (Fin 0.4))
            in math_Max (Fin 0) (math_Min (Fin 1) aiScore)))"

text \<open>The positions at which a lower-cased word occurs, in increasing order.\<close>

definition positions_of :: "string list \<Rightarrow> string \<Rightarrow> int list" where
  "positions_of words w =
     map (\<lambda>i. int i) (filter (\<lambda>i. ToLower (words ! i) = w) [0 ..< length words])"

definition gaps_of :: "int list \<Rightarrow> f64 list" where
  "gaps_of positions = map (\<lambda>(a, b). float64 (b - a)) (zip positions (tl positions))"

definition analyzeBurstiness :: "string \<Rightarrow> f64" where
  "analyzeBurstiness text =
     (let words = tokenize text
      in if len words < 20 then Fin 0.5
         else
           (let keys = map_keys (filter (\<lambda>w. len w > 4 \<and> \<not> isCommonWord w)
                                        (map ToLower words));
                repeated = filter (\<lambda>ps. \<not> len ps < 2) (map (positions_of words) keys);
                burst = (\<lambda>ps. let gaps = gaps_of ps;
                                   mean = fmean gaps;
                                   variance = fvariance gaps mean
                               in if fgt mean (Fin 0) then fdiv (math_Sqrt variance) mean
                                  else Fin 0);
                totalBurstiness = fsum (map burst repeated);
                count = len repeated
            in if count = 0 then Fin 0.5
               else
                 (let avgBurstiness = fdiv totalBurstiness (float64 count)
                  in fsub (Fin 1) (math_Min (fdiv avgBurstiness (Fin 1.5)) (Fin 1)))))"

text \<open>The runes \<open>! ? ; : -\<close>, the em dash, \<open>( )\<close>, the double and the single quote.\<close>

definition interestingPunct :: "nat list" where
  "interestingPunct = [0x21, 0x3F, 0x3B, 0x3A, 0x2D, 0x2014, 0x28, 0x29, 0x22, 0x27]"

definition analyzePunctuationVariety :: "Env \<Rightarrow> string \<Rightarrow> f64" where
  "analyzePunctuationVariety E text =
     (let puncts = punct_runes E text;
          totalPunct = len puncts
      in if totalPunct < 5 then Fin 0.5
         else
           (let uniquePunct = len (map_keys puncts);
                variedPunct = len (filter (\<lambda>p. p \<in> set puncts) interestingPunct);
                varietyScore = fdiv (float64 uniquePunct) (Fin 8);
                interestingScore = fdiv (float64 variedPunct) (Fin 5);
                aiScore = fsub (Fin 1) (fadd (fmul varietyScore (Fin 0.5))
                                             (fmul interestingScore (Fin 0.5)))
            in math_Max (Fin 0) (math_Min (Fin 1) aiScore)))"

definition aiPhrases :: "(string \<times> f64) list" where
  "aiPhrases = [
     (''as an ai'', Fin 1.0),
     (''as a language model'', Fin 1.0),
     (''i don't have personal'', Fin 0.9),
     (''i cannot provide'', Fin 0.8),
     (''i'm unable to'', Fin 0.7),
     (''it's important to note'', Fin 0.8),
     (''it is important to'', Fin 0.7),
     (''it's worth noting'', Fin 0.7),
     (''it should be noted'', Fin 0.7),
     (''keep in mind that'', Fin 0.6),
     (''furthermore'', Fin 0.4),
     (''moreover'', Fin 0.4),
     (''additionally'', Fin 0.4),
     (''in conclusion'', Fin 0.5),
     (''to summarize'', Fin 0.5),
     (''in summary'', Fin 0.5),
     (''overall'', Fin 0.3),
     (''i hope this helps'', Fin 0.7),
     (''feel free to'', Fin 0.5),
     (''don't hesitate to'', Fin 0.5),
     (''let me know if'', Fin 0.4),
     (''utilize'', Fin 0.3),
     (''facilitate'', Fin 0.3),
     (''leverage'', Fin 0.3),
     (''delve into'', Fin 0.6),
     (''dive into'', Fin 0.4),
     (''explore the'', Fin 0.3),
     (''here are some'', Fin 0.5),
     (''here's a list'', Fin 0.5),
     (''the following'', Fin 0.4)]"

text \<open>One turn of the loop over the phrase table: the state is the list of detected
  phrases, the total weight and the number of matches.\<close>

definition phrase_step :: "string \<Rightarrow> string list \<times> f64 \<times> int \<Rightarrow> string \<times> f64
    \<Rightarrow> string list \<times> f64 \<times> int" where
  "phrase_step lowerText st phrase =
     (case st of (detected, totalWeight, matchCount) \<Rightarrow>
        if Contains lowerText (fst phrase)
        then (detected @ [fst phrase], fadd totalWeight (snd phrase), matchCount + 1)
        else st)"

definition detectAIPhrases :: "Env \<Rightarrow> string \<Rightarrow> f64 \<times> string list" where
  "detectAIPhrases E text =
     (let lowerText = strings_ToLower E text
      in case foldl (phrase_step lowerText) ([], Fin 0, 0) aiPhrases of
           (detected, totalWeight, matchCount) \<Rightarrow>
             if matchCount = 0 then (Fin 0, detected)
             else
               (let wordCount = len (tokenize text);
                    normalizedScore = fdiv totalWeight (fdiv (float64 wordCount) (Fin 100))
                in (math_Min normalizedScore (Fin 1), detected)))"

definition analyzeWordLengthVariance :: "string \<Rightarrow> f64" where
  "analyzeWordLengthVariance text =
     (let words = tokenize text
      in if len words < 10 then Fin 0.5
         else
           (let lengths = map (\<lambda>w. float64 (len w)) words;
                mean = fmean lengths;
                variance = fvariance lengths mean;
                stdDev = math_Sqrt variance;
                cv = (if fgt mean (Fin 0) then fdiv stdDev mean else Fin 0)
            in fsub (Fin 1) (math_Min (fdiv cv (Fin 0.6)) (Fin 1))))"

definition contractions :: "string list" where
  "contractions = [
     ''i'm'', ''i'll'', ''i've'', ''i'd'',
     ''you're'', ''you'll'', ''you've'', ''you'd'',
     ''he's'', ''she's'', ''it's'', ''we're'', ''they're'',
     ''don't'', ''doesn't'', ''didn't'', ''won't'', ''wouldn't'',
     ''can't'', ''couldn't'', ''shouldn't'', ''isn't'', ''aren't'',
     ''wasn't'', ''weren't'', ''haven't'', ''hasn't'', ''hadn't'',
     ''let's'', ''that's'', ''there's'', ''here's'', ''what's'',
     ''who's'', ''how's'', ''where's'', ''when's'']"

definition analyzeContractions :: "Env \<Rightarrow> string \<Rightarrow> f64" where
  "analyzeContractions E text =
     (let lowerText = strings_ToLower E text;
          wordCount = len (tokenize text)
      in if wordCount < 20 then Fin 0.5
         else
           (let contractionCount = sum_list (map (Count lowerText) contractions);
                contractionRate =
                  fdiv (float64 contractionCount) (fdiv (float64 wordCount) (Fin 100))
            in fsub (Fin 1) (math_Min (fdiv contractionRate (Fin 3)) (Fin 1))))"

text \<open>The first two words of a sentence, lower-cased and joined by a blank, when it has two.\<close>

definition sentence_start :: "string \<Rightarrow> string option" where
  "sentence_start s =
     (case tokenize s of
        w0 # w1 # _ \<Rightarrow> Some (ToLower (w0 @ '' '' @ w1))
      | _ \<Rightarrow> None)"

definition analyzeRepetition :: "Env \<Rightarrow> string \<Rightarrow> f64" where
  "analyzeRepetition E text =
     (let sentences = splitSentences E text
      in if len sentences < 3 then Fin 0.5
         else
           (let starts = List.map_filter sentence_start sentences;
                count = (\<lambda>k. len (filter (\<lambda>x. x = k) starts));
                repetitions = sum_list (map (\<lambda>k. if count k > 1 then count k - 1 else 0)
                                            (map_keys starts));
                repRate = fdiv (float64 repetitions) (float64 (len sentences))
            in math_Min (fmul repRate (Fin 2)) (Fin 1)))"

subsection \<open>The analysis\<close>

record TextAnalysisResult =
  t_AIScore :: f64
  t_Signals :: TextSignals
  t_DetectedAIPhrases :: "string list"

definition text_signals :: "Env \<Rightarrow> string \<Rightarrow> TextSignals" where
  "text_signals E text = \<lparr>
     SentenceVariance = analyzeSentenceVariance E text,
     VocabularyRichness = analyzeVocabularyRichness text,
     Burstiness = analyzeBurstiness text,
     PunctuationVariety = analyzePunctuationVariety E text,
     AIPhraseScore = fst (detectAIPhrases E text),
     WordLengthVariance = analyzeWordLengthVariance text,
     ContractionsUsage = analyzeContractions E text,
     RepetitionScore = analyzeRepetition E text \<rparr>"

text \<open>\<open>NewTextAnalyzer().Analyze(text)\<close>: the analyzer holds the default weights.\<close>

definition text_Analyze :: "Env \<Rightarrow> string \<Rightarrow> TextAnalysisResult" where
  "text_Analyze E text = \<lparr>
     t_AIScore = text_calculateWeightedScore DefaultWeights (text_signals E text),
     t_Signals = text_signals E text,
     t_DetectedAIPhrases = snd (detectAIPhrases E text) \<rparr>"

text \<open>
  The environment of the concrete evaluations: the ASCII library functions, no network, a
  clock that measures nothing, the identity as stand-in for the digest, and the encoder
  maps visited in the order in which the source lists their keys.
\<close>

definition video_encoder_keys :: "string list" where
  "video_encoder_keys =
     [''lavf'', ''ffmpeg'', ''handbrake'', ''premiere'', ''final cut'', ''davinci'',
      ''x264'', ''x265'', ''runway'', ''pika'', ''sora'', ''modelscope'']"

definition audio_encoder_keys :: "string list" where
  "audio_encoder_keys =
     [''lame'', ''ffmpeg'', ''audacity'', ''adobe'', ''logic'', ''pro tools'', ''ableton'',
      ''fl studio'', ''elevenlabs'', ''suno'', ''udio'']"

definition ascii_env :: Env where
  "ascii_env = \<lparr>
     strings_ToLower = ToLower,
     strings_TrimSpace = ascii_TrimSpace,
     punct_runes = (\<lambda>text. map of_char (filter IsPunct text)),
     sha256_Sum = (\<lambda>b. b),
     http_Get = (\<lambda>url. Inl ''no network''),
     hive_text = (\<lambda>key x. Inl ''no network''),
     gptzero_text = (\<lambda>key x. Inl ''no network''),
     openai_text = (\<lambda>key x. Inl ''no network''),
     hive_image = (\<lambda>key x. Inl ''no network''),
     hive_audio = (\<lambda>key x. Inl ''no network''),
     hive_video = (\<lambda>key x. Inl ''no network''),
     time_Since = 0,
     video_encoders_order = video_encoder_keys,
     audio_encoders_order = audio_encoder_keys \<rparr>"

subsection \<open>Short texts\<close>

text \<open>The neutral band of the specification: a finite score between 0.3 and 0.7.\<close>

fun in_band :: "f64 \<Rightarrow> bool" where
  "in_band (Fin s) = (0.3 \<le> s \<and> s \<le> 0.7)"
| "in_band _ = False"

fun pos_fin :: "f64 \<Rightarrow> bool" where
  "pos_fin (Fin w) = (0 < w)"
| "pos_fin _ = False"

lemma in_unitE: "in_unit x \<Longrightarrow> \<exists>p. x = Fin p \<and> 0 \<le> p \<and> p \<le> 1"
  by (cases x) simp_all

lemma pos_finE: "pos_fin x \<Longrightarrow> \<exists>w. x = Fin w \<and> 0 < w"
  by (cases x) simp_all

lemma analyzePunctuationVariety_unit: "in_unit (analyzePunctuationVariety E text)"
  unfolding analyzePunctuationVariety_def Let_def
  by (simp add: float64_def fsub_def clamp_Fin) (simp add: clamp01_def)

text \<open>
  The loop over the phrase table keeps the total weight finite, zero while nothing has
  matched and positive afterwards.
\<close>

definition phrase_inv :: "string list \<times> f64 \<times> int \<Rightarrow> bool" where
  "phrase_inv st =
     (case st of (d, tw, m) \<Rightarrow>
        (\<exists>t. tw = Fin t \<and> 0 \<le> m \<and> (if m = 0 then t = 0 else 0 < t)))"

lemma phrase_step_inv:
  assumes "phrase_inv st" and "snd ph = Fin w" and "0 < w"
  shows "phrase_inv (phrase_step lt st ph)"
  using assms by (auto simp: phrase_inv_def phrase_step_def split: prod.splits if_splits)

lemma foldl_phrase_inv:
  "phrase_inv st \<Longrightarrow> \<forall>ph \<in> set phs. \<exists>w. snd ph = Fin w \<and> 0 < w
   \<Longrightarrow> phrase_inv (foldl (phrase_step lt) st phs)"
proof (induction phs arbitrary: st)
  case Nil
  then show ?case by simp
next
  case (Cons ph phs)
  then obtain w where "snd ph = Fin w" "0 < w" by auto
  then have "phrase_inv (phrase_step lt st ph)"
    using Cons.prems(1) phrase_step_inv by blast
  then show ?case using Cons by simp
qed

lemma aiPhrases_positive: "\<forall>ph \<in> set aiPhrases. \<exists>w. snd ph = Fin w \<and> 0 < w"
proof -
  have "\<forall>ph \<in> set aiPhrases. pos_fin (snd ph)" by (simp add: aiPhrases_def)
  then show ?thesis using pos_finE by blast
qed

lemma detectAIPhrases_unit: "in_unit (fst (detectAIPhrases E text))"
proof -
  let ?lt = "strings_ToLower E text"
  have "phrase_inv ([], Fin 0, 0)" by (simp add: phrase_inv_def)
  then have inv: "phrase_inv (foldl (phrase_step ?lt) ([], Fin 0, 0) aiPhrases)"
    using foldl_phrase_inv aiPhrases_positive by blast
  obtain d tw m where st:
    "foldl (phrase_step ?lt) ([], Fin 0, 0) aiPhrases = (d, tw, m)"
    by (cases "foldl (phrase_step ?lt) ([], Fin 0, 0) aiPhrases") auto
  from inv st obtain t where t: "tw = Fin t" "0 \<le> m" "if m = 0 then t = 0 else 0 < t"
    by (auto simp: phrase_inv_def)
  show ?thesis
  proof (cases "m = 0")
    case True
    then show ?thesis by (simp add: detectAIPhrases_def st)
  next
    case False
    then have tp: "0 < t" using t by simp
    have n: "0 \<le> len (tokenize text)" by (simp add: len_def)
    show ?thesis
    proof (cases "len (tokenize text) = 0")
      case True
      then show ?thesis using False tp t
        by (simp add: detectAIPhrases_def st Let_def float64_def inf_of_sign_def math_Min_def)
    next
      case nz: False
      then have "0 < real_of_int (len (tokenize text))" using n by simp
      then show ?thesis using False tp t nz
        by (auto simp add: detectAIPhrases_def st Let_def float64_def math_Min_def)
    qed
  qed
qed

text \<open>The analysis of the text \<open>a. 1. 2\<close>: one word, three sentences.\<close>

lemma ascii_env_simps:
  "strings_ToLower ascii_env = ToLower"
  "strings_TrimSpace ascii_env = ascii_TrimSpace"
  "punct_runes ascii_env = (\<lambda>text. map of_char (filter IsPunct text))"
  by (simp_all add: ascii_env_def)

lemma a12_tokens: "tokenize ''a. 1. 2'' = [''a'']"
  by code_simp

lemma a12_sentences: "splitSentences ascii_env ''a. 1. 2'' = [''a'', ''1'', ''2'']"
  unfolding splitSentences_def ascii_env_simps by code_simp

lemma a12_lengths: "map (\<lambda>s. len (tokenize s)) [''a'', ''1'', ''2''] = [1, 0, 0]"
  by code_simp

lemma a12_puncts: "punct_runes ascii_env ''a. 1. 2'' = [0x2E, 0x2E]"
  unfolding ascii_env_simps by code_simp

lemma a12_phrases: "detectAIPhrases ascii_env ''a. 1. 2'' = (Fin 0, [])"
  unfolding detectAIPhrases_def ascii_env_simps by code_simp

lemma a12_starts: "List.map_filter sentence_start [''a'', ''1'', ''2''] = []"
  by code_simp

lemma a12_SentenceVariance: "analyzeSentenceVariance ascii_env ''a. 1. 2'' = Fin 0"
proof -
  have s: "sqrt (2 / 9) \<ge> 4 / 15"
    by (rule real_le_rsqrt) (simp add: power2_eq_square)
  have l: "map (\<lambda>s. float64 (len (tokenize s))) [''a'', ''1'', ''2''] = [Fin 1, Fin 0, Fin 0]"
    using a12_lengths by (simp add: float64_def)
  show ?thesis
    unfolding analyzeSentenceVariance_def Let_def a12_sentences l
    using s by (simp add: len_def fmean_def fvariance_def fsum_def float64_def fsub_def
        fgt_def math_Min_def)
qed

lemma a12_Repetition: "analyzeRepetition ascii_env ''a. 1. 2'' = Fin 0"
  unfolding analyzeRepetition_def Let_def a12_sentences a12_starts
  by (simp add: len_def map_keys_def float64_def math_Min_def)

lemma a12_PunctuationVariety: "analyzePunctuationVariety ascii_env ''a. 1. 2'' = Fin 0.5"
  unfolding analyzePunctuationVariety_def Let_def a12_puncts
  by (simp add: len_def)

lemma a12_fallbacks:
  "analyzeVocabularyRichness ''a. 1. 2'' = Fin 0.5"
  "analyzeBurstiness ''a. 1. 2'' = Fin 0.5"
  "analyzeWordLengthVariance ''a. 1. 2'' = Fin 0.5"
  "analyzeContractions ascii_env ''a. 1. 2'' = Fin 0.5"
  unfolding analyzeVocabularyRichness_def analyzeBurstiness_def
    analyzeWordLengthVariance_def analyzeContractions_def Let_def a12_tokens
  by (simp_all add: len_def)

lemma a12_score: "t_AIScore (text_Analyze ascii_env ''a. 1. 2'') = Fin 0.275"
  unfolding text_Analyze_def text_signals_def a12_SentenceVariance a12_Repetition
    a12_fallbacks a12_PunctuationVariety a12_phrases
  by (simp add: text_score_finite clamp01_def)

text \<open>
  Claim C8, as stated: every text of fewer than 3 words has a score in [0.3, 0.7]. The
  text \<open>a. 1. 2\<close> has one word but three sentences, so the sentence-variance and
  repetition signals do not fall back to 0.5: both are 0, and the score is 0.275.
\<close>

theorem C8_three_sentences_counterexample:
  "len (tokenize ''a. 1. 2'') < 3
   \<and> \<not> in_band (t_AIScore (text_Analyze ascii_env ''a. 1. 2''))"
  unfolding a12_tokens a12_score by (simp add: len_def)

text \<open>
  Claim C8, amended: every text of fewer than 3 words that also splits into fewer than
  3 sentences has a score in [0.3, 0.7]. Six signals return the fallback 0.5, and the
  punctuation and phrase signals lie in [0,1], which keeps the score in [0.35, 0.65].
\<close>

theorem C8_short_text_neutral:
  assumes "len (tokenize text) < 3" and "len (splitSentences E text) < 3"
  shows "in_band (t_AIScore (text_Analyze E text))"
proof -
  obtain p where p: "analyzePunctuationVariety E text = Fin p" "0 \<le> p" "p \<le> 1"
    using analyzePunctuationVariety_unit in_unitE by blast
  obtain q where q: "fst (detectAIPhrases E text) = Fin q" "0 \<le> q" "q \<le> 1"
    using detectAIPhrases_unit in_unitE by blast
  have r: "analyzeSentenceVariance E text = Fin 0.5" "analyzeRepetition E text = Fin 0.5"
    "analyzeVocabularyRichness text = Fin 0.5" "analyzeBurstiness text = Fin 0.5"
    "analyzeWordLengthVariance text = Fin 0.5" "analyzeContractions E text = Fin 0.5"
    using assms
    by (simp_all add: analyzeSentenceVariance_def analyzeRepetition_def
        analyzeVocabularyRichness_def analyzeBurstiness_def analyzeWordLengthVariance_def
        analyzeContractions_def Let_def)
  have "t_AIScore (text_Analyze E text)
      = Fin (clamp01 ((0.5 * 0.15 + 0.5 * 0.20 + 0.5 * 0.10 + p * 0.10 + q * 0.20
                       + 0.5 * 0.05 + 0.5 * 0.10 + 0.5 * 0.10)
                      / (0.15 + 0.20 + 0.10 + 0.10 + 0.20 + 0.05 + 0.10 + 0.10)))"
    unfolding text_Analyze_def text_signals_def r p q
    by (simp only: TextAnalysisResult.simps text_score_finite)
  then show ?thesis
    using p q by (simp add: clamp01_def)
qed

theorem C8_short_text_witness:
  "len (tokenize ''Hello world'') < 3 \<and> len (splitSentences ascii_env ''Hello world'') < 3
   \<and> in_band (t_AIScore (text_Analyze ascii_env ''Hello world''))"
proof -
  have t: "tokenize ''Hello world'' = [''Hello'', ''world'']" by code_simp
  have s: "splitSentences ascii_env ''Hello world'' = [''Hello world'']"
    unfolding splitSentences_def ascii_env_simps by code_simp
  have h: "len (tokenize ''Hello world'') < 3"
    "len (splitSentences ascii_env ''Hello world'') < 3"
    unfolding t s by (simp_all add: len_def)
  show ?thesis
    using h C8_short_text_neutral [OF h] by simp
qed

section \<open>Loops and decoding over byte buffers\<close>

text \<open>
  A search loop \<open>for i := lo; i < hi; i++ { if cond(i) { ...; break } }\<close>: the first index
  from \<open>lo\<close> below \<open>hi\<close> at which the condition holds, if any. The condition may panic.
\<close>

function first_index :: "(int \<Rightarrow> bool option) \<Rightarrow> int \<Rightarrow> int \<Rightarrow> int option option" where
  "first_index cond i hi =
     (if i < hi
      then (case cond i of
              None \<Rightarrow> None
            | Some True \<Rightarrow> Some (Some i)
            | Some False \<Rightarrow> first_index cond (i + 1) hi)
      else Some None)"
  by pat_completeness auto
termination
  by (relation "measure (\<lambda>(cond, i, hi). nat (hi - i))") auto

declare first_index.simps [simp del]

text \<open>The values of the counter of \<open>for i := lo; i < hi; i += step\<close>, for a positive step.\<close>

function range_step :: "int \<Rightarrow> int \<Rightarrow> int \<Rightarrow> int list" where
  "range_step lo hi step =
     (if 0 < step \<and> lo < hi then lo # range_step (lo + step) hi step else [])"
  by pat_completeness auto
termination
  by (relation "measure (\<lambda>(lo, hi, step). nat (hi - lo))") auto

declare range_step.simps [simp del]

text \<open>A loop body run for each value of a list, collecting the results; a panic ends it.\<close>

definition for_each :: "'a list \<Rightarrow> ('a \<Rightarrow> 'b option) \<Rightarrow> 'b list option" where
  "for_each xs body = those (map body xs)"

text \<open>
  \<open>binary.BigEndian\<close> and \<open>binary.LittleEndian\<close>: each decoder reads the first bytes of its
  argument and panics when it is too short.
\<close>

definition be_uint16 :: "bytes \<Rightarrow> nat option" where
  "be_uint16 b = (case b of b0 # b1 # _ \<Rightarrow> Some (of_char b0 * 256 + of_char b1) | _ \<Rightarrow> None)"

definition be_uint32 :: "bytes \<Rightarrow> nat option" where
  "be_uint32 b =
     (case b of
        b0 # b1 # b2 # b3 # _ \<Rightarrow>
          Some (((of_char b0 * 256 + of_char b1) * 256 + of_char b2) * 256 + of_char b3)
      | _ \<Rightarrow> None)"

definition le_uint16 :: "bytes \<Rightarrow> nat option" where
  "le_uint16 b = (case b of b0 # b1 # _ \<Rightarrow> Some (of_char b0 + of_char b1 * 256) | _ \<Rightarrow> None)"

definition le_uint32 :: "bytes \<Rightarrow> nat option" where
  "le_uint32 b =
     (case b of
        b0 # b1 # b2 # b3 # _ \<Rightarrow>
          Some (of_char b0 + (of_char b1 + (of_char b2 + of_char b3 * 256) * 256) * 256)
      | _ \<Rightarrow> None)"

text \<open>
  \<open>calculateEntropy\<close> (video analyzer, used by the audio analyzer too): the Shannon
  entropy of the byte frequencies, divided by 8. The frequencies are visited in the order
  of the byte values.
\<close>

definition byte_count :: "bytes \<Rightarrow> nat \<Rightarrow> int" where
  "byte_count data v = len (filter (\<lambda>b. of_char b = v) data)"

definition entropy_sum :: "bytes \<Rightarrow> f64" where
  "entropy_sum data =
     foldl (\<lambda>entropy v.
              let f = byte_count data v
              in if f > 0
                 then (let p = fdiv (float64 f) (float64 (len data))
                       in fsub entropy (fmul p (math_Log2 p)))
                 else entropy)
           (Fin 0) [0 ..< 256]"

definition calculateEntropy :: "bytes \<Rightarrow> f64" where
  "calculateEntropy data =
     (if len data = 0 then Fin 0 else fdiv (entropy_sum data) (Fin 8))"

text \<open>\<open>byteSimilarity\<close> (image analyzer): the fraction of positions with equal bytes.\<close>

definition byteSimilarity :: "bytes \<Rightarrow> bytes \<Rightarrow> f64" where
  "byteSimilarity a b =
     (if len a \<noteq> len b then Fin 0
      else fdiv (float64 (len (filter (\<lambda>(x, y). x = y) (zip a b)))) (float64 (len a)))"

section \<open>Image analysis\<close>

text \<open>
  Integer division is Go's, truncating towards zero; every dividend and divisor below is
  non-negative, where it agrees with \<open>div\<close>.
\<close>

record ImageMetadata =
  im_HasEXIF :: bool
  im_CameraMake :: string
  im_CameraModel :: string
  im_Software :: string
  im_DateTaken :: string
  im_HasGPS :: bool
  im_IsScreenshot :: bool
  im_FileFormat :: string

definition ImageMetadata_zero :: ImageMetadata where
  "ImageMetadata_zero = \<lparr>
     im_HasEXIF = False, im_CameraMake = [], im_CameraModel = [], im_Software = [],
     im_DateTaken = [], im_HasGPS = False, im_IsScreenshot = False, im_FileFormat = [] \<rparr>"

record ImageStats =
  is_Width :: int
  is_Height :: int
  is_BitDepth :: int
  is_ColorChannels :: int
  is_EstimatedColors :: int
  is_AvgBrightness :: f64
  is_Contrast :: f64

definition ImageStats_zero :: ImageStats where
  "ImageStats_zero = \<lparr>
     is_Width = 0, is_Height = 0, is_BitDepth = 0, is_ColorChannels = 0,
     is_EstimatedColors = 0, is_AvgBrightness = Fin 0, is_Contrast = Fin 0 \<rparr>"

text \<open>The string searches of \<open>parseJPEGMetadata\<close> in the payload of the Exif segment.\<close>

definition exif_fields :: "bytes \<Rightarrow> ImageMetadata \<Rightarrow> ImageMetadata" where
  "exif_fields exifData meta =
     meta \<lparr>
       im_HasEXIF := True,
       im_CameraMake :=
         (if Contains exifData ''Apple'' then ''Apple''
          else if Contains exifData ''Canon'' then ''Canon''
          else if Contains exifData ''Nikon'' then ''Nikon''
          else if Contains exifData ''Sony'' then ''Sony''
          else if Contains exifData ''Samsung'' then ''Samsung''
          else if Contains exifData ''Google'' then ''Google''
          else im_CameraMake meta),
       im_Software :=
         (if Contains exifData ''Photoshop'' then ''Photoshop''
          else if Contains exifData ''GIMP'' then ''GIMP''
          else if Contains exifData ''Lightroom'' then ''Lightroom''
          else if Contains exifData ''DALL-E'' \<or> Contains exifData ''Midjourney''
                  \<or> Contains exifData ''Stable Diffusion'' then ''AI Generator''
          else im_Software meta),
       im_HasGPS := (if Contains exifData ''GPS'' then True else im_HasGPS meta) \<rparr>"

definition parseJPEGMetadata :: "bytes \<Rightarrow> ImageMetadata option" where
  "parseJPEGMetadata data =
     (let meta = ImageMetadata_zero \<lparr> im_FileFormat := ''jpeg'' \<rparr>
      in if len data < 12 then Some meta
         else do {
           found \<leftarrow> first_index
                      (\<lambda>i. and_also (byte_eq data i (CHR 0xFF)) (byte_eq data (i + 1) (CHR 0xE1)))
                      0 (len data - 10);
           meta \<leftarrow>
             (case found of
                None \<Rightarrow> Some meta
              | Some i \<Rightarrow>
                  if i + 10 < len data
                  then do {
                    segment \<leftarrow> slice data (i + 4) (len data);
                    isExif \<leftarrow> and_also (Some (len segment \<ge> 6)) (slice_eq segment 0 4 ''Exif'');
                    Some (if isExif then exif_fields segment meta else meta)
                  }
                  else Some meta);
           Some (if im_Software meta = [] \<and> \<not> im_HasEXIF meta
                 then meta \<lparr> im_IsScreenshot := True \<rparr> else meta)
         })"

text \<open>
  The chunk walk of \<open>parsePNGMetadata\<close>, from offset \<open>i\<close>: four bytes of length, four of
  type, the data and four bytes of checksum.
\<close>

function png_chunks :: "bytes \<Rightarrow> int \<Rightarrow> ImageMetadata \<Rightarrow> ImageMetadata option" where
  "png_chunks data i meta =
     (if i < len data - 8
      then (if i + 8 > len data then Some meta
            else
              (case Option.bind (slice data i (i + 4)) be_uint32 of
                 None \<Rightarrow> None
               | Some chunkLen \<Rightarrow>
                   (case slice data (i + 4) (i + 8) of
                      None \<Rightarrow> None
                    | Some chunkType \<Rightarrow>
                        (let meta1 = (if chunkType = ''tEXt'' \<or> chunkType = ''iTXt''
                                      then meta \<lparr> im_HasEXIF := True \<rparr> else meta)
                         in case (if chunkLen > 0 \<and> i + 8 + int chunkLen < len data
                                  then map_option
                                         (\<lambda>chunkData.
                                            if Contains chunkData ''DALL-E''
                                               \<or> Contains chunkData ''Midjourney''
                                               \<or> Contains chunkData ''Stable Diffusion''
                                               \<or> Contains chunkData ''ComfyUI''
                                            then meta1 \<lparr> im_Software := ''AI Generator'' \<rparr>
                                            else meta1)
                                         (slice data (i + 8) (i + 8 + int chunkLen))
                                  else Some meta1) of
                              None \<Rightarrow> None
                            | Some meta2 \<Rightarrow> png_chunks data (i + 12 + int chunkLen) meta2))))
      else Some meta)"
  by pat_completeness auto
termination
  by (relation "measure (\<lambda>(data, i, meta). nat (len data - i))") auto

declare png_chunks.simps [simp del]

definition parsePNGMetadata :: "bytes \<Rightarrow> ImageMetadata option" where
  "parsePNGMetadata data = png_chunks data 8 (ImageMetadata_zero \<lparr> im_FileFormat := ''png'' \<rparr>)"

definition extractMetadata :: "bytes \<Rightarrow> string \<Rightarrow> ImageMetadata option" where
  "extractMetadata data format =
     (if format = ''jpeg'' then parseJPEGMetadata data
      else if format = ''png'' then parsePNGMetadata data
      else Some (ImageMetadata_zero \<lparr> im_FileFormat := format \<rparr>))"

definition getJPEGStats :: "bytes \<Rightarrow> ImageStats option" where
  "getJPEGStats data = do {
     found \<leftarrow> first_index
                (\<lambda>i. and_also (byte_eq data i (CHR 0xFF))
                        (or_else (byte_eq data (i + 1) (CHR 0xC0)) (byte_eq data (i + 1) (CHR 0xC2))))
                0 (len data - 10);
     case found of
       None \<Rightarrow> Some ImageStats_zero
     | Some i \<Rightarrow>
         if i + 9 < len data
         then do {
           depth \<leftarrow> idx data (i + 4);
           height \<leftarrow> Option.bind (slice data (i + 5) (i + 7)) be_uint16;
           width \<leftarrow> Option.bind (slice data (i + 7) (i + 9)) be_uint16;
           channels \<leftarrow> idx data (i + 9);
           Some (ImageStats_zero \<lparr> is_BitDepth := ival depth, is_Height := int height,
                                   is_Width := int width, is_ColorChannels := ival channels \<rparr>)
         }
         else Some ImageStats_zero
   }"

definition getPNGStats :: "bytes \<Rightarrow> ImageStats option" where
  "getPNGStats data =
     (if len data \<ge> 24
      then do {
        width \<leftarrow> Option.bind (slice data 16 20) be_uint32;
        height \<leftarrow> Option.bind (slice data 20 24) be_uint32;
        stats \<leftarrow> Some (ImageStats_zero \<lparr> is_Width := int width, is_Height := int height \<rparr>);
        if len data \<ge> 25
        then do { depth \<leftarrow> idx data 24; Some (stats \<lparr> is_BitDepth := ival depth \<rparr>) }
        else Some stats
      }
      else Some ImageStats_zero)"

definition getImageStats :: "bytes \<Rightarrow> string \<Rightarrow> ImageStats option" where
  "getImageStats data format =
     (if format = ''jpeg'' then getJPEGStats data
      else if format = ''png'' then getPNGStats data
      else Some ImageStats_zero)"

definition image_analyzeMetadata :: "ImageMetadata \<Rightarrow> f64" where
  "image_analyzeMetadata meta =
     (let score = Fin 0.5;
          score = (if im_HasEXIF meta then fsub score (Fin 0.2) else fadd score (Fin 0.2));
          score = (if im_CameraMake meta \<noteq> [] then fsub score (Fin 0.2) else score);
          score = (if im_HasGPS meta then fsub score (Fin 0.2) else score);
          score = (if im_Software meta = ''AI Generator'' then fadd score (Fin 0.4) else score);
          score = (if im_IsScreenshot meta then fadd score (Fin 0.1) else score)
      in math_Max (Fin 0) (math_Min (Fin 1) score))"

definition analyzeColorDistribution :: "bytes \<Rightarrow> string \<Rightarrow> f64 option" where
  "analyzeColorDistribution data format =
     (if len data < 1000 then Some (Fin 0.5)
      else
        (let startOffset = (if format = ''png'' then 50 else 100)
         in if len data < startOffset + 1000 then Some (Fin 0.5)
            else do {
              sample \<leftarrow> slice data startOffset (startOffset + 1000);
              let normalizedEntropy = fdiv (entropy_sum sample) (Fin 8);
              Some (if flt normalizedEntropy (Fin 0.6) \<or> fgt normalizedEntropy (Fin 0.98)
                    then Fin 0.7 else Fin 0.4)
            }))"

text \<open>The pairs \<open>(xs[i], xs[j])\<close> with \<open>i < j\<close>, in the order of the two nested loops.\<close>

fun pairs :: "'a list \<Rightarrow> ('a \<times> 'a) list" where
  "pairs [] = []"
| "pairs (x # xs) = map (\<lambda>y. (x, y)) xs @ pairs xs"

definition analyzeEdgeConsistency :: "bytes \<Rightarrow> string \<Rightarrow> f64 option" where
  "analyzeEdgeConsistency data format =
     (if len data < 5000 then Some (Fin 0.5)
      else do {
        samples \<leftarrow> for_each (take 10 (range_step 1000 (len data - 256) (len data div 12)))
                     (\<lambda>i. slice data i (i + 256));
        if len samples < 3 then Some (Fin 0.5)
        else
          (let similarityCount =
                 len (filter (\<lambda>(a, b). fgt (byteSimilarity a b) (Fin 0.9)) (pairs samples));
               similarityRatio =
                 fdiv (float64 similarityCount)
                      (float64 (len samples * (len samples - 1) div 2))
           in Some (if fgt similarityRatio (Fin 0.3) then Fin 0.7 else Fin 0.4))
      })"

definition byte_floats :: "bytes \<Rightarrow> f64 list" where
  "byte_floats window = map (\<lambda>b. float64 (ival b)) window"

definition analyzeNoisePattern :: "bytes \<Rightarrow> string \<Rightarrow> f64 option" where
  "analyzeNoisePattern data format =
     (if len data < 2000 then Some (Fin 0.5)
      else if len data < 500 + 1000 then Some (Fin 0.5)
      else do {
        sample \<leftarrow> slice data 500 (500 + 1000);
        variances \<leftarrow> for_each (range_step 0 (len sample - 16) 16)
                       (\<lambda>i. map_option
                               (\<lambda>window. fvariance (byte_floats window)
                                                     (fmean (byte_floats window)))
                               (slice sample i (i + 16)));
        if len variances = 0 then Some (Fin 0.5)
        else
          (let avgVariance = fmean variances;
               varianceOfVariance = fvariance variances avgVariance;
               noiseCV = fdiv (math_Sqrt varianceOfVariance) (fadd avgVariance (Fin 1))
           in Some (if flt avgVariance (Fin 10) then Fin 0.7
                    else if fgt noiseCV (Fin 2) then Fin 0.6
                    else Fin 0.4))
      })"

definition analyzeCompression :: "bytes \<Rightarrow> string \<Rightarrow> f64 option" where
  "analyzeCompression data format =
     (if format \<noteq> ''jpeg'' then Some (Fin 0.5)
      else do {
        found \<leftarrow> first_index
                   (\<lambda>i. and_also (byte_eq data i (CHR 0xFF)) (byte_eq data (i + 1) (CHR 0xDB)))
                   0 (len data - 100);
        case found of
          None \<Rightarrow> Some (Fin 0.5)
        | Some i \<Rightarrow>
            if i + 69 < len data
            then do {
              table \<leftarrow> for_each (range_step (i + 5) (i + 69) 1) (idx data);
              let sum = sum_list (map ival table);
              Some (if sum < 200 then Fin 0.7 else if sum > 3000 then Fin 0.6 else Fin 0.4)
            }
            else Some (Fin 0.5)
      })"

definition analyzeSymmetry :: "bytes \<Rightarrow> string \<Rightarrow> f64 option" where
  "analyzeSymmetry data format =
     (if len data < 2000 then Some (Fin 0.5)
      else
        (let mid = len data div 2
         in if mid + 500 > len data then Some (Fin 0.5)
            else do {
              sample1 \<leftarrow> slice data 100 600;
              sample2 \<leftarrow> slice data mid (mid + 500);
              Some (if fgt (byteSimilarity sample1 sample2) (Fin 0.7) then Fin 0.7 else Fin 0.4)
            }))"

record ImageAnalysisResult =
  i_AIScore :: f64
  i_Signals :: ImageSignals
  i_Metadata :: ImageMetadata
  i_Stats :: ImageStats

text \<open>\<open>NewImageAnalyzer().Analyze(data)\<close>.\<close>

definition image_Analyze :: "bytes \<Rightarrow> ImageAnalysisResult option" where
  "image_Analyze data = do {
     format \<leftarrow> detectImageFormat data;
     metadata \<leftarrow> extractMetadata data format;
     stats \<leftarrow> getImageStats data format;
     color \<leftarrow> analyzeColorDistribution data format;
     edge \<leftarrow> analyzeEdgeConsistency data format;
     noise \<leftarrow> analyzeNoisePattern data format;
     compression \<leftarrow> analyzeCompression data format;
     symmetry \<leftarrow> analyzeSymmetry data format;
     let signals = \<lparr> i_MetadataScore = image_analyzeMetadata metadata,
                      i_ColorDistribution = color, i_EdgeConsistency = edge,
                      i_NoisePattern = noise, i_CompressionAnalysis = compression,
                      i_SymmetryScore = symmetry \<rparr>;
     Some \<lparr> i_AIScore = image_calculateWeightedScore DefaultImageWeights signals,
            i_Signals = signals, i_Metadata = metadata, i_Stats = stats \<rparr>
   }"

subsection \<open>No panic in the image analysis\<close>

lemma first_index_defined:
  assumes "\<And>j. lo \<le> j \<Longrightarrow> j < hi \<Longrightarrow> cond j \<noteq> None"
  shows "\<exists>r. first_index cond lo hi = Some r"
  using assms
proof (induction cond lo hi rule: first_index.induct)
  case (1 cond i hi)
  show ?case
  proof (cases "i < hi")
    case False then show ?thesis by (simp add: first_index.simps)
  next
    case True
    then obtain b where b: "cond i = Some b" using 1(2)[of i] by auto
    show ?thesis
    proof (cases b)
      case True then show ?thesis using b \<open>i < hi\<close> by (simp add: first_index.simps)
    next
      case False
      have "\<exists>r. first_index cond (i + 1) hi = Some r"
        using 1(1)[OF \<open>i < hi\<close> _ ] b False 1(2) by simp
      then show ?thesis using b False \<open>i < hi\<close> by (simp add: first_index.simps)
    qed
  qed
qed

lemma first_index_range:
  "first_index cond lo hi = Some (Some i) \<Longrightarrow> lo \<le> i \<and> i < hi"
proof (induction cond lo hi rule: first_index.induct)
  case (1 cond j hi)
  show ?case
  proof (cases "j < hi")
    case False then show ?thesis using 1(2) by (simp add: first_index.simps)
  next
    case True
    show ?thesis
    proof (cases "cond j")
      case None then show ?thesis using 1(2) True by (simp add: first_index.simps[of cond j hi])
    next
      case (Some b)
      show ?thesis
      proof (cases b)
        case True then show ?thesis using 1(2) Some \<open>j < hi\<close> by (simp add: first_index.simps[of cond j hi])
      next
        case False
        then have "first_index cond (j + 1) hi = Some (Some i)"
          using 1(2) Some \<open>j < hi\<close> by (simp add: first_index.simps[of cond j hi])
        moreover have "b = False" using False by simp
        ultimately have "j + 1 \<le> i \<and> i < hi" using 1(1)[OF \<open>j < hi\<close> Some] by simp
        then show ?thesis by simp
      qed
    qed
  qed
qed

lemma range_step_bounds: "x \<in> set (range_step lo hi step) \<Longrightarrow> lo \<le> x \<and> x < hi"
proof (induction lo hi step rule: range_step.induct)
  case (1 lo hi step)
  then show ?case
    by (auto simp add: range_step.simps[of lo hi step] split: if_splits)
qed

lemma those_defined: "(\<And>x. x \<in> set xs \<Longrightarrow> x \<noteq> None) \<Longrightarrow> \<exists>r. those xs = Some r \<and> length r = length xs"
proof (induction xs)
  case Nil then show ?case by simp
next
  case (Cons a xs)
  then obtain v where "a = Some v" by auto
  moreover obtain r where "those xs = Some r" "length r = length xs" using Cons by auto
  ultimately show ?case by simp
qed

lemma for_each_defined:
  "(\<And>x. x \<in> set xs \<Longrightarrow> body x \<noteq> None) \<Longrightarrow> \<exists>r. for_each xs body = Some r \<and> length r = length xs"
  unfolding for_each_def using those_defined[of "map body xs"] by auto

lemma those_elems: "those xs = Some r \<Longrightarrow> y \<in> set r \<Longrightarrow> Some y \<in> set xs"
proof (induction xs arbitrary: r)
  case Nil then show ?case by simp
next
  case (Cons a xs)
  then show ?case by (auto split: option.splits)
qed

lemma and_also_byte_defined:
  "0 \<le> j \<Longrightarrow> j + 1 < len data \<Longrightarrow> and_also (byte_eq data j c) (byte_eq data (j + 1) d) \<noteq> None"
  by (auto simp add: go_defined)

lemma parseJPEGMetadata_defined: "\<exists>m. parseJPEGMetadata data = Some m"
proof (cases "len data < 12")
  case True then show ?thesis by (simp add: parseJPEGMetadata_def Let_def)
next
  case False
  let ?cond = "\<lambda>i. and_also (byte_eq data i (CHR 0xFF)) (byte_eq data (i + 1) (CHR 0xE1))"
  have "\<exists>r. first_index ?cond 0 (len data - 10) = Some r"
    by (rule first_index_defined) (auto simp add: go_defined)
  then obtain r where r: "first_index ?cond 0 (len data - 10) = Some r" by blast
  show ?thesis
  proof (cases r)
    case None then show ?thesis using False r by (simp add: parseJPEGMetadata_def Let_def)
  next
    case (Some i)
    then have i: "0 \<le> i" "i < len data - 10" using first_index_range r by blast+
    then have s: "slice data (i + 4) (len data) = Some (drop (nat (i + 4)) data)"
      by (simp add: slice_def len_def)
    have "\<exists>b. and_also (Some (6 \<le> len (drop (nat (i + 4)) data))) (slice_eq (drop (nat (i + 4)) data) 0 4 ''Exif'') = Some b"
      by (auto simp add: go_defined)
    then obtain b where b: "and_also (Some (6 \<le> len (drop (nat (i + 4)) data))) (slice_eq (drop (nat (i + 4)) data) 0 4 ''Exif'') = Some b" by blast
    show ?thesis using False r Some i s b
      by (simp add: parseJPEGMetadata_def Let_def)
  qed
qed

lemma length_ge4E: "4 \<le> length b \<Longrightarrow> \<exists>b0 b1 b2 b3 r. b = b0 # b1 # b2 # b3 # r"
  by (auto simp add: numeral_eq_Suc Suc_le_length_iff)

lemma length_ge2E: "2 \<le> length b \<Longrightarrow> \<exists>b0 b1 r. b = b0 # b1 # r"
  by (auto simp add: numeral_eq_Suc Suc_le_length_iff)

lemma be_uint32_defined: "4 \<le> length b \<Longrightarrow> \<exists>n. be_uint32 b = Some n"
  using length_ge4E[of b] by (auto simp add: be_uint32_def)

lemma be_uint16_defined: "2 \<le> length b \<Longrightarrow> \<exists>n. be_uint16 b = Some n"
  using length_ge2E[of b] by (auto simp add: be_uint16_def)

lemma le_uint32_defined: "4 \<le> length b \<Longrightarrow> \<exists>n. le_uint32 b = Some n"
  using length_ge4E[of b] by (auto simp add: le_uint32_def)

lemma le_uint16_defined: "2 \<le> length b \<Longrightarrow> \<exists>n. le_uint16 b = Some n"
  using length_ge2E[of b] by (auto simp add: le_uint16_def)

lemma slice_be32: "0 \<le> i \<Longrightarrow> i + 4 \<le> len data \<Longrightarrow> \<exists>n. Option.bind (slice data i (i + 4)) be_uint32 = Some n"
  using be_uint32_defined[of "take 4 (drop (nat i) data)"]
  by (auto simp add: slice_def len_def)

lemma slice_be16: "0 \<le> i \<Longrightarrow> i + 2 \<le> len data \<Longrightarrow> \<exists>n. Option.bind (slice data i (i + 2)) be_uint16 = Some n"
  using be_uint16_defined[of "take 2 (drop (nat i) data)"]
  by (auto simp add: slice_def len_def)

lemma png_chunks_defined: "0 \<le> i \<Longrightarrow> \<exists>m. png_chunks data i meta = Some m"
proof (induction data i meta rule: png_chunks.induct)
  case (1 data i meta)
  show ?case
  proof (cases "i < len data - 8")
    case False then show ?thesis by (simp add: png_chunks.simps[of data i meta])
  next
    case True
    then have g: "\<not> i + 8 > len data" by simp
    obtain n where n: "Option.bind (slice data i (i + 4)) be_uint32 = Some n"
      using slice_be32[of i data] 1(2) True by auto
    have t: "slice data (i + 4) (i + 8) = Some (take 4 (drop (nat (i + 4)) data))"
      using 1(2) True by (simp add: slice_def)
    let ?meta1 = "(if take 4 (drop (nat (i + 4)) data) = ''tEXt'' \<or> take 4 (drop (nat (i + 4)) data) = ''iTXt''
                                      then meta \<lparr> im_HasEXIF := True \<rparr> else meta)"
    let ?m2 = "(if n > 0 \<and> i + 8 + int n < len data
                                  then map_option
                                         (\<lambda>chunkData.
                                            if Contains chunkData ''DALL-E''
                                               \<or> Contains chunkData ''Midjourney''
                                               \<or> Contains chunkData ''Stable Diffusion''
                                               \<or> Contains chunkData ''ComfyUI''
                                            then ?meta1 \<lparr> im_Software := ''AI Generator'' \<rparr>
                                            else ?meta1)
                                         (slice data (i + 8) (i + 8 + int n))
                                  else Some ?meta1)"
    have "\<exists>m2. ?m2 = Some m2" using 1(2) by (auto simp add: slice_def)
    then obtain m2 where m2: "?m2 = Some m2" by blast
    have "\<exists>m. png_chunks data (i + 12 + int n) m2 = Some m"
      using 1(1)[OF True g n t refl m2] 1(2) by simp
    then show ?thesis
      using True g n t m2 by (simp add: png_chunks.simps[of data i meta] Let_def)
  qed
qed

lemma getJPEGStats_defined: "\<exists>s. getJPEGStats data = Some s"
proof -
  let ?cond = "\<lambda>i. and_also (byte_eq data i (CHR 0xFF))
                        (or_else (byte_eq data (i + 1) (CHR 0xC0)) (byte_eq data (i + 1) (CHR 0xC2)))"
  have "\<exists>r. first_index ?cond 0 (len data - 10) = Some r"
    by (rule first_index_defined) (auto simp add: go_defined)
  then obtain r where r: "first_index ?cond 0 (len data - 10) = Some r" by blast
  show ?thesis
  proof (cases r)
    case None then show ?thesis using r by (simp add: getJPEGStats_def)
  next
    case (Some i)
    then have i: "0 \<le> i" "i < len data - 10" using first_index_range r by blast+
    obtain h where h: "Option.bind (slice data (i + 5) (i + 7)) be_uint16 = Some h"
      using slice_be16[of "i + 5" data] i by (auto simp add: add.commute add.left_commute)
    obtain w where w: "Option.bind (slice data (i + 7) (i + 9)) be_uint16 = Some w"
      using slice_be16[of "i + 7" data] i by (auto simp add: add.commute add.left_commute)
    show ?thesis using r Some i h w
      by (simp add: getJPEGStats_def idx_Some)
  qed
qed

lemma getPNGStats_defined: "\<exists>s. getPNGStats data = Some s"
proof (cases "len data \<ge> 24")
  case False then show ?thesis by (simp add: getPNGStats_def)
next
  case True
  obtain w where w: "Option.bind (slice data 16 20) be_uint32 = Some w"
    using slice_be32[of 16 data] True by auto
  obtain h where h: "Option.bind (slice data 20 24) be_uint32 = Some h"
    using slice_be32[of 20 data] True by auto
  show ?thesis using True w h by (auto simp add: getPNGStats_def idx_Some)
qed

lemma analyzeColorDistribution_defined: "\<exists>s. analyzeColorDistribution data format = Some s"
  by (auto simp add: analyzeColorDistribution_def Let_def slice_def)

lemma analyzeSymmetry_defined: "\<exists>s. analyzeSymmetry data format = Some s"
  by (auto simp add: analyzeSymmetry_def Let_def slice_def)

lemma analyzeCompression_defined: "\<exists>s. analyzeCompression data format = Some s"
proof (cases "format = ''jpeg''")
  case False then show ?thesis by (simp add: analyzeCompression_def)
next
  case True
  let ?cond = "\<lambda>i. and_also (byte_eq data i (CHR 0xFF)) (byte_eq data (i + 1) (CHR 0xDB))"
  have "\<exists>r. first_index ?cond 0 (len data - 100) = Some r"
    by (rule first_index_defined) (auto simp add: go_defined)
  then obtain r where r: "first_index ?cond 0 (len data - 100) = Some r" by blast
  show ?thesis
  proof (cases r)
    case None then show ?thesis using r True by (simp add: analyzeCompression_def)
  next
    case (Some i)
    then have i: "0 \<le> i" "i < len data - 100" using first_index_range r by blast+
    have "\<exists>t. for_each (range_step (i + 5) (i + 69) 1) (idx data) = Some t \<and> length t = length (range_step (i + 5) (i + 69) 1)"
    proof (rule for_each_defined)
      fix x assume "x \<in> set (range_step (i + 5) (i + 69) 1)"
      then have "i + 5 \<le> x \<and> x < i + 69" by (rule range_step_bounds)
      then show "idx data x \<noteq> None" using i by (simp add: idx_def)
    qed
    then obtain t where t: "for_each (range_step (i + 5) (i + 69) 1) (idx data) = Some t" by blast
    show ?thesis using r True Some i t by (simp add: analyzeCompression_def Let_def)
  qed
qed

lemma analyzeNoisePattern_defined: "\<exists>s. analyzeNoisePattern data format = Some s"
proof (cases "len data < 2000")
  case True then show ?thesis by (simp add: analyzeNoisePattern_def)
next
  case False
  let ?sample = "take 1000 (drop 500 data)"
  have s: "slice data 500 (500 + 1000) = Some ?sample" using False by (simp add: slice_def)
  have ls: "len ?sample = 1000" using False by (simp add: len_def)
  let ?body = "(\<lambda>i. map_option
                               (\<lambda>window. fvariance (byte_floats window)
                                                     (fmean (byte_floats window)))
                               (slice ?sample i (i + 16)))"
  have "\<exists>v. for_each (range_step 0 (len ?sample - 16) 16) ?body = Some v \<and> length v = length (range_step 0 (len ?sample - 16) 16)"
  proof (rule for_each_defined)
    fix x assume "x \<in> set (range_step 0 (len ?sample - 16) 16)"
    then have "0 \<le> x \<and> x < len ?sample - 16" by (rule range_step_bounds)
    then show "?body x \<noteq> None" by (simp add: slice_def)
  qed
  then obtain v where v: "for_each (range_step 0 (len ?sample - 16) 16) ?body = Some v" by blast
  show ?thesis using False s v by (simp add: analyzeNoisePattern_def Let_def)
qed

lemma analyzeEdgeConsistency_defined: "\<exists>s. analyzeEdgeConsistency data format = Some s"
proof (cases "len data < 5000")
  case True then show ?thesis by (simp add: analyzeEdgeConsistency_def)
next
  case False
  let ?is = "take 10 (range_step 1000 (len data - 256) (len data div 12))"
  have "\<exists>v. for_each ?is (\<lambda>i. slice data i (i + 256)) = Some v \<and> length v = length ?is"
  proof (rule for_each_defined)
    fix x assume "x \<in> set ?is"
    then have "x \<in> set (range_step 1000 (len data - 256) (len data div 12))" by (rule in_set_takeD)
    then have "1000 \<le> x \<and> x < len data - 256" by (rule range_step_bounds)
    then show "slice data x (x + 256) \<noteq> None" by (simp add: slice_def)
  qed
  then obtain v where v: "for_each ?is (\<lambda>i. slice data i (i + 256)) = Some v" by blast
  show ?thesis using False v by (simp add: analyzeEdgeConsistency_def Let_def)
qed

lemma extractMetadata_defined: "\<exists>m. extractMetadata data format = Some m"
  using parseJPEGMetadata_defined[of data] png_chunks_defined[of 8 data]
  by (auto simp add: extractMetadata_def parsePNGMetadata_def)

lemma getImageStats_defined: "\<exists>m. getImageStats data format = Some m"
  using getJPEGStats_defined[of data] getPNGStats_defined[of data]
  by (auto simp add: getImageStats_def)

lemma image_Analyze_defined: "\<exists>r. image_Analyze data = Some r"
proof -
  obtain f where f: "detectImageFormat data = Some f" using detectImageFormat_total by blast
  obtain m where m: "extractMetadata data f = Some m" using extractMetadata_defined by blast
  obtain st where st: "getImageStats data f = Some st" using getImageStats_defined by blast
  obtain c where c: "analyzeColorDistribution data f = Some c" using analyzeColorDistribution_defined by blast
  obtain e where e: "analyzeEdgeConsistency data f = Some e" using analyzeEdgeConsistency_defined by blast
  obtain n where n: "analyzeNoisePattern data f = Some n" using analyzeNoisePattern_defined by blast
  obtain k where k: "analyzeCompression data f = Some k" using analyzeCompression_defined by blast
  obtain y where y: "analyzeSymmetry data f = Some y" using analyzeSymmetry_defined by blast
  show ?thesis by (simp add: image_Analyze_def f m st c e n k y Let_def)
qed

section \<open>Audio analysis\<close>

record AudioMetadata =
  am_Format :: string
  am_SampleRate :: int
  am_Channels :: int
  am_BitDepth :: int
  am_Bitrate :: int
  am_Duration :: f64
  am_HasID3 :: bool
  am_Artist :: string
  am_Title :: string
  am_EncoderName :: string
  am_IsAIMarked :: bool
  am_HasRecording :: bool

definition AudioMetadata_zero :: AudioMetadata where
  "AudioMetadata_zero = \<lparr>
     am_Format = [], am_SampleRate = 0, am_Channels = 0, am_BitDepth = 0, am_Bitrate = 0,
     am_Duration = Fin 0, am_HasID3 = False, am_Artist = [], am_Title = [],
     am_EncoderName = [], am_IsAIMarked = False, am_HasRecording = False \<rparr>"

record AudioStats =
  as_FileSize :: int
  as_EstimatedFrames :: int
  as_SilenceRatio :: f64
  as_PeakAmplitude :: f64
  as_DynamicRange :: f64

definition AudioStats_zero :: AudioStats where
  "AudioStats_zero = \<lparr>
     as_FileSize = 0, as_EstimatedFrames = 0, as_SilenceRatio = Fin 0,
     as_PeakAmplitude = Fin 0, as_DynamicRange = Fin 0 \<rparr>"

subsection \<open>Markers and encoders\<close>

definition containsAIAudioMarker :: "Env \<Rightarrow> bytes \<Rightarrow> bool" where
  "containsAIAudioMarker E s =
     (let lower = strings_ToLower E s
      in list_ex (Contains lower)
           [''elevenlabs'', ''eleven labs'', ''murf'', ''play.ht'',
            ''resemble'', ''descript'', ''synthesia'', ''wellsaid'',
            ''suno'', ''udio'', ''musicgen'', ''riffusion'',
            ''ai generated'', ''ai-generated'', ''synthetic voice'',
            ''text to speech'', ''text-to-speech'', ''tts'',
            ''voice clone'', ''cloned voice''])"

definition containsRecordingMarker :: "Env \<Rightarrow> bytes \<Rightarrow> bool" where
  "containsRecordingMarker E s =
     (let lower = strings_ToLower E s
      in list_ex (Contains lower)
           [''recorded'', ''recording'', ''studio'', ''microphone'',
            ''live'', ''concert'', ''session'', ''interview'',
            ''iphone'', ''android'', ''voice memo''])"

definition audio_encoders :: "(string \<times> string) list" where
  "audio_encoders =
     [(''lame'', ''LAME''),
      (''ffmpeg'', ''ffmpeg''),
      (''audacity'', ''Audacity''),
      (''adobe'', ''Adobe Audition''),
      (''logic'', ''Logic Pro''),
      (''pro tools'', ''Pro Tools''),
      (''ableton'', ''Ableton Live''),
      (''fl studio'', ''FL Studio''),
      (''elevenlabs'', ''ElevenLabs''),
      (''suno'', ''Suno AI''),
      (''udio'', ''Udio'')]"

text \<open>
  A \<open>range\<close> loop over an encoder map that returns the name of the first key found in the
  text: the keys are visited in the order \<open>order\<close> that the environment gives.
\<close>

definition first_encoder :: "(string \<times> string) list \<Rightarrow> string list \<Rightarrow> bytes \<Rightarrow> string" where
  "first_encoder encoders order lower =
     (case find (\<lambda>key. key \<in> set (map fst encoders) \<and> Contains lower key) order of
        None \<Rightarrow> []
      | Some key \<Rightarrow> (case map_of encoders key of None \<Rightarrow> [] | Some name \<Rightarrow> name))"

definition extractAudioEncoder :: "Env \<Rightarrow> bytes \<Rightarrow> string" where
  "extractAudioEncoder E s =
     first_encoder audio_encoders (audio_encoders_order E) (strings_ToLower E s)"

subsection \<open>Containers\<close>

text \<open>The tag part of \<open>analyzeMP3\<close>: a leading ID3v2 tag with its syncsafe size.\<close>

definition mp3_id3v2 :: "Env \<Rightarrow> bytes \<Rightarrow> AudioMetadata \<Rightarrow> AudioMetadata option" where
  "mp3_id3v2 E data meta = do {
     tagged \<leftarrow> and_also (Some (len data > 10))
                 (and_also (byte_eq data 0 CHR ''I'')
                 (and_also (byte_eq data 1 CHR ''D'') (byte_eq data 2 CHR ''3'')));
     if tagged
     then do {
       b6 \<leftarrow> idx data 6;
       b7 \<leftarrow> idx data 7;
       b8 \<leftarrow> idx data 8;
       b9 \<leftarrow> idx data 9;
       let id3Size = push_bit 21 (ival b6) OR push_bit 14 (ival b7)
                     OR push_bit 7 (ival b8) OR ival b9;
       let meta = meta \<lparr> am_HasID3 := True \<rparr>;
       if id3Size > 0 \<and> id3Size + 10 < len data
       then do {
         id3Data \<leftarrow> slice data 10 (10 + id3Size);
         Some (meta \<lparr>
           am_IsAIMarked := (if containsAIAudioMarker E id3Data then True
                             else am_IsAIMarked meta),
           am_EncoderName := extractAudioEncoder E id3Data,
           am_HasRecording := (if containsRecordingMarker E id3Data then True
                               else am_HasRecording meta) \<rparr>)
       }
       else Some meta
     }
     else Some meta
   }"

text \<open>The frame part: the fields of the first frame header found.\<close>

definition mp3_frame :: "bytes \<Rightarrow> AudioMetadata \<Rightarrow> AudioMetadata option" where
  "mp3_frame data meta = do {
     found \<leftarrow> first_index
                (\<lambda>i. and_also (byte_eq data i (CHR 0xFF))
                        (map_option (\<lambda>b. bval b AND 0xE0 = 0xE0) (idx data (i + 1))))
                0 (len data - 4);
     case found of
       None \<Rightarrow> Some meta
     | Some i \<Rightarrow> do {
         header \<leftarrow> Option.bind (slice data i (i + 4)) be_uint32;
         let bitrateIdx = (header div 2 ^ 12) mod 16;
         let srIdx = (header div 2 ^ 10) mod 4;
         let channelMode = (header div 2 ^ 6) mod 4;
         meta \<leftarrow> (if srIdx < 3
                  then map_option (\<lambda>r. meta \<lparr> am_SampleRate := r \<rparr>)
                         (idx [44100, 48000, 32000, 0] (int srIdx))
                  else Some meta);
         let meta = meta \<lparr> am_Channels := (if channelMode = 3 then 1 else 2) \<rparr>;
         if bitrateIdx < 15
         then map_option (\<lambda>r. meta \<lparr> am_Bitrate := r \<rparr>)
                (idx [0, 32, 40, 48, 56, 64, 80, 96, 112, 128, 160, 192, 224, 256, 320, 0]
                     (int bitrateIdx))
         else Some meta
       }
   }"

definition analyzeMP3 :: "Env \<Rightarrow> bytes \<Rightarrow> (AudioMetadata \<times> AudioStats) option" where
  "analyzeMP3 E data = do {
     meta \<leftarrow> mp3_id3v2 E data (AudioMetadata_zero \<lparr> am_Format := ''mp3'' \<rparr>);
     meta \<leftarrow> mp3_frame data meta;
     meta \<leftarrow> (if len data \<ge> 128
              then map_option (\<lambda>tag. if tag then meta \<lparr> am_HasID3 := True \<rparr> else meta)
                     (slice_eq data (len data - 128) (len data - 125) ''TAG'')
              else Some meta);
     Some (meta, AudioStats_zero \<lparr> as_FileSize := len data \<rparr>)
   }"

definition analyzeWAV :: "Env \<Rightarrow> bytes \<Rightarrow> (AudioMetadata \<times> AudioStats) option" where
  "analyzeWAV E data =
     (let meta = AudioMetadata_zero \<lparr> am_Format := ''wav'' \<rparr>;
          stats = AudioStats_zero \<lparr> as_FileSize := len data \<rparr>
      in if len data < 44 then Some (meta, stats)
         else do {
           isfmt \<leftarrow> slice_eq data 12 16 ''fmt '';
           meta \<leftarrow>
             (if isfmt
              then do {
                audioFormat \<leftarrow> Option.bind (slice data 20 22) le_uint16;
                channels \<leftarrow> Option.bind (slice data 22 24) le_uint16;
                sampleRate \<leftarrow> Option.bind (slice data 24 28) le_uint32;
                bits \<leftarrow> Option.bind (slice data 34 36) le_uint16;
                Some (meta \<lparr>
                  am_EncoderName := (if audioFormat = 1 then ''PCM'' else am_EncoderName meta),
                  am_Channels := int channels,
                  am_SampleRate := int sampleRate,
                  am_BitDepth := int bits \<rparr>)
              }
              else Some meta);
           found \<leftarrow> first_index (\<lambda>i. slice_eq data i (i + 4) ''LIST'') 36 (len data - 8);
           meta \<leftarrow>
             (case found of
                None \<Rightarrow> Some meta
              | Some i \<Rightarrow> do {
                  chunkSize \<leftarrow> Option.bind (slice data (i + 4) (i + 8)) le_uint32;
                  if i + 8 + int chunkSize \<le> len data
                  then do {
                    listData \<leftarrow> slice data (i + 8) (i + 8 + int chunkSize);
                    Some (meta \<lparr>
                      am_IsAIMarked := (if containsAIAudioMarker E listData then True
                                        else am_IsAIMarked meta),
                      am_HasRecording := (if containsRecordingMarker E listData then True
                                          else am_HasRecording meta) \<rparr>)
                  }
                  else Some meta
                });
           Some (meta, stats)
         })"

text \<open>
  The metadata block walk of \<open>analyzeFLAC\<close>, from offset \<open>i\<close>: a byte of type and last-block
  flag, three bytes of length, the block.
\<close>

definition be24 :: "byte \<Rightarrow> byte \<Rightarrow> byte \<Rightarrow> int" where
  "be24 b1 b2 b3 = push_bit 16 (ival b1) OR push_bit 8 (ival b2) OR ival b3"

lemma ival_nonneg: "0 \<le> ival c"
  unfolding ival_def by (metis of_nat_of_char of_nat_0_le_iff)

lemma be24_nonneg: "0 \<le> be24 b1 b2 b3"
  by (simp add: be24_def ival_nonneg)

lemma be24_gt: "- 4 < be24 b1 b2 b3"
  using be24_nonneg [of b1 b2 b3] by simp

function flac_blocks :: "Env \<Rightarrow> bytes \<Rightarrow> int \<Rightarrow> AudioMetadata \<Rightarrow> AudioMetadata option" where
  "flac_blocks E data i meta =
     (if i < len data - 4 \<and> i < 10000
      then
        (case idx data i of
           None \<Rightarrow> None
         | Some b0 \<Rightarrow>
        (case idx data (i + 1) of
           None \<Rightarrow> None
         | Some b1 \<Rightarrow>
        (case idx data (i + 2) of
           None \<Rightarrow> None
         | Some b2 \<Rightarrow>
        (case idx data (i + 3) of
           None \<Rightarrow> None
         | Some b3 \<Rightarrow>
             (let blockType = bval b0 AND 0x7F;
                  isLast = (bval b0 AND 0x80 \<noteq> 0);
                  blockSize = be24 b1 b2 b3
              in case (if blockType = 4 \<and> i + 4 + blockSize \<le> len data
                       then map_option
                              (\<lambda>commentData.
                                 meta \<lparr>
                                   am_IsAIMarked :=
                                     (if containsAIAudioMarker E commentData then True
                                      else am_IsAIMarked meta),
                                   am_EncoderName := extractAudioEncoder E commentData \<rparr>)
                              (slice data (i + 4) (i + 4 + blockSize))
                       else Some meta) of
                   None \<Rightarrow> None
                 | Some meta1 \<Rightarrow>
                     if isLast then Some meta1
                     else flac_blocks E data (i + 4 + blockSize) meta1)))))
      else Some meta)"
  by pat_completeness auto
termination
  by (relation "measure (\<lambda>(E, data, i, meta). nat (len data - i))") (auto simp: be24_gt)

declare flac_blocks.simps [simp del]

definition analyzeFLAC :: "Env \<Rightarrow> bytes \<Rightarrow> (AudioMetadata \<times> AudioStats) option" where
  "analyzeFLAC E data =
     (let meta = AudioMetadata_zero \<lparr> am_Format := ''flac'' \<rparr>;
          stats = AudioStats_zero \<lparr> as_FileSize := len data \<rparr>
      in if len data < 42 then Some (meta, stats)
         else do {
           meta \<leftarrow>
             (if len data \<ge> 22
              then do {
                b18 \<leftarrow> idx data 18;
                b19 \<leftarrow> idx data 19;
                b20 \<leftarrow> idx data 20;
                Some (meta \<lparr> am_SampleRate :=
                        push_bit 12 (ival b18) OR push_bit 4 (ival b19) OR drop_bit 4 (ival b20) \<rparr>)
              }
              else Some meta);
           meta \<leftarrow>
             (if len data \<ge> 21
              then map_option
                     (\<lambda>b20. meta \<lparr> am_Channels := uint (drop_bit 1 (bval b20) AND 0x07) + 1 \<rparr>)
                     (idx data 20)
              else Some meta);
           meta \<leftarrow>
             (if len data \<ge> 22
              then do {
                b20 \<leftarrow> idx data 20;
                b21 \<leftarrow> idx data 21;
                let bps = uint (push_bit 4 (bval b20 AND 0x01)) OR uint (drop_bit 4 (bval b21) AND 0x0F);
                Some (meta \<lparr> am_BitDepth := bps + 1 \<rparr>)
              }
              else Some meta);
           meta \<leftarrow> flac_blocks E data 4 meta;
           Some (meta, stats)
         })"

definition analyzeOGG :: "Env \<Rightarrow> bytes \<Rightarrow> (AudioMetadata \<times> AudioStats) option" where
  "analyzeOGG E data = do {
     head \<leftarrow> slice data 0 (min_int (len data) 1000);
     let meta = AudioMetadata_zero \<lparr> am_Format := ''ogg'' \<rparr>;
     let meta = (if Contains head ''vorbis'' then meta \<lparr> am_EncoderName := ''Vorbis'' \<rparr>
                 else meta);
     head2 \<leftarrow> slice data 0 (min_int (len data) 1000);
     let meta = (if Contains head2 ''OpusHead''
                 then meta \<lparr> am_Format := ''opus'', am_EncoderName := ''Opus'' \<rparr> else meta);
     meta \<leftarrow>
       (if len data > 500
        then map_option
               (\<lambda>headerData. if containsAIAudioMarker E headerData
                               then meta \<lparr> am_IsAIMarked := True \<rparr> else meta)
               (slice data 0 (min_int (len data) 5000))
        else Some meta);
     Some (meta, AudioStats_zero \<lparr> as_FileSize := len data \<rparr>)
   }"

definition analyzeM4A :: "Env \<Rightarrow> bytes \<Rightarrow> (AudioMetadata \<times> AudioStats) option" where
  "analyzeM4A E data = do {
     searchData \<leftarrow> slice data 0 (min_int (len data) 10000);
     let meta = AudioMetadata_zero \<lparr> am_Format := ''m4a'' \<rparr>;
     let meta = (if containsAIAudioMarker E searchData then meta \<lparr> am_IsAIMarked := True \<rparr>
                 else meta);
     Some (meta \<lparr> am_EncoderName := extractAudioEncoder E searchData \<rparr>,
           AudioStats_zero \<lparr> as_FileSize := len data \<rparr>)
   }"

subsection \<open>Signals\<close>

definition audio_analyzeMetadata :: "Env \<Rightarrow> AudioMetadata \<Rightarrow> f64" where
  "audio_analyzeMetadata E meta =
     (let score = Fin 0.5;
          score = (if am_IsAIMarked meta then fadd score (Fin 0.35) else score);
          score = (if am_HasRecording meta then fsub score (Fin 0.2) else score);
          score = (if am_HasID3 meta then fsub score (Fin 0.1) else score);
          encoderLower = strings_ToLower E (am_EncoderName meta);
          score = (if list_ex (Contains encoderLower)
                        [''elevenlabs'', ''eleven labs'', ''murf'', ''play.ht'',
                         ''resemble'', ''descript'', ''synthesia'', ''wellsaid'',
                         ''amazon polly'', ''google tts'', ''azure speech'',
                         ''suno'', ''udio'', ''musicgen'', ''riffusion'']
                   then fadd score (Fin 0.3) else score)
      in math_Max (Fin 0) (math_Min (Fin 1) score))"

definition analyzeFormat :: "AudioMetadata \<Rightarrow> bytes \<Rightarrow> f64" where
  "analyzeFormat meta data =
     (let score = Fin 0.5;
          score = (if am_SampleRate meta > 0
                      \<and> am_SampleRate meta \<notin> set [44100, 48000, 96000, 22050, 16000]
                   then fadd score (Fin 0.1) else score);
          score = (if am_SampleRate meta \<ge> 96000 \<and> am_BitDepth meta \<ge> 24
                   then fadd score (Fin 0.1) else score);
          score = (if am_Channels meta = 1 then fadd score (Fin 0.1) else score)
      in score)"

definition analyzePatterns :: "bytes \<Rightarrow> string \<Rightarrow> f64 option" where
  "analyzePatterns data format =
     (if len data < 5000 then Some (Fin 0.5)
      else do {
        let regionSize = len data div 5;
        regions \<leftarrow> for_each [1, 2, 3, 4]
                     (\<lambda>i. let start = i * regionSize;
                              end = start + min_int 2000 (len data - start)
                          in if end > start
                             then map_option (\<lambda>r. Some (calculateEntropy r)) (slice data start end)
                             else Some None);
        let entropies = List.map_filter id regions;
        if len entropies < 2 then Some (Fin 0.5)
        else
          (let mean = fmean entropies;
               variance = fvariance entropies mean
           in Some (if fgt variance (Fin 0.05) then Fin 0.6 else Fin 0.4))
      })"

definition analyzeQuality :: "AudioMetadata \<Rightarrow> AudioStats \<Rightarrow> f64" where
  "analyzeQuality meta stats =
     (let score = Fin 0.5;
          score = (if am_Bitrate meta > 0 \<and> am_Bitrate meta < 64
                   then fadd score (Fin 0.1) else score);
          score = (if am_Bitrate meta > 320 then fadd score (Fin 0.1) else score);
          score = (if as_FileSize stats > 0 \<and> as_FileSize stats < 10000
                   then fadd score (Fin 0.2) else score)
      in score)"

definition detectAISignatures :: "Env \<Rightarrow> bytes \<Rightarrow> AudioMetadata \<Rightarrow> f64 option" where
  "detectAISignatures E data meta = do {
     searchData \<leftarrow> slice data 0 (min_int (len data) 50000);
     let score = Fin 0;
     let score = (if list_ex (Contains (strings_ToLower E searchData))
                       [''elevenlabs'', ''murf.ai'', ''play.ht'', ''resemble.ai'',
                        ''suno'', ''udio'', ''generated'', ''synthetic'', ''ai voice'',
                        ''text-to-speech'', ''tts'', ''voice clone'']
                  then fadd score (Fin 0.3) else score);
     let score = (if am_IsAIMarked meta then fadd score (Fin 0.4) else score);
     Some (math_Min (Fin 1) score)
   }"

definition analyzeNoiseProfile :: "bytes \<Rightarrow> string \<Rightarrow> f64 option" where
  "analyzeNoiseProfile data format =
     (if len data < 10000 then Some (Fin 0.5)
      else do {
        let start = len data div 3;
        let end = start + min_int 5000 (len data - start);
        sample \<leftarrow> slice data start end;
        repeats \<leftarrow> for_each (range_step 0 (len sample - 100 * 2) 100)
                     (\<lambda>i. do {
                        window1 \<leftarrow> slice sample i (i + 100);
                        window2 \<leftarrow> slice sample (i + 100) (i + 100 * 2);
                        Some (fgt (byteSimilarity window1 window2) (Fin 0.9))
                      });
        let repeatCount = len (filter id repeats);
        Some (if repeatCount > 5 then Fin 0.7 else Fin 0.4)
      })"

record AudioAnalysisResult =
  a_AIScore :: f64
  a_Signals :: AudioSignals
  a_Metadata :: AudioMetadata
  a_Stats :: AudioStats

text \<open>\<open>NewAudioAnalyzer().Analyze(data)\<close>.\<close>

definition audio_Analyze :: "Env \<Rightarrow> bytes \<Rightarrow> AudioAnalysisResult option" where
  "audio_Analyze E data = do {
     format \<leftarrow> detectAudioFormat data;
     (metadata, stats) \<leftarrow>
       (if format = ''mp3'' then analyzeMP3 E data
        else if format = ''wav'' then analyzeWAV E data
        else if format = ''flac'' then analyzeFLAC E data
        else if format = ''ogg'' then analyzeOGG E data
        else if format = ''m4a'' \<or> format = ''aac'' then analyzeM4A E data
        else Some (AudioMetadata_zero \<lparr> am_Format := format \<rparr>,
                   AudioStats_zero \<lparr> as_FileSize := len data \<rparr>));
     patterns \<leftarrow> analyzePatterns data format;
     signatures \<leftarrow> detectAISignatures E data metadata;
     noise \<leftarrow> analyzeNoiseProfile data format;
     let signals = \<lparr> a_MetadataScore = audio_analyzeMetadata E metadata,
                      a_FormatAnalysis = analyzeFormat metadata data,
                      a_PatternAnalysis = patterns,
                      a_QualityIndicators = analyzeQuality metadata stats,
                      a_AISignatures = signatures,
                      a_NoiseProfile = noise \<rparr>;
     Some \<lparr> a_AIScore = audio_calculateWeightedScore DefaultAudioWeights signals,
            a_Signals = signals, a_Metadata = metadata, a_Stats = stats \<rparr>
   }"

section \<open>Video analysis\<close>

record VideoMetadata =
  vm_Format :: string
  vm_HasAudio :: bool
  vm_HasVideo :: bool
  vm_EncoderName :: string
  vm_CreationTime :: string
  vm_Duration :: f64
  vm_IsAIMarked :: bool

definition VideoMetadata_zero :: VideoMetadata where
  "VideoMetadata_zero = \<lparr>
     vm_Format = [], vm_HasAudio = False, vm_HasVideo = False, vm_EncoderName = [],
     vm_CreationTime = [], vm_Duration = Fin 0, vm_IsAIMarked = False \<rparr>"

record VideoStats =
  vs_FileSize :: int
  vs_EstimatedFPS :: f64
  vs_Width :: int
  vs_Height :: int
  vs_VideoBitrate :: int
  vs_AudioBitrate :: int
  vs_KeyframeCount :: int
  vs_ChunkCount :: int

definition VideoStats_zero :: VideoStats where
  "VideoStats_zero = \<lparr>
     vs_FileSize = 0, vs_EstimatedFPS = Fin 0, vs_Width = 0, vs_Height = 0,
     vs_VideoBitrate = 0, vs_AudioBitrate = 0, vs_KeyframeCount = 0, vs_ChunkCount = 0 \<rparr>"

subsection \<open>Markers and encoders\<close>

definition containsAIMarker :: "Env \<Rightarrow> bytes \<Rightarrow> bool" where
  "containsAIMarker E s =
     (let lower = strings_ToLower E s
      in list_ex (Contains lower)
           [''runway'', ''pika'', ''sora'', ''gen-2'', ''gen2'',
            ''stable video'', ''stablevideo'', ''modelscope'',
            ''deforum'', ''animatediff'', ''zeroscope'',
            ''ai generated'', ''ai-generated'', ''synthetic'',
            ''dall-e'', ''midjourney''])"

definition video_encoders :: "(string \<times> string) list" where
  "video_encoders =
     [(''lavf'', ''ffmpeg''),
      (''ffmpeg'', ''ffmpeg''),
      (''handbrake'', ''HandBrake''),
      (''premiere'', ''Adobe Premiere''),
      (''final cut'', ''Final Cut Pro''),
      (''davinci'', ''DaVinci Resolve''),
      (''x264'', ''x264''),
      (''x265'', ''x265''),
      (''runway'', ''Runway''),
      (''pika'', ''Pika Labs''),
      (''sora'', ''OpenAI Sora''),
      (''modelscope'', ''ModelScope'')]"

definition extractEncoder :: "Env \<Rightarrow> bytes \<Rightarrow> string" where
  "extractEncoder E s =
     first_encoder video_encoders (video_encoders_order E) (strings_ToLower E s)"

subsection \<open>The MP4 atom walk\<close>

text \<open>
  The header of the atom at \<open>offset\<close>: the declared size, four bytes big-endian, and the
  four bytes of type.
\<close>

definition read_atom :: "bytes \<Rightarrow> int \<Rightarrow> (nat \<times> bytes) option" where
  "read_atom data offset = do {
     atomSize \<leftarrow> Option.bind (slice data offset (offset + 4)) be_uint32;
     atomType \<leftarrow> slice data (offset + 4) (offset + 8);
     Some (atomSize, atomType)
   }"

text \<open>The body of the loop of \<open>parseMovieAtom\<close> for one atom inside \<open>moov\<close>.\<close>

definition moov_atom :: "Env \<Rightarrow> bytes \<Rightarrow> int \<Rightarrow> int \<Rightarrow> bytes \<Rightarrow> VideoMetadata
    \<Rightarrow> VideoMetadata option" where
  "moov_atom E data offset atomSize atomType meta =
     (if atomType = ''trak''
      then map_option
             (\<lambda>trackData.
                meta \<lparr> vm_HasAudio := (if Contains trackData ''soun'' then True
                                         else vm_HasAudio meta),
                        vm_HasVideo := (if Contains trackData ''vide'' then True
                                         else vm_HasVideo meta) \<rparr>)
             (slice data offset (offset + atomSize))
      else if atomType = ''meta'' \<and> atomSize > 8
      then map_option
             (\<lambda>metaData.
                meta \<lparr> vm_IsAIMarked := (if containsAIMarker E metaData then True
                                           else vm_IsAIMarked meta),
                        vm_EncoderName := (if extractEncoder E metaData \<noteq> []
                                            then extractEncoder E metaData
                                            else vm_EncoderName meta) \<rparr>)
             (slice data (offset + 8) (min_int (offset + atomSize) (offset + 1000)))
      else Some meta)"

function moov_atoms :: "Env \<Rightarrow> bytes \<Rightarrow> int \<Rightarrow> VideoMetadata \<Rightarrow> VideoMetadata option" where
  "moov_atoms E data offset meta =
     (if offset < len data - 8
      then (if offset + 8 > len data then Some meta
            else
              (case read_atom data offset of
                 None \<Rightarrow> None
               | Some (declared, atomType) \<Rightarrow>
                   if int declared < 8 \<or> offset + int declared > len data then Some meta
                   else
                     (case moov_atom E data offset (int declared) atomType meta of
                        None \<Rightarrow> None
                      | Some meta1 \<Rightarrow> moov_atoms E data (offset + int declared) meta1)))
      else Some meta)"
  by pat_completeness auto
termination
  by (relation "measure (\<lambda>(E, data, offset, meta). nat (len data - offset))") auto

declare moov_atoms.simps [simp del]

definition parseMovieAtom :: "Env \<Rightarrow> bytes \<Rightarrow> VideoMetadata \<Rightarrow> VideoStats
    \<Rightarrow> (VideoMetadata \<times> VideoStats) option" where
  "parseMovieAtom E data meta stats = map_option (\<lambda>m. (m, stats)) (moov_atoms E data 8 meta)"

text \<open>
  The size that the walk of \<open>analyzeMP4\<close> gives an atom: the declared size, or what is
  left of the buffer when the declared size runs over its end.
\<close>

definition clamp_atom :: "bytes \<Rightarrow> int \<Rightarrow> int \<Rightarrow> int" where
  "clamp_atom data offset declared =
     (if offset + declared > len data then len data - offset else declared)"

text \<open>The body of the loop of \<open>analyzeMP4\<close> for one top-level atom.\<close>

definition mp4_atom :: "Env \<Rightarrow> bytes \<Rightarrow> int \<Rightarrow> int \<Rightarrow> bytes \<Rightarrow> VideoMetadata \<times> VideoStats
    \<Rightarrow> (VideoMetadata \<times> VideoStats) option" where
  "mp4_atom E data offset atomSize atomType st =
     (case st of (meta, stats) \<Rightarrow>
        if atomType = ''moov''
        then Option.bind (slice data offset (offset + atomSize))
               (\<lambda>moov. parseMovieAtom E moov meta stats)
        else if atomType = ''mdat''
        then Some (meta, stats \<lparr> vs_ChunkCount := vs_ChunkCount stats + 1 \<rparr>)
        else if atomType = ''ftyp'' \<and> atomSize > 8
        then map_option
               (\<lambda>ftypData. (if containsAIMarker E ftypData
                              then meta \<lparr> vm_IsAIMarked := True \<rparr> else meta, stats))
               (slice data (offset + 8) (min_int (offset + atomSize) (offset + 100)))
        else if atomType = ''udta'' \<and> atomSize > 8
        then map_option
               (\<lambda>udtaData.
                  (meta \<lparr> vm_EncoderName := extractEncoder E udtaData,
                           vm_IsAIMarked := (if containsAIMarker E udtaData then True
                                             else vm_IsAIMarked meta) \<rparr>, stats))
               (slice data (offset + 8) (min_int (offset + atomSize) (offset + 500)))
        else Some st)"

function mp4_atoms :: "Env \<Rightarrow> bytes \<Rightarrow> int \<Rightarrow> VideoMetadata \<times> VideoStats
    \<Rightarrow> (VideoMetadata \<times> VideoStats) option" where
  "mp4_atoms E data offset st =
     (if offset < len data - 8
      then (if offset + 8 > len data then Some st
            else
              (case read_atom data offset of
                 None \<Rightarrow> None
               | Some (declared, atomType) \<Rightarrow>
                   if int declared < 8 then Some st
                   else
                     (case mp4_atom E data offset (clamp_atom data offset (int declared))
                             atomType st of
                        None \<Rightarrow> None
                      | Some st1 \<Rightarrow>
                          mp4_atoms E data (offset + clamp_atom data offset (int declared)) st1)))
      else Some st)"
  by pat_completeness auto
termination
  by (relation "measure (\<lambda>(E, data, offset, st). nat (len data - offset))")
     (auto simp: clamp_atom_def)

declare mp4_atoms.simps [simp del]

definition analyzeMP4 :: "Env \<Rightarrow> bytes \<Rightarrow> (VideoMetadata \<times> VideoStats) option" where
  "analyzeMP4 E data =
     mp4_atoms E data 0
       (VideoMetadata_zero \<lparr> vm_Format := ''mp4'', vm_HasVideo := True \<rparr>,
        VideoStats_zero \<lparr> vs_FileSize := len data \<rparr>)"

subsection \<open>The other containers\<close>

definition analyzeWebM :: "Env \<Rightarrow> bytes \<Rightarrow> (VideoMetadata \<times> VideoStats) option" where
  "analyzeWebM E data = do {
     dataStr \<leftarrow> slice data 0 (min_int (len data) 2000);
     let meta = VideoMetadata_zero \<lparr> vm_Format := ''webm'', vm_HasVideo := True \<rparr>;
     let meta = (if Contains data [CHR 0x81] then meta \<lparr> vm_HasAudio := True \<rparr> else meta);
     let meta = meta \<lparr> vm_EncoderName := extractEncoder E dataStr \<rparr>;
     let meta = (if containsAIMarker E dataStr then meta \<lparr> vm_IsAIMarked := True \<rparr> else meta);
     Some (meta, VideoStats_zero \<lparr> vs_FileSize := len data \<rparr>)
   }"

definition analyzeAVI :: "Env \<Rightarrow> bytes \<Rightarrow> (VideoMetadata \<times> VideoStats) option" where
  "analyzeAVI E data = do {
     let meta = VideoMetadata_zero \<lparr> vm_Format := ''avi'', vm_HasVideo := True \<rparr>;
     let meta = (if Contains data ''auds'' then meta \<lparr> vm_HasAudio := True \<rparr> else meta);
     meta \<leftarrow>
       (if len data > 500
        then map_option
               (\<lambda>headerData.
                  meta \<lparr> vm_EncoderName := extractEncoder E headerData,
                          vm_IsAIMarked := (if containsAIMarker E headerData then True
                                            else vm_IsAIMarked meta) \<rparr>)
               (slice data 0 500)
        else Some meta);
     Some (meta, VideoStats_zero \<lparr> vs_FileSize := len data \<rparr>)
   }"

subsection \<open>Signals\<close>

definition video_analyzeMetadata :: "Env \<Rightarrow> VideoMetadata \<Rightarrow> f64" where
  "video_analyzeMetadata E meta =
     (let score = Fin 0.5;
          score = (if vm_IsAIMarked meta then fadd score (Fin 0.4) else score);
          score = (if \<not> vm_HasAudio meta then fadd score (Fin 0.15) else score);
          encoderLower = strings_ToLower E (vm_EncoderName meta);
          score = (if list_ex (Contains encoderLower)
                        [''runway'', ''pika'', ''sora'', ''gen-2'', ''gen2'',
                         ''stable video'', ''stablevideo'', ''modelscope'',
                         ''deforum'', ''animatediff'', ''zeroscope'']
                   then fadd score (Fin 0.3) else score);
          score = (if list_ex (Contains encoderLower)
                        [''premiere'', ''final cut'', ''davinci'', ''avid'',
                         ''ffmpeg'', ''handbrake'', ''x264'', ''x265'']
                   then fsub score (Fin 0.1) else score)
      in math_Max (Fin 0) (math_Min (Fin 1) score))"

definition analyzeContainer :: "bytes \<Rightarrow> string \<Rightarrow> f64 option" where
  "analyzeContainer data format =
     (if len data < 1000 then Some (Fin 0.5)
      else if format = ''mp4'' \<or> format = ''mov''
      then do {
        head \<leftarrow> slice data 0 (min_int (len data) 100000);
        let score = Fin 0.5;
        let score = (if \<not> Contains head ''moov'' then fadd score (Fin 0.2) else score);
        let score = (if \<not> Contains data ''mdat'' then fadd score (Fin 0.2) else score);
        Some score
      }
      else if format = ''webm''
      then do {
        head \<leftarrow> slice data 0 (min_int (len data) 1000);
        Some (if \<not> Contains head [CHR 0x18, CHR 0x53, CHR 0x80, CHR 0x67]
              then fadd (Fin 0.5) (Fin 0.2) else Fin 0.5)
      }
      else Some (Fin 0.5))"

definition analyzeAudioPresence :: "VideoMetadata \<Rightarrow> bytes \<Rightarrow> string \<Rightarrow> f64" where
  "analyzeAudioPresence meta data format = (if vm_HasAudio meta then Fin 0.3 else Fin 0.7)"

definition analyzeTemporalPattern :: "bytes \<Rightarrow> string \<Rightarrow> f64 option" where
  "analyzeTemporalPattern data format =
     (if len data < 10000 then Some (Fin 0.5)
      else do {
        let regionSize = len data div (5 + 1);
        samples \<leftarrow> for_each [0, 1, 2, 3, 4]
                     (\<lambda>i. let start = (i + 1) * regionSize;
                              end = start + min_int 1000 (len data - start)
                          in if end > start then map_option Some (slice data start end)
                             else Some None);
        let sims = List.map_filter
                     (\<lambda>(a, b). case (a, b) of
                                  (Some x, Some y) \<Rightarrow> Some (byteSimilarity x y)
                                | _ \<Rightarrow> None)
                     (pairs samples);
        let repetitionScore =
              foldl (\<lambda>acc sim. if fgt sim (Fin 0.5) then fadd acc sim else acc) (Fin 0) sims;
        let comparisons = len sims;
        Some (if comparisons > 0
                 \<and> fgt (fdiv repetitionScore (float64 comparisons)) (Fin 0.3)
              then Fin 0.7 else Fin 0.4)
      })"

definition analyzeEncodingSignature :: "bytes \<Rightarrow> VideoMetadata \<Rightarrow> f64" where
  "analyzeEncodingSignature data meta =
     (let hasH264 = (Contains data ''avc1'' \<or> Contains data ''h264'');
          hasH265 = (Contains data ''hvc1'' \<or> Contains data ''hevc'');
          hasVP9 = Contains data ''vp09'';
          hasAV1 = Contains data ''av01'';
          score = Fin 0.5;
          score = (if hasH264 \<or> hasH265 \<or> hasVP9 \<or> hasAV1 then Fin 0.45 else score);
          score = (if \<not> hasH264 \<and> \<not> hasH265 \<and> \<not> hasVP9 \<and> \<not> hasAV1
                      \<and> (vm_Format meta = ''mp4'' \<or> vm_Format meta = ''webm'')
                   then Fin 0.6 else score)
      in score)"

definition analyzeBitrateConsistency :: "bytes \<Rightarrow> VideoStats \<Rightarrow> f64 option" where
  "analyzeBitrateConsistency data stats =
     (if vs_FileSize stats < 100000 then Some (Fin 0.6)
      else if len data < 10000 then Some (Fin 0.5)
      else do {
        let chunkSize = len data div 5;
        chunks \<leftarrow> for_each [0, 1, 2, 3, 4]
                    (\<lambda>i. let start = i * chunkSize;
                             end = start + min_int chunkSize (len data - start)
                         in if end > start
                            then map_option (\<lambda>c. Some (calculateEntropy c)) (slice data start end)
                            else Some None);
        let entropies = List.map_filter id chunks;
        if len entropies < 2 then Some (Fin 0.5)
        else
          (let mean = fmean entropies;
               variance = fvariance entropies mean
           in Some (if fgt variance (Fin 0.1) then Fin 0.6 else Fin 0.4))
      })"

record VideoAnalysisResult =
  v_AIScore :: f64
  v_Signals :: VideoSignals
  v_Metadata :: VideoMetadata
  v_Stats :: VideoStats

text \<open>\<open>NewVideoAnalyzer().Analyze(data)\<close>.\<close>

definition video_Analyze :: "Env \<Rightarrow> bytes \<Rightarrow> VideoAnalysisResult option" where
  "video_Analyze E data = do {
     format \<leftarrow> detectVideoFormat data;
     (metadata, stats) \<leftarrow>
       (if format = ''mp4'' \<or> format = ''mov'' then analyzeMP4 E data
        else if format = ''webm'' then analyzeWebM E data
        else if format = ''avi'' then analyzeAVI E data
        else Some (VideoMetadata_zero \<lparr> vm_Format := format \<rparr>,
                   VideoStats_zero \<lparr> vs_FileSize := len data \<rparr>));
     container \<leftarrow> analyzeContainer data format;
     temporal \<leftarrow> analyzeTemporalPattern data format;
     bitrate \<leftarrow> analyzeBitrateConsistency data stats;
     let signals = \<lparr> v_MetadataScore = video_analyzeMetadata E metadata,
                      v_ContainerAnalysis = container,
                      v_AudioPresence = analyzeAudioPresence metadata data format,
                      v_TemporalPattern = temporal,
                      v_EncodingSignature = analyzeEncodingSignature data metadata,
                      v_BitrateConsistency = bitrate \<rparr>;
     Some \<lparr> v_AIScore = video_calculateWeightedScore DefaultVideoWeights signals,
            v_Signals = signals, v_Metadata = metadata, v_Stats = stats \<rparr>
   }"

section \<open>The detector\<close>

record DetectionInput =
  URL :: string
  Text :: string
  Data :: bytes
  Filename :: string
  ContentType :: string

record DetectionResult =
  Human :: bool
  Confidence :: f64
  AIScore :: f64
  r_ContentType :: string
  Detectors :: "string list"
  ContentHash :: string
  ProcessingTime :: int

record DetectorConfig =
  HiveAPIKey :: string
  OpenAIAPIKey :: string
  GPTZeroAPIKey :: string

text \<open>
  The errors that the detector creates, one constructor for each place of the source that
  creates or wraps an error.
\<close>

datatype error =
    UnsupportedContentType string
  | NoTextContent
  | NoImageData
  | NoAudioData
  | NoVideoData
  | FetchFailed string
  | DetectionFailed error

text \<open>The outcome of a call: a panic (\<open>None\<close>), an error, or a result.\<close>

type_synonym 'a outcome = "(error + 'a) option"

subsection \<open>Content type\<close>

text \<open>
  \<open>filepath.Ext\<close> (with \<open>/\<close> as the separator): the suffix from the last dot of the last
  element of the path, empty without a dot.
\<close>

definition filepath_Ext :: "string \<Rightarrow> string" where
  "filepath_Ext path =
     (let last_elem_rev = takeWhile (\<lambda>c. c \<noteq> CHR ''/'') (rev path)
      in if CHR ''.'' \<in> set last_elem_rev
         then CHR ''.'' # rev (takeWhile (\<lambda>c. c \<noteq> CHR ''.'') last_elem_rev)
         else [])"

definition ContentTypeFromFilename :: "Env \<Rightarrow> string \<Rightarrow> string" where
  "ContentTypeFromFilename E filename =
     (let ext = strings_ToLower E (filepath_Ext filename)
      in if ext \<in> set [''.txt'', ''.md'', ''.html'', ''.htm'', ''.json'', ''.xml'', ''.csv'']
         then ''text''
         else if ext \<in> set [''.jpg'', ''.jpeg'', ''.png'', ''.gif'', ''.webp'', ''.bmp'', ''.svg'']
         then ''image''
         else if ext \<in> set [''.mp3'', ''.wav'', ''.flac'', ''.ogg'', ''.m4a'', ''.aac'']
         then ''audio''
         else if ext \<in> set [''.mp4'', ''.mov'', ''.avi'', ''.webm'', ''.mkv'', ''.wmv'']
         then ''video''
         else ''unknown'')"

definition ContentTypeFromURL :: "Env \<Rightarrow> string \<Rightarrow> string" where
  "ContentTypeFromURL E url =
     ContentTypeFromFilename E (takeWhile (\<lambda>c. c \<noteq> CHR ''?'') url)"

definition ContentTypeFromMagicBytes :: "bytes \<Rightarrow> string option" where
  "ContentTypeFromMagicBytes data =
     (if len data < 4 then Some ''unknown''
      else do {
        jpeg \<leftarrow> and_also (byte_eq data 0 (CHR 0xFF))
                 (and_also (byte_eq data 1 (CHR 0xD8)) (byte_eq data 2 (CHR 0xFF)));
        if jpeg then Some ''image''
        else do {
          png \<leftarrow> and_also (byte_eq data 0 (CHR 0x89))
                  (and_also (byte_eq data 1 (CHR 0x50))
                  (and_also (byte_eq data 2 (CHR 0x4E)) (byte_eq data 3 (CHR 0x47))));
          if png then Some ''image''
          else do {
            gif \<leftarrow> and_also (byte_eq data 0 (CHR 0x47))
                    (and_also (byte_eq data 1 (CHR 0x49))
                    (and_also (byte_eq data 2 (CHR 0x46)) (byte_eq data 3 (CHR 0x38))));
            if gif then Some ''image''
            else do {
              riff \<leftarrow> and_also (Some (len data \<ge> 12))
                       (and_also (byte_eq data 0 (CHR 0x52))
                       (and_also (byte_eq data 1 (CHR 0x49))
                       (and_also (byte_eq data 2 (CHR 0x46)) (byte_eq data 3 (CHR 0x46)))));
              webp \<leftarrow> (if riff
                        then and_also (byte_eq data 8 (CHR 0x57))
                               (and_also (byte_eq data 9 (CHR 0x45))
                               (and_also (byte_eq data 10 (CHR 0x42)) (byte_eq data 11 (CHR 0x50))))
                        else Some False);
              if webp then Some ''image''
              else do {
                mp3 \<leftarrow> or_else
                         (and_also (byte_eq data 0 (CHR 0xFF))
                            (map_option (\<lambda>b. bval b AND 0xE0 = 0xE0) (idx data 1)))
                         (and_also (byte_eq data 0 (CHR 0x49))
                            (and_also (byte_eq data 1 (CHR 0x44)) (byte_eq data 2 (CHR 0x33))));
                if mp3 then Some ''audio''
                else do {
                  ftyp \<leftarrow> and_also (Some (len data \<ge> 8))
                           (and_also (byte_eq data 4 (CHR 0x66))
                           (and_also (byte_eq data 5 (CHR 0x74))
                           (and_also (byte_eq data 6 (CHR 0x79)) (byte_eq data 7 (CHR 0x70)))));
                  if ftyp then Some ''video''
                  else do {
                    riff2 \<leftarrow> and_also (Some (len data \<ge> 12))
                              (and_also (byte_eq data 0 (CHR 0x52))
                              (and_also (byte_eq data 1 (CHR 0x49))
                              (and_also (byte_eq data 2 (CHR 0x46)) (byte_eq data 3 (CHR 0x46)))));
                    wav \<leftarrow> (if riff2
                             then and_also (byte_eq data 8 (CHR 0x57))
                                    (and_also (byte_eq data 9 (CHR 0x41))
                                    (and_also (byte_eq data 10 (CHR 0x56))
                                              (byte_eq data 11 (CHR 0x45))))
                             else Some False);
                    Some (if wav then ''audio'' else ''unknown'')
                  }
                }
              }
            }
          }
        }
      })"

definition detectContentType :: "Env \<Rightarrow> DetectionInput \<Rightarrow> string option" where
  "detectContentType E input =
     (if Text input \<noteq> [] then Some ''text''
      else if Filename input \<noteq> [] then Some (ContentTypeFromFilename E (Filename input))
      else if URL input \<noteq> [] then Some (ContentTypeFromURL E (URL input))
      else if len (Data input) > 0 then ContentTypeFromMagicBytes (Data input)
      else Some ''unknown'')"

subsection \<open>Content hash\<close>

text \<open>\<open>hex.EncodeToString\<close>: two lower-case hexadecimal digits for each byte.\<close>

definition hexdigit :: "nat \<Rightarrow> char" where
  "hexdigit n = ''0123456789abcdef'' ! (n mod 16)"

definition EncodeToString :: "bytes \<Rightarrow> string" where
  "EncodeToString b =
     concat (map (\<lambda>c. [hexdigit (of_char c div 16), hexdigit (of_char c mod 16)]) b)"

text \<open>The bytes that \<open>hashContent\<close> writes to the hash: the first non-empty field, if any.\<close>

definition hashed_bytes :: "DetectionInput \<Rightarrow> bytes" where
  "hashed_bytes input =
     (if Text input \<noteq> [] then Text input
      else if len (Data input) > 0 then Data input
      else if URL input \<noteq> [] then URL input
      else [])"

definition hashContent :: "Env \<Rightarrow> DetectionInput \<Rightarrow> string" where
  "hashContent E input = EncodeToString (sha256_Sum E (hashed_bytes input))"

subsection \<open>Aggregation of detector scores\<close>

text \<open>The comparison \<open>==\<close> on \<open>float64\<close>: NaN equals nothing.\<close>

fun feq :: "f64 \<Rightarrow> f64 \<Rightarrow> bool" where
  "feq (Fin a) (Fin b) = (a = b)"
| "feq PInf PInf = True"
| "feq NInf NInf = True"
| "feq _ _ = False"

text \<open>The weight of the score at position \<open>i\<close>: that of its detector if the table has it,
  else 1.\<close>

definition detector_weight :: "(string \<times> f64) list \<Rightarrow> string list \<Rightarrow> nat \<Rightarrow> f64" where
  "detector_weight weights detectors i =
     (if i < length detectors
      then (case map_of weights (detectors ! i) of Some w \<Rightarrow> w | None \<Rightarrow> Fin 1)
      else Fin 1)"

definition aggregateScoresWeighted ::
    "(string \<times> f64) list \<Rightarrow> f64 list \<Rightarrow> string list \<Rightarrow> f64" where
  "aggregateScoresWeighted weights scores detectors =
     (if len scores = 0 then Fin 0.5
      else
        (let ws = map (detector_weight weights detectors) [0 ..< length scores];
             weightedSum = foldl (\<lambda>acc (score, w). fadd acc (fmul score w)) (Fin 0)
                             (zip scores ws);
             totalWeight = fsum ws
         in if feq totalWeight (Fin 0) then Fin 0.5 else fdiv weightedSum totalWeight))"

definition text_detector_weights :: "(string \<times> f64) list" where
  "text_detector_weights =
     [(''humanmark'', Fin 1.0), (''hive'', Fin 1.2), (''gptzero'', Fin 1.1), (''openai'', Fin 0.9)]"

definition image_detector_weights :: "(string \<times> f64) list" where
  "image_detector_weights = [(''humanmark'', Fin 1.0), (''hive'', Fin 1.3)]"

definition audio_detector_weights :: "(string \<times> f64) list" where
  "audio_detector_weights = [(''humanmark'', Fin 1.0), (''hive'', Fin 1.3)]"

definition video_detector_weights :: "(string \<times> f64) list" where
  "video_detector_weights = [(''humanmark'', Fin 1.0), (''hive'', Fin 1.4)]"

text \<open>
  One optional external detector: it is asked when its API key is set, and its score is
  appended when it answers. The state is the list of scores and the list of detector names.
\<close>

definition ask_detector :: "bool \<Rightarrow> string \<Rightarrow> string + f64 \<Rightarrow> f64 list \<times> string list
    \<Rightarrow> f64 list \<times> string list" where
  "ask_detector enabled name answer st =
     (if enabled
      then (case answer of
              Inl err \<Rightarrow> st
            | Inr score \<Rightarrow> (fst st @ [score], snd st @ [name]))
      else st)"

subsection \<open>The four detectors\<close>

text \<open>
  The text to analyze: the \<open>Text\<close> field, else the bytes of \<open>Data\<close>, else the body fetched
  from the URL, of which at most 1 MB is read.
\<close>

definition input_text :: "Env \<Rightarrow> DetectionInput \<Rightarrow> error + string" where
  "input_text E input =
     (let text = Text input;
          text = (if text = [] \<and> len (Data input) > 0 then Data input else text)
      in if text = [] \<and> URL input \<noteq> []
         then (case http_Get E (URL input) of
                 Inl err \<Rightarrow> Inl (FetchFailed err)
               | Inr body \<Rightarrow>
                   (let text = take (1024 * 1024) body
                    in if text = [] then Inl NoTextContent else Inr text))
         else if text = [] then Inl NoTextContent
         else Inr text)"

definition DetectText :: "DetectorConfig \<Rightarrow> Env \<Rightarrow> DetectionInput \<Rightarrow> DetectionResult outcome" where
  "DetectText cfg E input =
     (case input_text E input of
        Inl err \<Rightarrow> Some (Inl err)
      | Inr text \<Rightarrow>
          (let analysis = text_Analyze E text;
               st = ([t_AIScore analysis], [''humanmark'']);
               st = ask_detector (HiveAPIKey cfg \<noteq> []) ''hive''
                      (hive_text E (HiveAPIKey cfg) text) st;
               st = ask_detector (GPTZeroAPIKey cfg \<noteq> []) ''gptzero''
                      (gptzero_text E (GPTZeroAPIKey cfg) text) st;
               st = ask_detector (OpenAIAPIKey cfg \<noteq> []) ''openai''
                      (openai_text E (OpenAIAPIKey cfg) text) st;
               aiScore = aggregateScoresWeighted text_detector_weights (fst st) (snd st);
               human = flt aiScore (Fin 0.5);
               confidence = fmul (abs_f (fsub aiScore (Fin 0.5))) (Fin 2)
           in Some (Inr \<lparr> Human = human, Confidence = confidence, AIScore = aiScore,
                           r_ContentType = ''text'', Detectors = snd st,
                           ContentHash = [], ProcessingTime = 0 \<rparr>)))"

text \<open>
  The bytes to analyze, for the three media detectors: the \<open>Data\<close> field, else the body
  fetched from the URL up to the detector's limit, else the detector's error.
\<close>

definition input_data :: "Env \<Rightarrow> nat \<Rightarrow> error \<Rightarrow> DetectionInput \<Rightarrow> error + bytes" where
  "input_data E limit missing input =
     (if len (Data input) > 0 then Inr (Data input)
      else if URL input \<noteq> []
      then (case http_Get E (URL input) of
              Inl err \<Rightarrow> Inl (FetchFailed err)
            | Inr body \<Rightarrow> Inr (take limit body))
      else Inl missing)"

definition DetectImage :: "DetectorConfig \<Rightarrow> Env \<Rightarrow> DetectionInput \<Rightarrow> DetectionResult outcome" where
  "DetectImage cfg E input =
     (case input_data E (50 * 1024 * 1024) NoImageData input of
        Inl err \<Rightarrow> Some (Inl err)
      | Inr imageData \<Rightarrow>
          (case image_Analyze imageData of
             None \<Rightarrow> None
           | Some analysis \<Rightarrow>
               (let st = ([i_AIScore analysis], [''humanmark'']);
                    st = ask_detector (HiveAPIKey cfg \<noteq> []) ''hive''
                           (hive_image E (HiveAPIKey cfg) imageData) st;
                    aiScore = aggregateScoresWeighted image_detector_weights (fst st) (snd st);
                    human = flt aiScore (Fin 0.5);
                    confidence = fmul (abs_f (fsub aiScore (Fin 0.5))) (Fin 2)
                in Some (Inr \<lparr> Human = human, Confidence = confidence, AIScore = aiScore,
                                r_ContentType = ''image'', Detectors = snd st,
                                ContentHash = [], ProcessingTime = 0 \<rparr>))))"

definition DetectAudio :: "DetectorConfig \<Rightarrow> Env \<Rightarrow> DetectionInput \<Rightarrow> DetectionResult outcome" where
  "DetectAudio cfg E input =
     (case input_data E (100 * 1024 * 1024) NoAudioData input of
        Inl err \<Rightarrow> Some (Inl err)
      | Inr audioData \<Rightarrow>
          (case audio_Analyze E audioData of
             None \<Rightarrow> None
           | Some analysis \<Rightarrow>
               (let st = ([a_AIScore analysis], [''humanmark'']);
                    st = ask_detector (HiveAPIKey cfg \<noteq> []) ''hive''
                           (hive_audio E (HiveAPIKey cfg) audioData) st;
                    aiScore = aggregateScoresWeighted audio_detector_weights (fst st) (snd st);
                    human = flt aiScore (Fin 0.5);
                    confidence = fmul (abs_f (fsub aiScore (Fin 0.5))) (Fin 2)
                in Some (Inr \<lparr> Human = human, Confidence = confidence, AIScore = aiScore,
                                r_ContentType = ''audio'', Detectors = snd st,
                                ContentHash = [], ProcessingTime = 0 \<rparr>))))"

definition DetectVideo :: "DetectorConfig \<Rightarrow> Env \<Rightarrow> DetectionInput \<Rightarrow> DetectionResult outcome" where
  "DetectVideo cfg E input =
     (case input_data E (500 * 1024 * 1024) NoVideoData input of
        Inl err \<Rightarrow> Some (Inl err)
      | Inr videoData \<Rightarrow>
          (case video_Analyze E videoData of
             None \<Rightarrow> None
           | Some analysis \<Rightarrow>
               (let st = ([v_AIScore analysis], [''humanmark'']);
                    st = ask_detector (HiveAPIKey cfg \<noteq> [] \<and> URL input \<noteq> []) ''hive''
                           (hive_video E (HiveAPIKey cfg) (URL input)) st;
                    aiScore = aggregateScoresWeighted video_detector_weights (fst st) (snd st);
                    human = flt aiScore (Fin 0.5);
                    confidence = fmul (abs_f (fsub aiScore (Fin 0.5))) (Fin 2)
                in Some (Inr \<lparr> Human = human, Confidence = confidence, AIScore = aiScore,
                                r_ContentType = ''video'', Detectors = snd st,
                                ContentHash = [], ProcessingTime = 0 \<rparr>))))"

subsection \<open>Detect\<close>

text \<open>The content type that \<open>Detect\<close> routes on: the given one, or the detected one when
  none is given.\<close>

definition resolved_type :: "Env \<Rightarrow> DetectionInput \<Rightarrow> string option" where
  "resolved_type E input =
     (if ContentType input = ''unknown'' \<or> ContentType input = []
      then detectContentType E input
      else Some (ContentType input))"

definition Detect :: "DetectorConfig \<Rightarrow> Env \<Rightarrow> DetectionInput \<Rightarrow> DetectionResult outcome" where
  "Detect cfg E input0 =
     (case resolved_type E input0 of
        None \<Rightarrow> None
      | Some ct \<Rightarrow>
          (let input = input0 \<lparr> ContentType := ct \<rparr>
           in if ct \<notin> set [''text'', ''image'', ''audio'', ''video'']
              then Some (Inl (UnsupportedContentType ct))
              else
                (case (if ct = ''text'' then DetectText cfg E input
                       else if ct = ''image'' then DetectImage cfg E input
                       else if ct = ''audio'' then DetectAudio cfg E input
                       else DetectVideo cfg E input) of
                   None \<Rightarrow> None
                 | Some (Inl err) \<Rightarrow> Some (Inl (DetectionFailed err))
                 | Some (Inr result) \<Rightarrow>
                     Some (Inr (result \<lparr> ContentHash := hashContent E input,
                                          ProcessingTime := time_Since E \<rparr>)))))"

subsection \<open>No panic in the audio analysis\<close>

lemma slice_le32: "0 \<le> i \<Longrightarrow> i + 4 \<le> len data \<Longrightarrow> \<exists>n. Option.bind (slice data i (i + 4)) le_uint32 = Some n"
  using le_uint32_defined[of "take 4 (drop (nat i) data)"]
  by (auto simp add: slice_def len_def)

lemma slice_le16: "0 \<le> i \<Longrightarrow> i + 2 \<le> len data \<Longrightarrow> \<exists>n. Option.bind (slice data i (i + 2)) le_uint16 = Some n"
  using le_uint16_defined[of "take 2 (drop (nat i) data)"]
  by (auto simp add: slice_def len_def)

lemma id3_size_nonneg: "0 \<le> push_bit 21 (ival b6) OR push_bit 14 (ival b7) OR push_bit 7 (ival b8) OR ival b9"
  by (simp add: ival_nonneg)

lemma mp3_id3v2_defined: "\<exists>m. mp3_id3v2 E data meta = Some m"
proof (cases "len data > 10")
  case False then show ?thesis by (simp add: mp3_id3v2_def go_defined)
next
  case True
  then show ?thesis
    unfolding mp3_id3v2_def
    by (auto simp add: go_defined Let_def slice_def ival_nonneg)
qed

lemma idx_list_defined: "0 \<le> i \<Longrightarrow> i < int (length xs) \<Longrightarrow> \<exists>v. idx xs i = Some v"
  by (simp add: idx_def len_def)

lemma mp3_frame_defined: "\<exists>m. mp3_frame data meta = Some m"
proof -
  let ?cond = "\<lambda>i. and_also (byte_eq data i (CHR 0xFF))
                        (map_option (\<lambda>b. bval b AND 0xE0 = 0xE0) (idx data (i + 1)))"
  have "\<exists>r. first_index ?cond 0 (len data - 4) = Some r"
    by (rule first_index_defined) (auto simp add: go_defined)
  then obtain r where r: "first_index ?cond 0 (len data - 4) = Some r" by blast
  show ?thesis
  proof (cases r)
    case None then show ?thesis using r by (simp add: mp3_frame_def)
  next
    case (Some i)
    then have i: "0 \<le> i" "i < len data - 4" using first_index_range r by blast+
    obtain h where h: "Option.bind (slice data i (i + 4)) be_uint32 = Some h"
      using slice_be32[of i data] i by auto
    let ?sr = "(h div 2 ^ 10) mod 4"
    let ?br = "(h div 2 ^ 12) mod 16"
    have sr: "?sr < 3 \<Longrightarrow> \<exists>v. idx [44100, 48000, 32000, 0::int] (int ?sr) = Some v"
      by (rule idx_list_defined) simp_all
    have br: "?br < 15 \<Longrightarrow> \<exists>v. idx [0, 32, 40, 48, 56, 64, 80, 96, 112, 128, 160, 192, 224, 256, 320, 0::int] (int ?br) = Some v"
      by (rule idx_list_defined) simp_all
    show ?thesis using r Some h sr br
      by (auto simp add: mp3_frame_def Let_def)
  qed
qed

lemma analyzeMP3_defined: "\<exists>r. analyzeMP3 E data = Some r"
proof -
  obtain m1 where m1: "mp3_id3v2 E data (AudioMetadata_zero \<lparr> am_Format := ''mp3'' \<rparr>) = Some m1"
    using mp3_id3v2_defined by blast
  obtain m2 where m2: "mp3_frame data m1 = Some m2" using mp3_frame_defined by blast
  show ?thesis by (auto simp add: analyzeMP3_def m1 m2 slice_eq_def slice_def)
qed

lemma analyzeWAV_defined: "\<exists>r. analyzeWAV E data = Some r"
proof (cases "len data < 44")
  case True then show ?thesis by (simp add: analyzeWAV_def Let_def)
next
  case False
  then have L: "44 \<le> len data" by simp
  have fmt: "slice_eq data 12 16 ''fmt '' = Some (take 4 (drop 12 data) = ''fmt '')"
    using L by (simp add: slice_eq_def slice_def)
  obtain af where af: "Option.bind (slice data 20 22) le_uint16 = Some af" using slice_le16[of 20 data] L by auto
  obtain ch where ch: "Option.bind (slice data 22 24) le_uint16 = Some ch" using slice_le16[of 22 data] L by auto
  obtain sr where sr: "Option.bind (slice data 24 28) le_uint32 = Some sr" using slice_le32[of 24 data] L by auto
  obtain bd where bd: "Option.bind (slice data 34 36) le_uint16 = Some bd" using slice_le16[of 34 data] L by auto
  let ?cond = "\<lambda>i. slice_eq data i (i + 4) ''LIST''"
  have "\<exists>r. first_index ?cond 36 (len data - 8) = Some r"
    by (rule first_index_defined) (auto simp add: slice_eq_def slice_def)
  then obtain r where r: "first_index ?cond 36 (len data - 8) = Some r" by blast
  show ?thesis
  proof (cases r)
    case None then show ?thesis using L r fmt af ch sr bd by (auto simp add: analyzeWAV_def Let_def)
  next
    case (Some i)
    then have i: "36 \<le> i" "i < len data - 8" using first_index_range r by blast+
    obtain cs where cs: "Option.bind (slice data (i + 4) (i + 8)) le_uint32 = Some cs"
      using slice_le32[of "i + 4" data] i by (auto simp add: add.commute add.left_commute)
    have sl: "i + 8 + int cs \<le> len data \<Longrightarrow> \<exists>l. slice data (i + 8) (i + 8 + int cs) = Some l"
      using i by (simp add: slice_def)
    show ?thesis using L r Some fmt af ch sr bd cs sl by (auto simp add: analyzeWAV_def Let_def)
  qed
qed

lemma flac_blocks_defined: "0 \<le> i \<Longrightarrow> \<exists>m. flac_blocks E data i meta = Some m"
proof (induction E data i meta rule: flac_blocks.induct)
  case (1 E data i meta)
  show ?case
  proof (cases "i < len data - 4 \<and> i < 10000")
    case False then show ?thesis by (subst flac_blocks.simps) auto
  next
    case True
    let ?b0 = "data ! nat i" let ?b1 = "data ! nat (i + 1)" let ?b2 = "data ! nat (i + 2)" let ?b3 = "data ! nat (i + 3)"
    have ix: "idx data i = Some ?b0" "idx data (i + 1) = Some ?b1" "idx data (i + 2) = Some ?b2" "idx data (i + 3) = Some ?b3"
      using True 1(2) by (simp_all add: idx_def)
    let ?bs = "be24 ?b1 ?b2 ?b3"
    let ?m1 = "(if bval ?b0 AND 0x7F = 4 \<and> i + 4 + ?bs \<le> len data
                       then map_option
                              (\<lambda>commentData.
                                 meta \<lparr>
                                   am_IsAIMarked :=
                                     (if containsAIAudioMarker E commentData then True
                                      else am_IsAIMarked meta),
                                   am_EncoderName := extractAudioEncoder E commentData \<rparr>)
                              (slice data (i + 4) (i + 4 + ?bs))
                       else Some meta)"
    have "\<exists>m1. ?m1 = Some m1" using 1(2) be24_nonneg[of ?b1 ?b2 ?b3] by (auto simp add: slice_def)
    then obtain m1 where m1: "?m1 = Some m1" by blast
    show ?thesis
    proof (cases "bval ?b0 AND 0x80 \<noteq> 0")
      case last: True
      then show ?thesis using True ix m1 by (simp add: flac_blocks.simps[of E data i meta] Let_def)
    next
      case notlast: False
      have "0 \<le> i + 4 + ?bs" using 1(2) be24_nonneg[of ?b1 ?b2 ?b3] by simp
      then have "\<exists>m. flac_blocks E data (i + 4 + ?bs) m1 = Some m"
        using 1(1)[OF True ix(1) ix(2) ix(3) ix(4) refl refl refl m1] notlast by simp
      then show ?thesis using True ix m1 notlast by (simp add: flac_blocks.simps[of E data i meta] Let_def)
    qed
  qed
qed

lemma analyzeFLAC_defined: "\<exists>r. analyzeFLAC E data = Some r"
proof (cases "len data < 42")
  case True then show ?thesis by (simp add: analyzeFLAC_def Let_def)
next
  case False
  then have L: "42 \<le> len data" by simp
  have ix: "idx data 18 = Some (data ! 18)" "idx data 19 = Some (data ! 19)" "idx data 20 = Some (data ! 20)" "idx data 21 = Some (data ! 21)"
    using L by (simp_all add: idx_def)
  let ?m = "AudioMetadata_zero
                \<lparr>am_Format := ''flac'',
                   am_SampleRate :=
                     push_bit 12 (ival (data ! 18)) OR
                     push_bit 4 (ival (data ! 19)) OR
                     drop_bit 4 (ival (data ! 20)),
                   am_Channels :=
                     uint (drop_bit 1 (bval (data ! 20)) AND 0x07) + 1,
                   am_BitDepth :=
                     (uint (push_bit 4 (bval (data ! 20) AND 0x01)) OR
                      uint (drop_bit 4 (bval (data ! 21)) AND 0x0F)) +
                     1\<rparr>"
  obtain m where m: "flac_blocks E data 4 ?m = Some m"
    using flac_blocks_defined[of 4 E data ?m] by auto
  show ?thesis
    using L m by (simp add: analyzeFLAC_def Let_def ix)
qed

lemma slice_head_defined: "0 \<le> k \<Longrightarrow> \<exists>h. slice data 0 (min_int (len data) k) = Some h"
  by (auto simp add: slice_def min_int_def len_def)

lemma analyzeOGG_defined: "\<exists>r. analyzeOGG E data = Some r"
  using slice_head_defined[of 1000 data] slice_head_defined[of 5000 data]
  by (auto simp add: analyzeOGG_def Let_def)

lemma analyzeM4A_defined: "\<exists>r. analyzeM4A E data = Some r"
  using slice_head_defined[of 10000 data]
  by (auto simp add: analyzeM4A_def Let_def)

lemma detectAISignatures_defined: "\<exists>r. detectAISignatures E data meta = Some r"
  using slice_head_defined[of 50000 data]
  by (auto simp add: detectAISignatures_def Let_def)

lemma region_slice_defined:
  "0 \<le> start \<Longrightarrow> 0 \<le> k \<Longrightarrow> start \<le> len data
   \<Longrightarrow> \<exists>r. slice data start (start + min_int k (len data - start)) = Some r"
  by (auto simp add: slice_def min_int_def)

lemma analyzePatterns_defined: "\<exists>r. analyzePatterns data format = Some r"
proof (cases "len data < 5000")
  case True then show ?thesis by (simp add: analyzePatterns_def)
next
  case False
  let ?body = "(\<lambda>i. let start = i * (len data div 5);
                              end = start + min_int 2000 (len data - start)
                          in if end > start
                             then map_option (\<lambda>r. Some (calculateEntropy r)) (slice data start end)
                             else Some None)"
  have "\<exists>v. for_each [1, 2, 3, 4] ?body = Some v \<and> length v = length [1, 2, 3, 4::int]"
  proof (rule for_each_defined)
    fix x :: int assume "x \<in> set [1, 2, 3, 4]"
    then have x: "0 \<le> x" "x \<le> 4" by auto
    have "x * (len data div 5) \<le> 4 * (len data div 5)" using x False by (intro mult_right_mono) auto
    moreover have "4 * (len data div 5) \<le> len data" using False by presburger
    ultimately have "x * (len data div 5) \<le> len data" by linarith
    moreover have "0 \<le> x * (len data div 5)" using x False by simp
    ultimately have "\<exists>r. slice data (x * (len data div 5)) (x * (len data div 5) + min_int 2000 (len data - x * (len data div 5))) = Some r"
      by (intro region_slice_defined) auto
    then show "?body x \<noteq> None" by (auto simp add: Let_def)
  qed
  then obtain v where v: "for_each [1, 2, 3, 4] ?body = Some v" by blast
  show ?thesis using False v by (simp add: analyzePatterns_def Let_def)
qed

lemma analyzeNoiseProfile_defined: "\<exists>r. analyzeNoiseProfile data format = Some r"
proof (cases "len data < 10000")
  case True then show ?thesis by (simp add: analyzeNoiseProfile_def)
next
  case False
  let ?start = "len data div 3"
  let ?end = "?start + min_int 5000 (len data - ?start)"
  have "\<exists>s. slice data ?start ?end = Some s"
    using False by (intro region_slice_defined) auto
  then obtain sample where s: "slice data ?start ?end = Some sample" by blast
  let ?body = "(\<lambda>i. do {
                        window1 \<leftarrow> slice sample i (i + 100);
                        window2 \<leftarrow> slice sample (i + 100) (i + 100 * 2);
                        Some (fgt (byteSimilarity window1 window2) (Fin 0.9))
                      })"
  have "\<exists>v. for_each (range_step 0 (len sample - 100 * 2) 100) ?body = Some v
          \<and> length v = length (range_step 0 (len sample - 100 * 2) 100)"
  proof (rule for_each_defined)
    fix x assume "x \<in> set (range_step 0 (len sample - 100 * 2) 100)"
    then have "0 \<le> x \<and> x < len sample - 100 * 2" by (rule range_step_bounds)
    then show "?body x \<noteq> None" by (simp add: slice_def)
  qed
  then obtain v where v: "for_each (range_step 0 (len sample - 100 * 2) 100) ?body = Some v" by blast
  show ?thesis using False s v by (simp add: analyzeNoiseProfile_def Let_def)
qed

lemma audio_Analyze_defined: "\<exists>r. audio_Analyze E data = Some r"
proof -
  obtain f where f: "detectAudioFormat data = Some f" using detectAudioFormat_total by blast
  let ?parsed = "(if f = ''mp3'' then analyzeMP3 E data
        else if f = ''wav'' then analyzeWAV E data
        else if f = ''flac'' then analyzeFLAC E data
        else if f = ''ogg'' then analyzeOGG E data
        else if f = ''m4a'' \<or> f = ''aac'' then analyzeM4A E data
        else Some (AudioMetadata_zero \<lparr> am_Format := f \<rparr>,
                   AudioStats_zero \<lparr> as_FileSize := len data \<rparr>))"
  have "\<exists>p. ?parsed = Some p"
    using analyzeMP3_defined[of E data] analyzeWAV_defined[of E data] analyzeFLAC_defined[of E data]
      analyzeOGG_defined[of E data] analyzeM4A_defined[of E data] by simp
  then obtain p0 where p0: "?parsed = Some p0" by blast
  obtain m st where mst: "p0 = (m, st)" by (cases p0)
  have p: "?parsed = Some (m, st)" using p0 mst by simp
  obtain pa where pa: "analyzePatterns data f = Some pa" using analyzePatterns_defined by blast
  obtain sg where sg: "detectAISignatures E data m = Some sg" using detectAISignatures_defined by blast
  obtain no where no: "analyzeNoiseProfile data f = Some no" using analyzeNoiseProfile_defined by blast
  show ?thesis unfolding audio_Analyze_def f using p pa sg no by (simp add: Let_def)
qed

subsection \<open>No panic in the video analysis\<close>

lemma read_atom_defined:
  "0 \<le> offset \<Longrightarrow> offset + 8 \<le> len data \<Longrightarrow> \<exists>declared atomType. read_atom data offset = Some (declared, atomType)"
proof -
  assume a: "0 \<le> offset" "offset + 8 \<le> len data"
  obtain n where n: "Option.bind (slice data offset (offset + 4)) be_uint32 = Some n"
    using slice_be32[of offset data] a by auto
  have "slice data (offset + 4) (offset + 8) = Some (take 4 (drop (nat (offset + 4)) data))"
    using a by (simp add: slice_def)
  then show ?thesis using n by (simp add: read_atom_def)
qed

lemma payload_slice_defined:
  "0 \<le> offset \<Longrightarrow> 8 < atomSize \<Longrightarrow> offset + atomSize \<le> len data \<Longrightarrow> 8 \<le> k
   \<Longrightarrow> \<exists>p. slice data (offset + 8) (min_int (offset + atomSize) (offset + k)) = Some p"
  by (auto simp add: slice_def min_int_def)

lemma moov_atom_defined:
  "0 \<le> offset \<Longrightarrow> 8 \<le> atomSize \<Longrightarrow> offset + atomSize \<le> len data
   \<Longrightarrow> \<exists>m. moov_atom E data offset atomSize atomType meta = Some m"
  by (auto simp add: moov_atom_def slice_def min_int_def)

lemma moov_atoms_defined: "0 \<le> offset \<Longrightarrow> \<exists>m. moov_atoms E data offset meta = Some m"
proof (induction E data offset meta rule: moov_atoms.induct)
  case (1 E data offset meta)
  show ?case
  proof (cases "offset < len data - 8")
    case False then show ?thesis by (subst moov_atoms.simps) auto
  next
    case True
    then have g: "\<not> offset + 8 > len data" by simp
    obtain declared atomType where ra: "read_atom data offset = Some (declared, atomType)"
      using read_atom_defined[of offset data] 1(2) True by auto
    show ?thesis
    proof (cases "int declared < 8 \<or> offset + int declared > len data")
      case stop: True
      then show ?thesis using True g ra by (subst moov_atoms.simps) auto
    next
      case go: False
      obtain m1 where m1: "moov_atom E data offset (int declared) atomType meta = Some m1"
        using moov_atom_defined[of offset "int declared" data E atomType meta] 1(2) go by auto
      have "\<exists>m. moov_atoms E data (offset + int declared) m1 = Some m"
        using 1(1)[OF True g ra refl go m1] 1(2) by simp
      then show ?thesis using True g ra go m1 by (subst moov_atoms.simps) auto
    qed
  qed
qed

lemma parseMovieAtom_defined: "\<exists>r. parseMovieAtom E data meta stats = Some r"
  using moov_atoms_defined[of 8 E data meta] by (auto simp add: parseMovieAtom_def)

lemma mp4_atom_defined:
  assumes "0 \<le> offset" "8 \<le> atomSize" "offset + atomSize \<le> len data"
  shows "\<exists>st1. mp4_atom E data offset atomSize atomType st = Some st1"
proof -
  obtain meta stats where st: "st = (meta, stats)" by (cases st)
  have sl: "slice data offset (offset + atomSize) = Some (take (nat atomSize) (drop (nat offset) data))"
    using assms by (simp add: slice_def)
  have p: "8 < atomSize \<Longrightarrow> \<exists>p. slice data (offset + 8) (min_int (offset + atomSize) (offset + 100)) = Some p"
     "8 < atomSize \<Longrightarrow> \<exists>p. slice data (offset + 8) (min_int (offset + atomSize) (offset + 500)) = Some p"
    using assms payload_slice_defined[of offset atomSize data] by auto
  show ?thesis
    using p parseMovieAtom_defined[of E "take (nat atomSize) (drop (nat offset) data)" meta stats]
    unfolding mp4_atom_def st
    by (auto simp add: sl)
qed

lemma clamp_atom_bounds:
  assumes "offset < len data - 8" "8 \<le> declared"
  shows "8 \<le> clamp_atom data offset declared" "offset + clamp_atom data offset declared \<le> len data"
  using assms by (auto simp add: clamp_atom_def)

lemma mp4_atoms_defined: "0 \<le> offset \<Longrightarrow> \<exists>r. mp4_atoms E data offset st = Some r"
proof (induction E data offset st rule: mp4_atoms.induct)
  case (1 E data offset st)
  show ?case
  proof (cases "offset < len data - 8")
    case False then show ?thesis by (subst mp4_atoms.simps) auto
  next
    case True
    then have g: "\<not> offset + 8 > len data" by simp
    obtain declared atomType where ra: "read_atom data offset = Some (declared, atomType)"
      using read_atom_defined[of offset data] 1(2) True by auto
    show ?thesis
    proof (cases "int declared < 8")
      case stop: True
      then show ?thesis using True g ra by (subst mp4_atoms.simps) auto
    next
      case go: False
      let ?n = "clamp_atom data offset (int declared)"
      have b: "8 \<le> ?n" "offset + ?n \<le> len data"
        using clamp_atom_bounds[of offset data "int declared"] True go by auto
      obtain st1 where st1: "mp4_atom E data offset ?n atomType st = Some st1"
        using mp4_atom_defined[of offset ?n data E atomType st] 1(2) b by auto
      have "\<exists>r. mp4_atoms E data (offset + ?n) st1 = Some r"
        using 1(1)[OF True g ra refl go st1] 1(2) b by simp
      then show ?thesis using True g ra go st1 by (subst mp4_atoms.simps) auto
    qed
  qed
qed

lemma analyzeMP4_defined: "\<exists>r. analyzeMP4 E data = Some r"
  using mp4_atoms_defined[of 0 E data] by (simp add: analyzeMP4_def)

lemma analyzeWebM_defined: "\<exists>r. analyzeWebM E data = Some r"
  using slice_head_defined[of 2000 data] by (auto simp add: analyzeWebM_def Let_def)

lemma analyzeAVI_defined: "\<exists>r. analyzeAVI E data = Some r"
  by (auto simp add: analyzeAVI_def Let_def slice_def)

lemma analyzeContainer_defined: "\<exists>r. analyzeContainer data format = Some r"
  using slice_head_defined[of 100000 data] slice_head_defined[of 1000 data]
  by (auto simp add: analyzeContainer_def Let_def)

lemma five_sixths: "0 \<le> (n::int) \<Longrightarrow> 0 \<le> x \<Longrightarrow> x \<le> 4 \<Longrightarrow> (x + 1) * (n div 6) \<le> n"
proof -
  assume a: "0 \<le> n" "0 \<le> x" "x \<le> 4"
  have "(x + 1) * (n div 6) \<le> 5 * (n div 6)" using a by (intro mult_right_mono) auto
  moreover have "5 * (n div 6) \<le> n" using a by presburger
  ultimately show ?thesis by linarith
qed

lemma fifths: "0 \<le> (n::int) \<Longrightarrow> 0 \<le> x \<Longrightarrow> x \<le> 4 \<Longrightarrow> x * (n div 5) \<le> n"
proof -
  assume a: "0 \<le> n" "0 \<le> x" "x \<le> 4"
  have "x * (n div 5) \<le> 4 * (n div 5)" using a by (intro mult_right_mono) auto
  moreover have "4 * (n div 5) \<le> n" using a by presburger
  ultimately show ?thesis by linarith
qed

lemma analyzeTemporalPattern_defined: "\<exists>r. analyzeTemporalPattern data format = Some r"
proof (cases "len data < 10000")
  case True then show ?thesis by (simp add: analyzeTemporalPattern_def)
next
  case False
  let ?body = "(\<lambda>i. let start = (i + 1) * (len data div (5 + 1));
                              end = start + min_int 1000 (len data - start)
                          in if end > start then map_option Some (slice data start end)
                             else Some None)"
  have "\<exists>v. for_each [0, 1, 2, 3, 4] ?body = Some v \<and> length v = length [0, 1, 2, 3, 4::int]"
  proof (rule for_each_defined)
    fix x :: int assume "x \<in> set [0, 1, 2, 3, 4]"
    then have x: "0 \<le> x" "x \<le> 4" by auto
    have "(x + 1) * (len data div 6) \<le> len data" using five_sixths[of "len data" x] x False by simp
    moreover have "0 \<le> (x + 1) * (len data div 6)" using x False by simp
    ultimately have "\<exists>r. slice data ((x + 1) * (len data div 6)) ((x + 1) * (len data div 6) + min_int 1000 (len data - (x + 1) * (len data div 6))) = Some r"
      by (intro region_slice_defined) auto
    then show "?body x \<noteq> None" by (auto simp add: Let_def)
  qed
  then obtain v where v: "for_each [0, 1, 2, 3, 4] ?body = Some v" by blast
  show ?thesis using False v by (simp add: analyzeTemporalPattern_def Let_def)
qed

lemma analyzeBitrateConsistency_defined: "\<exists>r. analyzeBitrateConsistency data stats = Some r"
proof (cases "vs_FileSize stats < 100000 \<or> len data < 10000")
  case True then show ?thesis by (auto simp add: analyzeBitrateConsistency_def)
next
  case False
  let ?body = "(\<lambda>i. let start = i * (len data div 5);
                             end = start + min_int (len data div 5) (len data - start)
                         in if end > start
                            then map_option (\<lambda>c. Some (calculateEntropy c)) (slice data start end)
                            else Some None)"
  have "\<exists>v. for_each [0, 1, 2, 3, 4] ?body = Some v \<and> length v = length [0, 1, 2, 3, 4::int]"
  proof (rule for_each_defined)
    fix x :: int assume "x \<in> set [0, 1, 2, 3, 4]"
    then have x: "0 \<le> x" "x \<le> 4" by auto
    have "x * (len data div 5) \<le> len data" using fifths[of "len data" x] x by (simp add: len_def)
    moreover have "0 \<le> len data div 5" by (simp add: len_def)
    moreover have "0 \<le> x * (len data div 5)" using x \<open>0 \<le> len data div 5\<close> by simp
    ultimately have "\<exists>r. slice data (x * (len data div 5)) (x * (len data div 5) + min_int (len data div 5) (len data - x * (len data div 5))) = Some r"
      by (intro region_slice_defined) auto
    then show "?body x \<noteq> None" by (auto simp add: Let_def)
  qed
  then obtain v where v: "for_each [0, 1, 2, 3, 4] ?body = Some v" by blast
  show ?thesis using False v by (simp add: analyzeBitrateConsistency_def Let_def)
qed

lemma video_Analyze_defined: "\<exists>r. video_Analyze E data = Some r"
proof -
  obtain f where f: "detectVideoFormat data = Some f" using detectVideoFormat_total by blast
  let ?parsed = "(if f = ''mp4'' \<or> f = ''mov'' then analyzeMP4 E data
        else if f = ''webm'' then analyzeWebM E data
        else if f = ''avi'' then analyzeAVI E data
        else Some (VideoMetadata_zero \<lparr> vm_Format := f \<rparr>,
                   VideoStats_zero \<lparr> vs_FileSize := len data \<rparr>))"
  have "\<exists>p. ?parsed = Some p"
    using analyzeMP4_defined[of E data] analyzeWebM_defined[of E data] analyzeAVI_defined[of E data]
    by simp
  then obtain p0 where p0: "?parsed = Some p0" by blast
  obtain m st where mst: "p0 = (m, st)" by (cases p0)
  have p: "?parsed = Some (m, st)" using p0 mst by simp
  obtain c where c: "analyzeContainer data f = Some c" using analyzeContainer_defined by blast
  obtain t where t: "analyzeTemporalPattern data f = Some t" using analyzeTemporalPattern_defined by blast
  obtain b where b: "analyzeBitrateConsistency data st = Some b" using analyzeBitrateConsistency_defined by blast
  show ?thesis unfolding video_Analyze_def f using p c t b by (simp add: Let_def)
qed

subsection \<open>Definedness, compositionally\<close>

definition ok :: "'a option \<Rightarrow> bool" where "ok x = (x \<noteq> None)"

lemma ok_Some: "ok (Some x)" by (simp add: ok_def)
lemma ok_and_also: "ok a \<Longrightarrow> (a = Some True \<Longrightarrow> ok b) \<Longrightarrow> ok (and_also a b)"
  by (cases a) (auto simp add: ok_def and_also_def split: bool.splits)
lemma ok_or_else: "ok a \<Longrightarrow> (a = Some False \<Longrightarrow> ok b) \<Longrightarrow> ok (or_else a b)"
  by (cases a) (auto simp add: ok_def or_else_def split: bool.splits)
lemma ok_byte_eq: "0 \<le> i \<Longrightarrow> i < len data \<Longrightarrow> ok (byte_eq data i c)"
  by (simp add: ok_def byte_eq_def idx_def)
lemma ok_idx: "0 \<le> i \<Longrightarrow> i < len data \<Longrightarrow> ok (idx data i)"
  by (simp add: ok_def idx_def)
lemma ok_map_option: "ok m \<Longrightarrow> ok (map_option f m)"
  by (cases m) (auto simp add: ok_def)
lemma ok_bind: "ok m \<Longrightarrow> (\<And>x. m = Some x \<Longrightarrow> ok (f x)) \<Longrightarrow> ok (Option.bind m f)"
  by (cases m) (auto simp add: ok_def)
lemma ok_if: "(c \<Longrightarrow> ok a) \<Longrightarrow> (\<not> c \<Longrightarrow> ok b) \<Longrightarrow> ok (if c then a else b)"
  by simp
lemma okE: "ok x \<Longrightarrow> \<exists>v. x = Some v" by (cases x) (auto simp add: ok_def)

lemmas ok_intros = ok_Some ok_and_also ok_or_else ok_byte_eq ok_idx ok_map_option ok_bind ok_if

lemma and_also_guard: "(and_also (Some c) b = Some True) = (c \<and> b = Some True)"
  by (cases c) (simp_all add: and_also_def)

lemma ContentTypeFromMagicBytes_ok: "ok (ContentTypeFromMagicBytes data)"
  unfolding ContentTypeFromMagicBytes_def
  by (intro ok_intros; simp add: and_also_guard)

subsection \<open>Verdict and content hash\<close>

definition verdict_ok :: "DetectionResult \<Rightarrow> bool" where
  "verdict_ok r = (Human r = flt (AIScore r) (Fin 0.5)
     \<and> Confidence r = fmul (abs_f (fsub (AIScore r) (Fin 0.5))) (Fin 2))"

lemma DetectText_verdict: "DetectText cfg E input = Some (Inr r) \<Longrightarrow> verdict_ok r"
  by (auto simp add: DetectText_def verdict_ok_def Let_def split: sum.splits)

lemma DetectImage_verdict: "DetectImage cfg E input = Some (Inr r) \<Longrightarrow> verdict_ok r"
  by (auto simp add: DetectImage_def verdict_ok_def Let_def split: sum.splits option.splits)

lemma DetectAudio_verdict: "DetectAudio cfg E input = Some (Inr r) \<Longrightarrow> verdict_ok r"
  by (auto simp add: DetectAudio_def verdict_ok_def Let_def split: sum.splits option.splits)

lemma DetectVideo_verdict: "DetectVideo cfg E input = Some (Inr r) \<Longrightarrow> verdict_ok r"
  by (auto simp add: DetectVideo_def verdict_ok_def Let_def split: sum.splits option.splits)

lemma verdict_ok_update: "verdict_ok r \<Longrightarrow> verdict_ok (r \<lparr> ContentHash := h, ProcessingTime := t \<rparr>)"
  by (simp add: verdict_ok_def)

lemma Detect_verdict: assumes "Detect cfg E input = Some (Inr r)" shows "verdict_ok r"
proof -
  from assms obtain ct where ct: "resolved_type E input = Some ct"
    by (auto simp add: Detect_def split: option.splits)
  let ?input = "input \<lparr> ContentType := ct \<rparr>"
  let ?routed = "(if ct = ''text'' then DetectText cfg E ?input
                       else if ct = ''image'' then DetectImage cfg E ?input
                       else if ct = ''audio'' then DetectAudio cfg E ?input
                       else DetectVideo cfg E ?input)"
  from assms ct obtain r0 where r0: "?routed = Some (Inr r0)"
     and r: "r = r0 \<lparr> ContentHash := hashContent E ?input, ProcessingTime := time_Since E \<rparr>"
    by (auto simp add: Detect_def Let_def split: option.splits sum.splits if_splits)
  have "verdict_ok r0"
    using r0 DetectText_verdict DetectImage_verdict DetectAudio_verdict DetectVideo_verdict
    by (auto split: if_splits)
  then show ?thesis unfolding r by (rule verdict_ok_update)
qed

lemma verdict_ok_finite: "verdict_ok r \<Longrightarrow> AIScore r = Fin s \<Longrightarrow> Human r = (s < 0.5) \<and> Confidence r = Fin (\<bar>s - 0.5\<bar> * 2)"
  by (auto simp add: verdict_ok_def abs_f_def fsub_def)

lemma hash_text: "Text a \<noteq> [] \<Longrightarrow> hashContent E a = EncodeToString (sha256_Sum E (Text a))"
  by (simp add: hashContent_def hashed_bytes_def)

lemma Detect_hash: assumes "Detect cfg E input = Some (Inr r)" shows "ContentHash r = EncodeToString (sha256_Sum E (hashed_bytes input))"
  using assms by (auto simp add: Detect_def Let_def hashContent_def hashed_bytes_def split: option.splits sum.splits if_splits)

subsection \<open>The outcomes of a detection\<close>

lemma ContentTypeFromMagicBytes_total: "\<exists>ct. ContentTypeFromMagicBytes data = Some ct"
  using ContentTypeFromMagicBytes_ok okE by blast

lemma resolved_type_total: "\<exists>ct. resolved_type E input = Some ct"
  using ContentTypeFromMagicBytes_total[of "Data input"]
  by (auto simp add: resolved_type_def detectContentType_def)

definition supported :: "string \<Rightarrow> bool" where
  "supported ct = (ct \<in> set [''text'', ''image'', ''audio'', ''video''])"

definition missing :: "string \<Rightarrow> error" where
  "missing ct = (if ct = ''text'' then NoTextContent else if ct = ''image'' then NoImageData
                 else if ct = ''audio'' then NoAudioData else NoVideoData)"

definition route :: "DetectorConfig \<Rightarrow> Env \<Rightarrow> string \<Rightarrow> DetectionInput \<Rightarrow> DetectionResult outcome" where
  "route cfg E ct input = (if ct = ''text'' then DetectText cfg E input
                       else if ct = ''image'' then DetectImage cfg E input
                       else if ct = ''audio'' then DetectAudio cfg E input
                       else DetectVideo cfg E input)"

text \<open>
  Why a routed detector fails: there are no bytes to analyze (and, for text, no text), and
  either there is no URL, or the fetch fails, or (for text) the fetched body is empty.
\<close>
definition fails_for :: "Env \<Rightarrow> string \<Rightarrow> DetectionInput \<Rightarrow> error \<Rightarrow> bool" where
  "fails_for E ct input err =
     (Data input = [] \<and> (ct = ''text'' \<longrightarrow> Text input = [])
      \<and> (if URL input = [] then err = missing ct
          else (\<exists>e. http_Get E (URL input) = Inl e \<and> err = FetchFailed e)
               \<or> (ct = ''text'' \<and> (\<exists>body. http_Get E (URL input) = Inr body
                      \<and> take (1024 * 1024) body = [] \<and> err = NoTextContent))))"

lemma input_text_cases:
  "(\<exists>t. input_text E input = Inr t \<and> t \<noteq> []) \<or> (\<exists>err. input_text E input = Inl err \<and> fails_for E ''text'' input err)"
  by (auto simp add: input_text_def fails_for_def missing_def Let_def len_def split: sum.splits)

lemma input_text_nonempty:
  "Text input \<noteq> [] \<or> Data input \<noteq> [] \<Longrightarrow> \<exists>t. input_text E input = Inr t"
  by (auto simp add: input_text_def Let_def len_def)

lemma input_data_cases:
  "missing ct = m \<Longrightarrow> ct \<noteq> ''text'' \<Longrightarrow>
   (\<exists>d. input_data E limit m input = Inr d) \<or> (\<exists>err. input_data E limit m input = Inl err \<and> fails_for E ct input err)"
  by (auto simp add: input_data_def fails_for_def len_def split: sum.splits)

lemma input_data_nonempty: "Data input \<noteq> [] \<Longrightarrow> input_data E limit m input = Inr (Data input)"
  by (simp add: input_data_def len_def)

lemma DetectText_cases:
  "(\<exists>r. DetectText cfg E input = Some (Inr r)) \<or> (\<exists>err. DetectText cfg E input = Some (Inl err) \<and> fails_for E ''text'' input err)"
proof -
  from input_text_cases[of E input]
  show ?thesis
  proof
    assume "\<exists>t. input_text E input = Inr t \<and> t \<noteq> []"
    then obtain t where t: "input_text E input = Inr t" by blast
    show ?thesis unfolding DetectText_def t by (simp add: Let_def)
  next
    assume "\<exists>err. input_text E input = Inl err \<and> fails_for E ''text'' input err"
    then obtain err where e: "input_text E input = Inl err" "fails_for E ''text'' input err" by blast
    show ?thesis unfolding DetectText_def e(1) using e(2) by simp
  qed
qed

lemma DetectImage_cases:
  "(\<exists>r. DetectImage cfg E input = Some (Inr r)) \<or> (\<exists>err. DetectImage cfg E input = Some (Inl err) \<and> fails_for E ''image'' input err)"
proof -
  have m: "missing ''image'' = NoImageData" by (simp add: missing_def)
  have ne: "''image'' \<noteq> ''text''" by simp
  from input_data_cases[OF m ne, of E "50 * 1024 * 1024" input]
  show ?thesis
  proof
    assume "\<exists>d. input_data E (50 * 1024 * 1024) NoImageData input = Inr d"
    then obtain d where d: "input_data E (50 * 1024 * 1024) NoImageData input = Inr d" by blast
    obtain a where a: "image_Analyze d = Some a" using image_Analyze_defined by blast
    show ?thesis unfolding DetectImage_def d by (simp add: a Let_def)
  next
    assume "\<exists>err. input_data E (50 * 1024 * 1024) NoImageData input = Inl err \<and> fails_for E ''image'' input err"
    then obtain err where e: "input_data E (50 * 1024 * 1024) NoImageData input = Inl err" "fails_for E ''image'' input err" by blast
    show ?thesis unfolding DetectImage_def e(1) using e(2) by simp
  qed
qed

lemma DetectAudio_cases:
  "(\<exists>r. DetectAudio cfg E input = Some (Inr r)) \<or> (\<exists>err. DetectAudio cfg E input = Some (Inl err) \<and> fails_for E ''audio'' input err)"
proof -
  have m: "missing ''audio'' = NoAudioData" by (simp add: missing_def)
  have ne: "''audio'' \<noteq> ''text''" by simp
  from input_data_cases[OF m ne, of E "100 * 1024 * 1024" input]
  show ?thesis
  proof
    assume "\<exists>d. input_data E (100 * 1024 * 1024) NoAudioData input = Inr d"
    then obtain d where d: "input_data E (100 * 1024 * 1024) NoAudioData input = Inr d" by blast
    obtain a where a: "audio_Analyze E d = Some a" using audio_Analyze_defined by blast
    show ?thesis unfolding DetectAudio_def d by (simp add: a Let_def)
  next
    assume "\<exists>err. input_data E (100 * 1024 * 1024) NoAudioData input = Inl err \<and> fails_for E ''audio'' input err"
    then obtain err where e: "input_data E (100 * 1024 * 1024) NoAudioData input = Inl err" "fails_for E ''audio'' input err" by blast
    show ?thesis unfolding DetectAudio_def e(1) using e(2) by simp
  qed
qed

lemma DetectVideo_cases:
  "(\<exists>r. DetectVideo cfg E input = Some (Inr r)) \<or> (\<exists>err. DetectVideo cfg E input = Some (Inl err) \<and> fails_for E ''video'' input err)"
proof -
  have m: "missing ''video'' = NoVideoData" by (simp add: missing_def)
  have ne: "''video'' \<noteq> ''text''" by simp
  from input_data_cases[OF m ne, of E "500 * 1024 * 1024" input]
  show ?thesis
  proof
    assume "\<exists>d. input_data E (500 * 1024 * 1024) NoVideoData input = Inr d"
    then obtain d where d: "input_data E (500 * 1024 * 1024) NoVideoData input = Inr d" by blast
    obtain a where a: "video_Analyze E d = Some a" using video_Analyze_defined by blast
    show ?thesis unfolding DetectVideo_def d by (simp add: a Let_def)
  next
    assume "\<exists>err. input_data E (500 * 1024 * 1024) NoVideoData input = Inl err \<and> fails_for E ''video'' input err"
    then obtain err where e: "input_data E (500 * 1024 * 1024) NoVideoData input = Inl err" "fails_for E ''video'' input err" by blast
    show ?thesis unfolding DetectVideo_def e(1) using e(2) by simp
  qed
qed

lemma supported_cases:
  "supported ct \<Longrightarrow> ct = ''text'' \<or> ct = ''image'' \<or> ct = ''audio'' \<or> ct = ''video''"
  unfolding supported_def by (simp only: list.set insert_iff empty_iff simp_thms)

lemma route_text: "route cfg E ''text'' input = DetectText cfg E input"
  by (simp add: route_def)
lemma route_image: "route cfg E ''image'' input = DetectImage cfg E input"
  by (simp add: route_def)
lemma route_audio: "route cfg E ''audio'' input = DetectAudio cfg E input"
  by (simp add: route_def)
lemma route_video: "route cfg E ''video'' input = DetectVideo cfg E input"
  by (simp add: route_def)

lemma route_cases:
  assumes "supported ct"
  shows "(\<exists>r. route cfg E ct input = Some (Inr r)) \<or> (\<exists>err. route cfg E ct input = Some (Inl err) \<and> fails_for E ct input err)"
proof -
  from supported_cases[OF assms]
  consider "ct = ''text''" | "ct = ''image''" | "ct = ''audio''" | "ct = ''video''" by blast
  then show ?thesis
  proof cases
    case 1 show ?thesis unfolding 1 route_text by (rule DetectText_cases)
  next
    case 2 show ?thesis unfolding 2 route_image by (rule DetectImage_cases)
  next
    case 3 show ?thesis unfolding 3 route_audio by (rule DetectAudio_cases)
  next
    case 4 show ?thesis unfolding 4 route_video by (rule DetectVideo_cases)
  qed
qed

lemma Detect_route:
  "resolved_type E input = Some ct \<Longrightarrow>
   Detect cfg E input =
     (if \<not> supported ct then Some (Inl (UnsupportedContentType ct))
      else case route cfg E ct (input \<lparr> ContentType := ct \<rparr>) of
             None \<Rightarrow> None
           | Some (Inl err) \<Rightarrow> Some (Inl (DetectionFailed err))
           | Some (Inr result) \<Rightarrow>
               Some (Inr (result \<lparr> ContentHash := hashContent E (input \<lparr> ContentType := ct \<rparr>),
                                    ProcessingTime := time_Since E \<rparr>)))"
  unfolding Detect_def route_def supported_def Let_def by simp

lemma fails_for_update: "fails_for E ct (input \<lparr> ContentType := x \<rparr>) err = fails_for E ct input err"
  by (simp add: fails_for_def)

lemma Detect_cases:
  assumes "resolved_type E input = Some ct"
  shows "(\<exists>r. Detect cfg E input = Some (Inr r))
       \<or> (\<not> supported ct \<and> Detect cfg E input = Some (Inl (UnsupportedContentType ct)))
       \<or> (supported ct \<and> (\<exists>err. Detect cfg E input = Some (Inl (DetectionFailed err)) \<and> fails_for E ct input err))"
proof (cases "supported ct")
  case False then show ?thesis by (simp add: Detect_route[OF assms])
next
  case True
  from route_cases[OF True, of cfg E "input \<lparr> ContentType := ct \<rparr>"]
  show ?thesis
  proof
    assume "\<exists>r. route cfg E ct (input\<lparr>ContentType := ct\<rparr>) = Some (Inr r)"
    then obtain r where r: "route cfg E ct (input\<lparr>ContentType := ct\<rparr>) = Some (Inr r)" by blast
    show ?thesis unfolding Detect_route[OF assms] r using True by simp
  next
    assume "\<exists>err. route cfg E ct (input\<lparr>ContentType := ct\<rparr>) = Some (Inl err) \<and> fails_for E ct (input\<lparr>ContentType := ct\<rparr>) err"
    then obtain err where e: "route cfg E ct (input\<lparr>ContentType := ct\<rparr>) = Some (Inl err)"
      "fails_for E ct input err" unfolding fails_for_update by blast
    show ?thesis unfolding Detect_route[OF assms] e(1) using True e(2) by simp
  qed
qed

lemma Detect_media_data:
  assumes "Data input \<noteq> []" "resolved_type E input = Some ct" "ct \<in> set [''image'', ''audio'', ''video'']"
  shows "\<exists>r. Detect cfg E input = Some (Inr r)"
proof -
  have s: "supported ct" using assms(3) unfolding supported_def by auto
  have nf: "\<not> fails_for E ct input err" for err using assms(1) by (simp add: fails_for_def)
  from Detect_cases[OF assms(2), of cfg] s nf
  show ?thesis by blast
qed

section \<open>Properties of the MP4 atom walk\<close>

text \<open>
  Buffers for the walk: one whose first atom declares the size 4; one whose first atom
  declares 256 bytes where only 20 are present; and two \<open>moov\<close> atoms of 25 bytes that
  hold a \<open>trak\<close> atom with the bytes \<open>soun\<close>, the \<open>trak\<close> atom declaring 32 bytes, which
  runs over the end, in the first and 16 bytes, which fits, in the second.
\<close>

definition mp4_small_atom :: bytes where
  "mp4_small_atom = [CHR 0x00, CHR 0x00, CHR 0x00, CHR 0x04] @ ''free'' @ ''12345678''"

definition mp4_truncated :: bytes where
  "mp4_truncated = [CHR 0x00, CHR 0x00, CHR 0x01, CHR 0x00] @ ''mdat'' @ ''123456789012''"

lemma mp4_atoms_step:
  assumes "0 \<le> offset" "offset < len data - 8" "read_atom data offset = Some (declared, atomType)"
  shows "int declared < 8 \<Longrightarrow> mp4_atoms E data offset st = Some st"
    and "8 \<le> int declared \<Longrightarrow>
           mp4_atoms E data offset st =
             Option.bind (mp4_atom E data offset (clamp_atom data offset (int declared)) atomType st)
               (mp4_atoms E data (offset + clamp_atom data offset (int declared)))"
  using assms by (subst mp4_atoms.simps; simp split: option.splits)+

lemma moov_atoms_stop:
  assumes "read_atom data offset = Some (declared, atomType)"
    "int declared < 8 \<or> offset + int declared > len data"
  shows "moov_atoms E data offset meta = Some meta"
  using assms by (subst moov_atoms.simps) simp

lemma small_atom_header: "len mp4_small_atom = 16" "read_atom mp4_small_atom 0 = Some (4, ''free'')"
  by code_simp+

lemma truncated_header: "len mp4_truncated = 20" "read_atom mp4_truncated 0 = Some (256, ''mdat'')"
  by code_simp+

lemma truncated_result:
  "analyzeMP4 ascii_env mp4_truncated =
     Some (VideoMetadata_zero \<lparr> vm_Format := ''mp4'', vm_HasVideo := True \<rparr>,
           VideoStats_zero \<lparr> vs_FileSize := 20, vs_ChunkCount := 1 \<rparr>)"
  by code_simp

lemma small_atom_result:
  "analyzeMP4 ascii_env mp4_small_atom =
     Some (VideoMetadata_zero \<lparr> vm_Format := ''mp4'', vm_HasVideo := True \<rparr>,
           VideoStats_zero \<lparr> vs_FileSize := 16 \<rparr>)"
  by code_simp

definition moov_overrun :: bytes where
  "moov_overrun =
     [CHR 0x00, CHR 0x00, CHR 0x00, CHR 0x19] @ ''moov''
     @ [CHR 0x00, CHR 0x00, CHR 0x00, CHR 0x20] @ ''trak'' @ ''sounXXXX'' @ ''Z''"

definition moov_fitting :: bytes where
  "moov_fitting =
     [CHR 0x00, CHR 0x00, CHR 0x00, CHR 0x19] @ ''moov''
     @ [CHR 0x00, CHR 0x00, CHR 0x00, CHR 0x10] @ ''trak'' @ ''sounXXXX'' @ ''Z''"

definition mp4_meta :: VideoMetadata where
  "mp4_meta = VideoMetadata_zero \<lparr> vm_Format := ''mp4'', vm_HasVideo := True \<rparr>"

lemma moov_atoms_step:
  assumes "0 \<le> offset" "offset < len data - 8"
    "read_atom data offset = Some (declared, atomType)"
    "8 \<le> int declared" "offset + int declared \<le> len data"
  shows "moov_atoms E data offset meta =
           Option.bind (moov_atom E data offset (int declared) atomType meta)
             (moov_atoms E data (offset + int declared))"
  using assms by (subst moov_atoms.simps; simp split: option.splits)

lemma moov_overrun_header:
  "len moov_overrun = 25" "read_atom moov_overrun 0 = Some (25, ''moov'')"
  "read_atom moov_overrun 8 = Some (32, ''trak'')"
  by code_simp+

lemma moov_fitting_header:
  "len moov_fitting = 25" "read_atom moov_fitting 8 = Some (16, ''trak'')"
  by code_simp+

lemma moov_overrun_result:
  "analyzeMP4 ascii_env moov_overrun
     = Some (mp4_meta, VideoStats_zero \<lparr> vs_FileSize := 25 \<rparr>)"
  unfolding mp4_meta_def by code_simp

lemma moov_fitting_result:
  "analyzeMP4 ascii_env moov_fitting
     = Some (mp4_meta \<lparr> vm_HasAudio := True \<rparr>, VideoStats_zero \<lparr> vs_FileSize := 25 \<rparr>)"
  unfolding mp4_meta_def by code_simp

lemma moov_overrun_inner:
  "moov_atoms ascii_env moov_overrun 8 mp4_meta = Some mp4_meta"
  unfolding mp4_meta_def by code_simp

lemma moov_overrun_clamped:
  "clamp_atom moov_overrun 8 32 = 17"
  "moov_atom ascii_env moov_overrun 8 17 ''trak'' mp4_meta
     = Some (mp4_meta \<lparr> vm_HasAudio := True \<rparr>)"
  unfolding mp4_meta_def by code_simp+

lemma mp4_meta_sel: "vm_HasAudio mp4_meta = False"
  by (simp add: mp4_meta_def VideoMetadata_zero_def)

text \<open>
  Claim C4, as stated: in the MP4 atom walk an atom whose declared size exceeds the
  remaining buffer length is clamped to the remaining length. The walk of
  \<open>parseMovieAtom\<close> does not clamp: it ends at such an atom. In the buffer
  \<open>moov_overrun\<close> the \<open>trak\<close> atom at offset 8 declares 32 bytes where 17 remain; the
  inner walk ends there with the metadata unchanged, so \<open>analyzeMP4\<close> reports no audio
  track, where the loop body on the atom clamped to 17 bytes finds \<open>soun\<close> and sets
  \<open>HasAudio\<close>.
\<close>

theorem C4_inner_walk_counterexample:
  "read_atom moov_overrun 8 = Some (32, ''trak'')
   \<and> 8 + 32 > len moov_overrun
   \<and> moov_atoms ascii_env moov_overrun 8 mp4_meta = Some mp4_meta
   \<and> analyzeMP4 ascii_env moov_overrun
       = Some (mp4_meta, VideoStats_zero \<lparr> vs_FileSize := 25 \<rparr>)
   \<and> vm_HasAudio mp4_meta = False
   \<and> moov_atom ascii_env moov_overrun 8 (clamp_atom moov_overrun 8 32) ''trak'' mp4_meta
       = Some (mp4_meta \<lparr> vm_HasAudio := True \<rparr>)"
  unfolding moov_overrun_header moov_overrun_result moov_overrun_inner moov_overrun_clamped
    mp4_meta_sel
  by simp

text \<open>
  Claim C4, amended. For every byte buffer the walk of \<open>analyzeMP4\<close>, and the walk of
  \<open>parseMovieAtom\<close> inside a \<open>moov\<close> atom, return a value: both are total functions
  (their recursion terminates, the distance to the end of the buffer decreasing) and no
  index or slice expression in them is out of bounds. At every offset that the loop guard
  admits, the 8-byte header is read within the buffer. In the walk of \<open>analyzeMP4\<close> a
  declared size below 8 ends the walk with the state unchanged; a declared size of 8 or
  more that runs over the end of the buffer is clamped to the bytes that remain; the size
  used is at least 8, so the next offset is strictly greater and at most the length of the
  buffer, and the walk continues from there. In the walk of \<open>parseMovieAtom\<close> a declared
  size below 8, and a declared size that runs over the end of the buffer, both end the
  walk with the metadata unchanged; any other atom is processed whole and the walk
  continues at the strictly greater offset behind it.
\<close>

theorem C4_mp4_walk_terminates_in_bounds:
  "(\<exists>r. analyzeMP4 E data = Some r)
   \<and> (\<exists>r. parseMovieAtom E data meta stats = Some r)
   \<and> (0 \<le> offset \<and> offset < len data - 8 \<longrightarrow>
        (\<exists>declared atomType. read_atom data offset = Some (declared, atomType)
           \<and> (int declared < 8 \<longrightarrow> mp4_atoms E data offset st = Some st)
           \<and> (int declared < 8 \<or> offset + int declared > len data
                 \<longrightarrow> moov_atoms E data offset meta = Some meta)
           \<and> (8 \<le> int declared \<and> offset + int declared \<le> len data
                 \<longrightarrow> offset < offset + int declared
                     \<and> (\<exists>meta1. moov_atom E data offset (int declared) atomType meta
                                   = Some meta1
                            \<and> moov_atoms E data offset meta
                              = moov_atoms E data (offset + int declared) meta1))
           \<and> (8 \<le> int declared \<longrightarrow>
                (offset + int declared > len data
                   \<longrightarrow> clamp_atom data offset (int declared) = len data - offset)
                \<and> (offset + int declared \<le> len data
                   \<longrightarrow> clamp_atom data offset (int declared) = int declared)
                \<and> offset < offset + clamp_atom data offset (int declared)
                \<and> offset + clamp_atom data offset (int declared) \<le> len data
                \<and> (\<exists>st1. mp4_atom E data offset (clamp_atom data offset (int declared))
                             atomType st = Some st1
                       \<and> mp4_atoms E data offset st
                         = mp4_atoms E data (offset + clamp_atom data offset (int declared)) st1))))"
proof (intro conjI impI)
  show "\<exists>r. analyzeMP4 E data = Some r" by (rule analyzeMP4_defined)
  show "\<exists>r. parseMovieAtom E data meta stats = Some r" by (rule parseMovieAtom_defined)
next
  assume a: "0 \<le> offset \<and> offset < len data - 8"
  then obtain declared atomType where ra: "read_atom data offset = Some (declared, atomType)"
    using read_atom_defined[of offset data] by auto
  let ?n = "clamp_atom data offset (int declared)"
  have stop: "int declared < 8 \<longrightarrow> mp4_atoms E data offset st = Some st"
    using mp4_atoms_step(1)[OF _ _ ra] a by blast
  have mstop: "int declared < 8 \<or> offset + int declared > len data
                 \<longrightarrow> moov_atoms E data offset meta = Some meta"
    using moov_atoms_stop[OF ra] by blast
  have mgo: "8 \<le> int declared \<and> offset + int declared \<le> len data
                 \<longrightarrow> offset < offset + int declared
                     \<and> (\<exists>meta1. moov_atom E data offset (int declared) atomType meta
                                   = Some meta1
                            \<and> moov_atoms E data offset meta
                              = moov_atoms E data (offset + int declared) meta1)"
  proof
    assume d: "8 \<le> int declared \<and> offset + int declared \<le> len data"
    obtain meta1 where m1: "moov_atom E data offset (int declared) atomType meta = Some meta1"
      using moov_atom_defined[of offset "int declared" data E atomType meta] a d by auto
    have "moov_atoms E data offset meta = moov_atoms E data (offset + int declared) meta1"
      using moov_atoms_step[OF _ _ ra, of E meta] a d m1 by simp
    then show "offset < offset + int declared
                     \<and> (\<exists>meta1. moov_atom E data offset (int declared) atomType meta
                                   = Some meta1
                            \<and> moov_atoms E data offset meta
                              = moov_atoms E data (offset + int declared) meta1)"
      using d m1 by auto
  qed
  have go: "8 \<le> int declared \<longrightarrow>
                (offset + int declared > len data \<longrightarrow> ?n = len data - offset)
                \<and> (offset + int declared \<le> len data \<longrightarrow> ?n = int declared)
                \<and> offset < offset + ?n
                \<and> offset + ?n \<le> len data
                \<and> (\<exists>st1. mp4_atom E data offset ?n atomType st = Some st1
                       \<and> mp4_atoms E data offset st = mp4_atoms E data (offset + ?n) st1)"
  proof
    assume d: "8 \<le> int declared"
    have b: "8 \<le> ?n" "offset + ?n \<le> len data"
      using clamp_atom_bounds[of offset data "int declared"] a d by auto
    obtain st1 where st1: "mp4_atom E data offset ?n atomType st = Some st1"
      using mp4_atom_defined[of offset ?n data E atomType st] a b by auto
    have step: "mp4_atoms E data offset st = mp4_atoms E data (offset + ?n) st1"
      using mp4_atoms_step(2)[OF _ _ ra d, of E st] a st1 by simp
    have c: "(offset + int declared > len data \<longrightarrow> ?n = len data - offset)
                \<and> (offset + int declared \<le> len data \<longrightarrow> ?n = int declared)"
      by (simp add: clamp_atom_def)
    show "(offset + int declared > len data \<longrightarrow> ?n = len data - offset)
                \<and> (offset + int declared \<le> len data \<longrightarrow> ?n = int declared)
                \<and> offset < offset + ?n
                \<and> offset + ?n \<le> len data
                \<and> (\<exists>st1. mp4_atom E data offset ?n atomType st = Some st1
                       \<and> mp4_atoms E data offset st = mp4_atoms E data (offset + ?n) st1)"
      using b c st1 step by auto
  qed
  from ra stop mstop mgo go
  show "\<exists>declared atomType. read_atom data offset = Some (declared, atomType)
           \<and> (int declared < 8 \<longrightarrow> mp4_atoms E data offset st = Some st)
           \<and> (int declared < 8 \<or> offset + int declared > len data
                 \<longrightarrow> moov_atoms E data offset meta = Some meta)
           \<and> (8 \<le> int declared \<and> offset + int declared \<le> len data
                 \<longrightarrow> offset < offset + int declared
                     \<and> (\<exists>meta1. moov_atom E data offset (int declared) atomType meta
                                   = Some meta1
                            \<and> moov_atoms E data offset meta
                              = moov_atoms E data (offset + int declared) meta1))
           \<and> (8 \<le> int declared \<longrightarrow>
                (offset + int declared > len data
                   \<longrightarrow> clamp_atom data offset (int declared) = len data - offset)
                \<and> (offset + int declared \<le> len data
                   \<longrightarrow> clamp_atom data offset (int declared) = int declared)
                \<and> offset < offset + clamp_atom data offset (int declared)
                \<and> offset + clamp_atom data offset (int declared) \<le> len data
                \<and> (\<exists>st1. mp4_atom E data offset (clamp_atom data offset (int declared))
                             atomType st = Some st1
                       \<and> mp4_atoms E data offset st
                         = mp4_atoms E data (offset + clamp_atom data offset (int declared)) st1))"
    by blast
qed

theorem C4_mp4_walk_witness:
  "(0 \<le> (0::int) \<and> 0 < len mp4_small_atom - 8)
   \<and> read_atom mp4_small_atom 0 = Some (4, ''free'')
   \<and> mp4_atoms ascii_env mp4_small_atom 0 (VideoMetadata_zero, VideoStats_zero)
       = Some (VideoMetadata_zero, VideoStats_zero)
   \<and> moov_atoms ascii_env mp4_small_atom 0 VideoMetadata_zero = Some VideoMetadata_zero
   \<and> (0 \<le> (0::int) \<and> 0 < len mp4_truncated - 8)
   \<and> read_atom mp4_truncated 0 = Some (256, ''mdat'')
   \<and> clamp_atom mp4_truncated 0 256 = len mp4_truncated - 0
   \<and> (\<exists>st1. mp4_atom ascii_env mp4_truncated 0 20 ''mdat'' (VideoMetadata_zero, VideoStats_zero)
               = Some st1
          \<and> mp4_atoms ascii_env mp4_truncated 0 (VideoMetadata_zero, VideoStats_zero)
            = mp4_atoms ascii_env mp4_truncated 20 st1)
   \<and> (\<exists>r. analyzeMP4 ascii_env mp4_truncated = Some r)
   \<and> (0 \<le> (8::int) \<and> 8 < len moov_overrun - 8)
   \<and> read_atom moov_overrun 8 = Some (32, ''trak'')
   \<and> moov_atoms ascii_env moov_overrun 8 mp4_meta = Some mp4_meta
   \<and> (0 \<le> (8::int) \<and> 8 < len moov_fitting - 8)
   \<and> read_atom moov_fitting 8 = Some (16, ''trak'')
   \<and> (\<exists>meta1. moov_atom ascii_env moov_fitting 8 16 ''trak'' mp4_meta = Some meta1
          \<and> moov_atoms ascii_env moov_fitting 8 mp4_meta
            = moov_atoms ascii_env moov_fitting 24 meta1)"
  using C4_mp4_walk_terminates_in_bounds
          [of ascii_env mp4_small_atom VideoMetadata_zero VideoStats_zero 0
              "(VideoMetadata_zero, VideoStats_zero)"]
        C4_mp4_walk_terminates_in_bounds
          [of ascii_env mp4_truncated VideoMetadata_zero VideoStats_zero 0
              "(VideoMetadata_zero, VideoStats_zero)"]
        C4_mp4_walk_terminates_in_bounds
          [of ascii_env moov_overrun mp4_meta VideoStats_zero 8
              "(VideoMetadata_zero, VideoStats_zero)"]
        C4_mp4_walk_terminates_in_bounds
          [of ascii_env moov_fitting mp4_meta VideoStats_zero 8
              "(VideoMetadata_zero, VideoStats_zero)"]
  unfolding small_atom_header truncated_header moov_overrun_header moov_fitting_header
  by auto

section \<open>Properties of the detector\<close>

subsection \<open>The content hash\<close>

text \<open>
  A configuration without API keys, and two inputs with the same text and different data,
  URL and file name. In \<open>ascii_env\<close> the digest function is a stand-in (the identity), so
  that the bytes that reach it can be read off the result.
\<close>

definition no_keys :: DetectorConfig where
  "no_keys = \<lparr> HiveAPIKey = [], OpenAIAPIKey = [], GPTZeroAPIKey = [] \<rparr>"

lemma no_keys_simps: "HiveAPIKey no_keys = []" "OpenAIAPIKey no_keys = []" "GPTZeroAPIKey no_keys = []"
  by (simp_all add: no_keys_def)

definition text_and_data :: DetectionInput where
  "text_and_data = \<lparr> URL = ''http://a.example/x'', Text = ''hi'', Data = ''abc'',
                      Filename = [], ContentType = [] \<rparr>"

definition text_other_data :: DetectionInput where
  "text_other_data = \<lparr> URL = [], Text = ''hi'', Data = ''zz'',
                        Filename = ''f.png'', ContentType = [] \<rparr>"

lemma hex_hi: "EncodeToString ''hi'' = ''6869''"
  by code_simp

lemma detect_text_and_data:
  "\<exists>r. Detect no_keys ascii_env text_and_data = Some (Inr r)"
proof -
  have rt: "resolved_type ascii_env text_and_data = Some ''text''"
    by (simp add: resolved_type_def detectContentType_def text_and_data_def)
  have "\<not> fails_for ascii_env ''text'' text_and_data err" for err
    by (simp add: fails_for_def text_and_data_def)
  then show ?thesis using Detect_cases[OF rt, of no_keys] by (auto simp add: supported_def)
qed

text \<open>
  Claim C10. For every input with non-empty \<open>Text\<close>, \<open>hashContent\<close> is the hexadecimal
  encoding of the SHA-256 digest of \<open>Text\<close> alone; so every other input with the same
  \<open>Text\<close> has the same hash, whatever its \<open>Data\<close> and \<open>URL\<close>; and this is the
  \<open>ContentHash\<close> of every result that \<open>Detect\<close> returns for the input. The digest
  function is the one of the environment.
\<close>

theorem C10_hash_of_text_alone:
  assumes "Text a \<noteq> []"
  shows "hashContent E a = EncodeToString (sha256_Sum E (Text a))
       \<and> (Text b = Text a \<longrightarrow> hashContent E b = hashContent E a)
       \<and> (Detect cfg E a = Some (Inr r) \<longrightarrow> ContentHash r = EncodeToString (sha256_Sum E (Text a)))"
proof -
  have h: "hashed_bytes a = Text a" using assms by (simp add: hashed_bytes_def)
  have 1: "hashContent E a = EncodeToString (sha256_Sum E (Text a))"
    using assms by (rule hash_text)
  have 2: "Text b = Text a \<longrightarrow> hashContent E b = hashContent E a"
    using assms by (simp add: hash_text)
  have 3: "Detect cfg E a = Some (Inr r) \<longrightarrow> ContentHash r = EncodeToString (sha256_Sum E (Text a))"
    using Detect_hash[of cfg E a r] h by simp
  from 1 2 3 show ?thesis by blast
qed

theorem C10_hash_witness:
  "Text text_and_data \<noteq> [] \<and> Text text_other_data = Text text_and_data
   \<and> Data text_other_data \<noteq> Data text_and_data \<and> URL text_other_data \<noteq> URL text_and_data
   \<and> hashContent ascii_env text_and_data = ''6869''
   \<and> hashContent ascii_env text_other_data = ''6869''
   \<and> (\<exists>r. Detect no_keys ascii_env text_and_data = Some (Inr r) \<and> ContentHash r = ''6869'')"
proof -
  have t: "Text text_and_data \<noteq> []" by (simp add: text_and_data_def)
  obtain r where r: "Detect no_keys ascii_env text_and_data = Some (Inr r)"
    using detect_text_and_data by blast
  have s: "sha256_Sum ascii_env (Text text_and_data) = ''hi''"
    by (simp add: ascii_env_def text_and_data_def)
  show ?thesis
    using C10_hash_of_text_alone [OF t, of ascii_env text_other_data no_keys r] r
    unfolding s hex_hi
    by (simp add: text_and_data_def text_other_data_def)
qed

subsection \<open>Failures of a detection\<close>

text \<open>
  Inputs: an MP4 buffer of two atoms, \<open>ftyp\<close> and a \<open>udta\<close> atom whose payload names two
  encoders; an image given by its URL only; an image request that carries text only; and
  an audio request that carries nothing.
\<close>

definition mp4_two_encoders :: bytes where
  "mp4_two_encoders =
     [CHR 0x00, CHR 0x00, CHR 0x00, CHR 0x08] @ ''ftyp''
     @ [CHR 0x00, CHR 0x00, CHR 0x00, CHR 0x15] @ ''udta'' @ ''ffmpeg runway''"

definition two_encoders_input :: DetectionInput where
  "two_encoders_input = \<lparr> URL = [], Text = [], Data = mp4_two_encoders, Filename = [],
                           ContentType = ''video'' \<rparr>"

definition url_only_input :: DetectionInput where
  "url_only_input = \<lparr> URL = ''http://a.example/x.png'', Text = [], Data = [], Filename = [],
                       ContentType = ''image'' \<rparr>"

definition text_for_image_input :: DetectionInput where
  "text_for_image_input = \<lparr> URL = [], Text = ''hello'', Data = [], Filename = [],
                             ContentType = ''image'' \<rparr>"

definition no_input :: DetectionInput where
  "no_input = \<lparr> URL = [], Text = [], Data = [], Filename = [], ContentType = ''audio'' \<rparr>"

lemma ascii_env_http: "http_Get ascii_env url = Inl ''no network''"
  by (simp add: ascii_env_def)

lemma supported_simps: "supported ''text''" "supported ''image''" "supported ''audio''"
  "supported ''video''"
  by (simp_all add: supported_def)

lemma Detect_image_failure:
  "resolved_type E input = Some ''image'' \<Longrightarrow>
   input_data E (50 * 1024 * 1024) NoImageData (input \<lparr> ContentType := ''image'' \<rparr>) = Inl err \<Longrightarrow>
   Detect cfg E input = Some (Inl (DetectionFailed err))"
  unfolding Detect_route route_image supported_simps DetectImage_def by (simp add: supported_simps)

lemma Detect_audio_failure:
  "resolved_type E input = Some ''audio'' \<Longrightarrow>
   input_data E (100 * 1024 * 1024) NoAudioData (input \<lparr> ContentType := ''audio'' \<rparr>) = Inl err \<Longrightarrow>
   Detect cfg E input = Some (Inl (DetectionFailed err))"
  unfolding Detect_route route_audio DetectAudio_def by (simp add: supported_simps)

lemma url_only_failure:
  "Detect no_keys ascii_env url_only_input
     = Some (Inl (DetectionFailed (FetchFailed ''no network'')))"
  by (rule Detect_image_failure)
     (simp_all add: resolved_type_def url_only_input_def input_data_def ascii_env_http len_def)

lemma text_for_image_failure:
  "Detect no_keys ascii_env text_for_image_input = Some (Inl (DetectionFailed NoImageData))"
  by (rule Detect_image_failure)
     (simp_all add: resolved_type_def text_for_image_input_def input_data_def len_def)

lemma no_input_failure:
  "Detect no_keys ascii_env no_input = Some (Inl (DetectionFailed NoAudioData))"
  by (rule Detect_audio_failure)
     (simp_all add: resolved_type_def no_input_def input_data_def len_def)

lemma two_encoders_facts:
  "Data two_encoders_input \<noteq> []" "resolved_type ascii_env two_encoders_input = Some ''video''"
  by (simp_all add: two_encoders_input_def mp4_two_encoders_def resolved_type_def)

lemma no_input_facts:
  "resolved_type ascii_env no_input = Some ''audio''"
  "fails_for ascii_env ''audio'' no_input NoAudioData"
  by (simp_all add: no_input_def resolved_type_def fails_for_def missing_def)

text \<open>
  Claim C3, as stated: \<open>Detect\<close> fails only for an unsupported content category or for
  the total absence of usable input (no text, no bytes, no URL). An image request with a
  URL and no bytes fails when the fetch fails, here in the environment without network;
  and an image request that carries text but neither bytes nor URL fails with
  \<open>no image data provided\<close>. In both the category is supported and the input is not
  empty.
\<close>

theorem C3_fetch_failure_counterexample:
  "supported (ContentType url_only_input) \<and> URL url_only_input \<noteq> []
   \<and> Detect no_keys ascii_env url_only_input
       = Some (Inl (DetectionFailed (FetchFailed ''no network'')))
   \<and> supported (ContentType text_for_image_input) \<and> Text text_for_image_input \<noteq> []
   \<and> Detect no_keys ascii_env text_for_image_input = Some (Inl (DetectionFailed NoImageData))"
  unfolding url_only_failure text_for_image_failure
  by (simp add: url_only_input_def text_for_image_input_def supported_simps)

text \<open>
  Claim C3, amended: \<open>Detect\<close> always returns (no panic), and it returns a result, or the
  error of an unsupported category, or a \<open>detection failed\<close> error of the routed detector
  in a case of \<open>fails_for\<close>: the input has no bytes (for text: no text and no bytes) and
  either no URL, or a URL whose fetch fails, or (for text) a URL whose body is empty. In
  particular every input with non-empty \<open>Data\<close> and the category image, audio or video
  gets a result, whatever the bytes are.
\<close>

theorem C3_detect_failures:
  "(\<exists>ct. resolved_type E input = Some ct
      \<and> ((\<exists>r. Detect cfg E input = Some (Inr r))
         \<or> (\<not> supported ct \<and> Detect cfg E input = Some (Inl (UnsupportedContentType ct)))
         \<or> (supported ct
              \<and> (\<exists>err. Detect cfg E input = Some (Inl (DetectionFailed err))
                        \<and> fails_for E ct input err))))
   \<and> (Data input \<noteq> []
        \<and> resolved_type E input \<in> {Some ''image'', Some ''audio'', Some ''video''}
      \<longrightarrow> (\<exists>r. Detect cfg E input = Some (Inr r)))"
proof (intro conjI impI)
  obtain ct where ct: "resolved_type E input = Some ct" using resolved_type_total by blast
  from Detect_cases[OF ct, of cfg] ct
  show "\<exists>ct. resolved_type E input = Some ct
      \<and> ((\<exists>r. Detect cfg E input = Some (Inr r))
         \<or> (\<not> supported ct \<and> Detect cfg E input = Some (Inl (UnsupportedContentType ct)))
         \<or> (supported ct
              \<and> (\<exists>err. Detect cfg E input = Some (Inl (DetectionFailed err))
                        \<and> fails_for E ct input err)))"
    by blast
next
  assume a: "Data input \<noteq> []
        \<and> resolved_type E input \<in> {Some ''image'', Some ''audio'', Some ''video''}"
  then obtain ct where ct: "resolved_type E input = Some ct"
    "ct \<in> set [''image'', ''audio'', ''video'']" by auto
  from a have d: "Data input \<noteq> []" by simp
  show "\<exists>r. Detect cfg E input = Some (Inr r)"
    by (rule Detect_media_data[OF d ct])
qed

theorem C3_detect_failures_witness:
  "(Data two_encoders_input \<noteq> []
      \<and> resolved_type ascii_env two_encoders_input \<in> {Some ''image'', Some ''audio'', Some ''video''})
   \<and> (\<exists>r. Detect no_keys ascii_env two_encoders_input = Some (Inr r))
   \<and> resolved_type ascii_env no_input = Some ''audio'' \<and> supported ''audio''
   \<and> Detect no_keys ascii_env no_input = Some (Inl (DetectionFailed NoAudioData))
   \<and> fails_for ascii_env ''audio'' no_input NoAudioData"
  using C3_detect_failures [of ascii_env two_encoders_input no_keys]
        C3_detect_failures [of ascii_env no_input no_keys]
  unfolding two_encoders_facts no_input_facts no_input_failure
  by (simp add: supported_simps two_encoders_facts)

subsection \<open>The order of a map iteration\<close>

text \<open>
  \<open>extractEncoder\<close> ranges over a Go map and returns at the first key found: the order is
  the one the runtime picks for that iteration. \<open>reversed_env\<close> is \<open>ascii_env\<close> with the
  keys of the video encoder map visited in the opposite order. The score of the detection
  is read with \<open>score_of\<close>.
\<close>

definition reversed_env :: Env where
  "reversed_env = ascii_env \<lparr> video_encoders_order := rev (video_encoders_order ascii_env) \<rparr>"

definition score_of :: "DetectionResult outcome \<Rightarrow> f64 option" where
  "score_of out = (case out of Some (Inr r) \<Rightarrow> Some (AIScore r) | _ \<Rightarrow> None)"

lemma reversed_env_order: "video_encoders_order reversed_env = rev video_encoder_keys"
  by (simp add: reversed_env_def ascii_env_def)

lemma te_len: "len mp4_two_encoders = 29" by code_simp

lemma te_format: "detectVideoFormat mp4_two_encoders = Some ''mp4''"
  by code_simp

definition te_meta :: "string \<Rightarrow> VideoMetadata" where
  "te_meta enc = VideoMetadata_zero \<lparr> vm_Format := ''mp4'', vm_HasVideo := True, vm_EncoderName := enc, vm_IsAIMarked := True \<rparr>"

lemma te_meta_sel:
  "vm_IsAIMarked (te_meta enc) = True" "vm_HasAudio (te_meta enc) = False"
  "vm_EncoderName (te_meta enc) = enc" "vm_Format (te_meta enc) = ''mp4''"
  by (simp_all add: te_meta_def VideoMetadata_zero_def)

lemma te_mp4: "analyzeMP4 ascii_env mp4_two_encoders = Some (te_meta ''ffmpeg'', VideoStats_zero \<lparr> vs_FileSize := 29 \<rparr>)"
  by code_simp

lemma te_mp4_rev: "analyzeMP4 reversed_env mp4_two_encoders = Some (te_meta ''Runway'', VideoStats_zero \<lparr> vs_FileSize := 29 \<rparr>)"
  by code_simp

lemma te_signals:
  "analyzeContainer mp4_two_encoders ''mp4'' = Some (Fin 0.5)"
  "analyzeTemporalPattern mp4_two_encoders ''mp4'' = Some (Fin 0.5)"
  "analyzeBitrateConsistency mp4_two_encoders (VideoStats_zero \<lparr> vs_FileSize := 29 \<rparr>) = Some (Fin 0.6)"
  by (simp_all add: analyzeContainer_def analyzeTemporalPattern_def analyzeBitrateConsistency_def te_len VideoStats_zero_def)

lemma te_codecs: "Contains mp4_two_encoders ''avc1'' = False" "Contains mp4_two_encoders ''h264'' = False"
  "Contains mp4_two_encoders ''hvc1'' = False" "Contains mp4_two_encoders ''hevc'' = False"
  "Contains mp4_two_encoders ''vp09'' = False" "Contains mp4_two_encoders ''av01'' = False"
  by code_simp+

lemma te_signature: "analyzeEncodingSignature mp4_two_encoders (te_meta enc) = Fin 0.6"
  unfolding analyzeEncodingSignature_def te_codecs te_meta_sel Let_def by simp

lemma te_lists:
  "list_ex (Contains (strings_ToLower ascii_env ''ffmpeg''))
                        [''runway'', ''pika'', ''sora'', ''gen-2'', ''gen2'',
                         ''stable video'', ''stablevideo'', ''modelscope'',
                         ''deforum'', ''animatediff'', ''zeroscope''] = False"
  "list_ex (Contains (strings_ToLower ascii_env ''ffmpeg''))
                        [''premiere'', ''final cut'', ''davinci'', ''avid'',
                         ''ffmpeg'', ''handbrake'', ''x264'', ''x265''] = True"
  "list_ex (Contains (strings_ToLower reversed_env ''Runway''))
                        [''runway'', ''pika'', ''sora'', ''gen-2'', ''gen2'',
                         ''stable video'', ''stablevideo'', ''modelscope'',
                         ''deforum'', ''animatediff'', ''zeroscope''] = True"
  "list_ex (Contains (strings_ToLower reversed_env ''Runway''))
                        [''premiere'', ''final cut'', ''davinci'', ''avid'',
                         ''ffmpeg'', ''handbrake'', ''x264'', ''x265''] = False"
  by code_simp+

lemma te_metadata: "video_analyzeMetadata ascii_env (te_meta ''ffmpeg'') = Fin 0.95"
  unfolding video_analyzeMetadata_def Let_def te_meta_sel te_lists
  by (simp add: fsub_def math_Max_def math_Min_def)

lemma te_metadata_rev: "video_analyzeMetadata reversed_env (te_meta ''Runway'') = Fin 1"
  unfolding video_analyzeMetadata_def Let_def te_meta_sel te_lists
  by (simp add: fsub_def math_Max_def math_Min_def)

lemma te_presence: "analyzeAudioPresence (te_meta enc) d f = Fin 0.7"
  by (simp add: analyzeAudioPresence_def te_meta_sel)

lemma te_score: "map_option v_AIScore (video_Analyze ascii_env mp4_two_encoders) = Some (Fin 0.6675)"
  by (simp add: video_Analyze_def te_format te_mp4 te_signals te_signature te_metadata te_presence video_score_finite clamp01_def)

lemma te_score_rev: "map_option v_AIScore (video_Analyze reversed_env mp4_two_encoders) = Some (Fin 0.68)"
  by (simp add: video_Analyze_def te_format te_mp4_rev te_signals te_signature te_metadata_rev te_presence video_score_finite clamp01_def)

lemma agg_single: "aggregateScoresWeighted video_detector_weights [Fin x] [''humanmark''] = Fin x"
  by (simp add: aggregateScoresWeighted_def video_detector_weights_def detector_weight_def len_def fsum_def)

lemma ask_detector_off: "ask_detector False name answer st = st"
  by (simp add: ask_detector_def)

lemma DetectVideo_score:
  assumes "Data input \<noteq> []" "HiveAPIKey cfg = []"
    "map_option v_AIScore (video_Analyze E (Data input)) = Some (Fin x)"
  shows "score_of (DetectVideo cfg E input) = Some (Fin x)"
proof -
  from assms(3) obtain a where a: "video_Analyze E (Data input) = Some a" "v_AIScore a = Fin x"
    by auto
  show ?thesis
    unfolding DetectVideo_def input_data_nonempty[OF assms(1)]
    by (simp add: a assms(2) ask_detector_off agg_single score_of_def Let_def)
qed

lemma score_of_update:
  "score_of (case out of None \<Rightarrow> None | Some (Inl err) \<Rightarrow> Some (Inl (DetectionFailed err))
             | Some (Inr result) \<Rightarrow> Some (Inr (result \<lparr> ContentHash := h, ProcessingTime := t \<rparr>)))
   = score_of out"
  by (simp add: score_of_def split: option.splits sum.splits)

lemma Detect_video_score:
  assumes "resolved_type E input = Some ''video''"
  shows "score_of (Detect cfg E input) = score_of (DetectVideo cfg E (input \<lparr> ContentType := ''video'' \<rparr>))"
  unfolding Detect_route[OF assms] route_video by (simp add: supported_simps score_of_update)

lemma two_encoders_rt: "resolved_type E two_encoders_input = Some ''video''"
  by (simp add: two_encoders_input_def resolved_type_def)

lemma two_encoders_data: "Data (two_encoders_input \<lparr> ContentType := ''video'' \<rparr>) = mp4_two_encoders"
  "mp4_two_encoders \<noteq> []"
  by (simp_all add: two_encoders_input_def mp4_two_encoders_def)

lemma two_encoders_score:
  "score_of (Detect no_keys ascii_env two_encoders_input) = Some (Fin 0.6675)"
  unfolding Detect_video_score[OF two_encoders_rt]
  by (rule DetectVideo_score) (simp_all add: two_encoders_data te_score no_keys_simps)

lemma two_encoders_score_rev:
  "score_of (Detect no_keys reversed_env two_encoders_input) = Some (Fin 0.68)"
  unfolding Detect_video_score[OF two_encoders_rt]
  by (rule DetectVideo_score) (simp_all add: two_encoders_data te_score_rev no_keys_simps)

lemma encoder_orders:
  "set (video_encoders_order ascii_env) = fst ` set video_encoders"
  by (simp add: ascii_env_def video_encoder_keys_def video_encoders_def)

lemma reversed_env_same_keys:
  "set (video_encoders_order reversed_env) = set (video_encoders_order ascii_env)"
  by (simp add: reversed_env_def)

text \<open>
  Claim C2: without API keys, two calls of \<open>Detect\<close> on the same input return the same
  \<open>AIScore\<close>. The code does not ensure it: on the MP4 buffer whose \<open>udta\<close> atom reads
  \<open>ffmpeg runway\<close> the encoder found is \<open>ffmpeg\<close> when the key \<open>ffmpeg\<close> is visited
  before \<open>runway\<close>, and \<open>Runway\<close> otherwise, and the score is 0.6675 in the first case
  and 0.68 in the second. The two environments differ in nothing but that order, and both
  orders visit exactly the keys of the map.
\<close>

theorem C2_map_order_changes_score:
  "score_of (Detect no_keys ascii_env two_encoders_input) = Some (Fin 0.6675)
   \<and> score_of (Detect no_keys reversed_env two_encoders_input) = Some (Fin 0.68)
   \<and> reversed_env = ascii_env \<lparr> video_encoders_order := rev (video_encoders_order ascii_env) \<rparr>
   \<and> set (video_encoders_order ascii_env) = fst ` set video_encoders
   \<and> set (video_encoders_order reversed_env) = set (video_encoders_order ascii_env)"
  unfolding two_encoders_score two_encoders_score_rev reversed_env_same_keys encoder_orders
  by (simp add: reversed_env_def)

subsection \<open>The verdict\<close>

text \<open>
  The analyses of a two-byte buffer as image and as audio: every signal takes its fallback,
  but for the metadata score of the image (no EXIF) and the quality score of the audio
  (a file below 10000 bytes).
\<close>

lemma ab_len: "len ''ab'' = 2" by (simp add: len_def)

lemma ab_image_format: "detectImageFormat ''ab'' = Some ''unknown''"
  by code_simp

lemma ab_image_parts:
  "extractMetadata ''ab'' ''unknown'' = Some (ImageMetadata_zero \<lparr> im_FileFormat := ''unknown'' \<rparr>)"
  "getImageStats ''ab'' ''unknown'' = Some ImageStats_zero"
  "analyzeColorDistribution ''ab'' ''unknown'' = Some (Fin 0.5)"
  "analyzeEdgeConsistency ''ab'' ''unknown'' = Some (Fin 0.5)"
  "analyzeNoisePattern ''ab'' ''unknown'' = Some (Fin 0.5)"
  "analyzeCompression ''ab'' ''unknown'' = Some (Fin 0.5)"
  "analyzeSymmetry ''ab'' ''unknown'' = Some (Fin 0.5)"
  by (simp_all add: extractMetadata_def getImageStats_def analyzeColorDistribution_def
      analyzeEdgeConsistency_def analyzeNoisePattern_def analyzeCompression_def
      analyzeSymmetry_def ab_len Let_def)

lemma ab_image_metadata:
  "image_analyzeMetadata (ImageMetadata_zero \<lparr> im_FileFormat := ''unknown'' \<rparr>) = Fin 0.7"
  by (simp add: image_analyzeMetadata_def ImageMetadata_zero_def math_Max_def math_Min_def)

lemma ab_image_score: "map_option i_AIScore (image_Analyze ''ab'') = Some (Fin 0.55)"
  unfolding image_Analyze_def ab_image_format
  by (simp add: ab_image_parts ab_image_metadata image_score_finite clamp01_def)

lemma ab_audio_format: "detectAudioFormat ''ab'' = Some ''unknown''"
  by code_simp

lemma ab_audio_markers:
  "list_ex (Contains (strings_ToLower ascii_env ''ab''))
     [''elevenlabs'', ''murf.ai'', ''play.ht'', ''resemble.ai'',
      ''suno'', ''udio'', ''generated'', ''synthetic'', ''ai voice'',
      ''text-to-speech'', ''tts'', ''voice clone''] = False"
  "list_ex (Contains (strings_ToLower ascii_env []))
     [''elevenlabs'', ''eleven labs'', ''murf'', ''play.ht'',
      ''resemble'', ''descript'', ''synthesia'', ''wellsaid'',
      ''amazon polly'', ''google tts'', ''azure speech'',
      ''suno'', ''udio'', ''musicgen'', ''riffusion''] = False"
  unfolding ascii_env_simps by code_simp+

definition ab_audio_meta :: AudioMetadata where
  "ab_audio_meta = AudioMetadata_zero \<lparr> am_Format := ''unknown'' \<rparr>"

lemma ab_audio_meta_sel:
  "am_IsAIMarked ab_audio_meta = False" "am_HasRecording ab_audio_meta = False"
  "am_HasID3 ab_audio_meta = False" "am_EncoderName ab_audio_meta = []"
  "am_SampleRate ab_audio_meta = 0" "am_BitDepth ab_audio_meta = 0"
  "am_Channels ab_audio_meta = 0" "am_Bitrate ab_audio_meta = 0"
  by (simp_all add: ab_audio_meta_def AudioMetadata_zero_def)

lemma ab_audio_parts:
  "analyzePatterns ''ab'' ''unknown'' = Some (Fin 0.5)"
  "analyzeNoiseProfile ''ab'' ''unknown'' = Some (Fin 0.5)"
  "analyzeFormat ab_audio_meta ''ab'' = Fin 0.5"
  "analyzeQuality ab_audio_meta (AudioStats_zero \<lparr> as_FileSize := 2 \<rparr>) = Fin 0.7"
  by (simp_all add: analyzePatterns_def analyzeNoiseProfile_def analyzeFormat_def
      analyzeQuality_def ab_len ab_audio_meta_sel Let_def)

lemma ab_audio_metadata: "audio_analyzeMetadata ascii_env ab_audio_meta = Fin 0.5"
  unfolding audio_analyzeMetadata_def Let_def ab_audio_meta_sel ab_audio_markers
  by (simp add: math_Max_def math_Min_def)

lemma ab_audio_signatures: "detectAISignatures ascii_env ''ab'' ab_audio_meta = Some (Fin 0)"
proof -
  have s: "slice ''ab'' 0 (min_int (len ''ab'') 50000) = Some ''ab''"
    by (simp add: slice_def min_int_def len_def)
  show ?thesis
    unfolding detectAISignatures_def s Option.bind.simps Let_def ab_audio_meta_sel ab_audio_markers
    by (simp add: math_Min_def)
qed

lemma ab_audio_score: "map_option a_AIScore (audio_Analyze ascii_env ''ab'') = Some (Fin 0.455)"
  unfolding audio_Analyze_def ab_audio_format
  by (simp add: ab_len ab_audio_meta_def[symmetric] ab_audio_parts ab_audio_metadata
      ab_audio_signatures audio_score_finite clamp01_def)

text \<open>The result of a detector when only the local analyzer runs and its score is finite.\<close>

definition humanmark_result :: "string \<Rightarrow> real \<Rightarrow> DetectionResult" where
  "humanmark_result ct x =
     \<lparr> Human = (x < 0.5), Confidence = Fin (\<bar>x - 0.5\<bar> * 2), AIScore = Fin x,
       r_ContentType = ct, Detectors = [''humanmark''], ContentHash = [], ProcessingTime = 0 \<rparr>"

lemma agg_humanmark:
  "map_of weights ''humanmark'' = Some (Fin 1)
   \<Longrightarrow> aggregateScoresWeighted weights [Fin x] [''humanmark''] = Fin x"
  by (simp add: aggregateScoresWeighted_def detector_weight_def len_def fsum_def)

lemma humanmark_weights:
  "map_of text_detector_weights ''humanmark'' = Some (Fin 1)"
  "map_of image_detector_weights ''humanmark'' = Some (Fin 1)"
  "map_of audio_detector_weights ''humanmark'' = Some (Fin 1)"
  "map_of video_detector_weights ''humanmark'' = Some (Fin 1)"
  by (simp_all add: text_detector_weights_def image_detector_weights_def
      audio_detector_weights_def video_detector_weights_def)

lemmas agg_defaults = humanmark_weights [THEN agg_humanmark]

lemma verdict_Fin:
  "flt (Fin x) (Fin h) = (x < h)"
  "fmul (abs_f (fsub (Fin x) (Fin h))) (Fin k) = Fin (\<bar>x - h\<bar> * k)"
  by (auto simp add: abs_f_def fsub_def)

lemma DetectText_result:
  assumes "Text input \<noteq> []"
    "HiveAPIKey cfg = []" "GPTZeroAPIKey cfg = []" "OpenAIAPIKey cfg = []"
    "t_AIScore (text_Analyze E (Text input)) = Fin x"
  shows "DetectText cfg E input = Some (Inr (humanmark_result ''text'' x))"
proof -
  have t: "input_text E input = Inr (Text input)"
    using assms(1) by (simp add: input_text_def Let_def)
  show ?thesis
    unfolding DetectText_def t
    by (simp add: assms ask_detector_off agg_defaults verdict_Fin humanmark_result_def Let_def)
qed

lemma DetectImage_result:
  assumes "Data input \<noteq> []" "HiveAPIKey cfg = []"
    "map_option i_AIScore (image_Analyze (Data input)) = Some (Fin x)"
  shows "DetectImage cfg E input = Some (Inr (humanmark_result ''image'' x))"
proof -
  from assms(3) obtain a where a: "image_Analyze (Data input) = Some a" "i_AIScore a = Fin x"
    by auto
  show ?thesis
    unfolding DetectImage_def input_data_nonempty[OF assms(1)]
    by (simp add: a assms(2) ask_detector_off agg_defaults verdict_Fin humanmark_result_def Let_def)
qed

lemma DetectAudio_result:
  assumes "Data input \<noteq> []" "HiveAPIKey cfg = []"
    "map_option a_AIScore (audio_Analyze E (Data input)) = Some (Fin x)"
  shows "DetectAudio cfg E input = Some (Inr (humanmark_result ''audio'' x))"
proof -
  from assms(3) obtain a where a: "audio_Analyze E (Data input) = Some a" "a_AIScore a = Fin x"
    by auto
  show ?thesis
    unfolding DetectAudio_def input_data_nonempty[OF assms(1)]
    by (simp add: a assms(2) ask_detector_off agg_defaults verdict_Fin humanmark_result_def Let_def)
qed

lemma DetectVideo_result:
  assumes "Data input \<noteq> []" "HiveAPIKey cfg = []"
    "map_option v_AIScore (video_Analyze E (Data input)) = Some (Fin x)"
  shows "DetectVideo cfg E input = Some (Inr (humanmark_result ''video'' x))"
proof -
  from assms(3) obtain a where a: "video_Analyze E (Data input) = Some a" "v_AIScore a = Fin x"
    by auto
  show ?thesis
    unfolding DetectVideo_def input_data_nonempty[OF assms(1)]
    by (simp add: a assms(2) ask_detector_off agg_defaults verdict_Fin humanmark_result_def Let_def)
qed

definition short_text_input :: DetectionInput where
  "short_text_input = \<lparr> URL = [], Text = ''a. 1. 2'', Data = [], Filename = [],
                         ContentType = ''text'' \<rparr>"

definition tiny_image_input :: DetectionInput where
  "tiny_image_input = \<lparr> URL = [], Text = [], Data = ''ab'', Filename = [],
                         ContentType = ''image'' \<rparr>"

definition tiny_audio_input :: DetectionInput where
  "tiny_audio_input = \<lparr> URL = [], Text = [], Data = ''ab'', Filename = [],
                         ContentType = ''audio'' \<rparr>"

lemma short_text_detected:
  "DetectText no_keys ascii_env short_text_input = Some (Inr (humanmark_result ''text'' 0.275))"
  by (rule DetectText_result) (simp_all add: short_text_input_def no_keys_simps a12_score)

lemma tiny_image_detected:
  "DetectImage no_keys ascii_env tiny_image_input = Some (Inr (humanmark_result ''image'' 0.55))"
  by (rule DetectImage_result) (simp_all add: tiny_image_input_def no_keys_simps ab_image_score)

lemma tiny_audio_detected:
  "DetectAudio no_keys ascii_env tiny_audio_input = Some (Inr (humanmark_result ''audio'' 0.455))"
  by (rule DetectAudio_result) (simp_all add: tiny_audio_input_def no_keys_simps ab_audio_score)

lemma two_encoders_detected:
  "DetectVideo no_keys ascii_env two_encoders_input
     = Some (Inr (humanmark_result ''video'' 0.6675))"
  by (rule DetectVideo_result)
     (simp_all add: two_encoders_input_def no_keys_simps te_score two_encoders_data)

lemma two_encoders_update: "two_encoders_input \<lparr> ContentType := ''video'' \<rparr> = two_encoders_input"
  by (simp add: two_encoders_input_def)

lemma two_encoders_Detect:
  "Detect no_keys ascii_env two_encoders_input
     = Some (Inr (humanmark_result ''video'' 0.6675
          \<lparr> ContentHash := hashContent ascii_env two_encoders_input,
            ProcessingTime := time_Since ascii_env \<rparr>))"
  unfolding Detect_route[OF two_encoders_rt] route_video two_encoders_update two_encoders_detected
  by (simp add: supported_simps)

text \<open>
  Claim C7. Every result that one of the four detectors returns, and every result that
  \<open>Detect\<close> returns, has \<open>Human = (AIScore < 0.5)\<close> and
  \<open>Confidence = abs(AIScore - 0.5) * 2\<close> in \<open>float64\<close>; for a finite score \<open>s\<close> these are
  \<open>s < 0.5\<close> and \<open>|s - 0.5| * 2\<close>.
\<close>

theorem C7_verdict_from_score:
  assumes "DetectText cfg E input = Some (Inr r) \<or> DetectImage cfg E input = Some (Inr r)
         \<or> DetectAudio cfg E input = Some (Inr r) \<or> DetectVideo cfg E input = Some (Inr r)
         \<or> Detect cfg E input = Some (Inr r)"
  shows "Human r = flt (AIScore r) (Fin 0.5)
       \<and> Confidence r = fmul (abs_f (fsub (AIScore r) (Fin 0.5))) (Fin 2)
       \<and> (\<forall>s. AIScore r = Fin s \<longrightarrow> Human r = (s < 0.5) \<and> Confidence r = Fin (\<bar>s - 0.5\<bar> * 2))"
proof -
  have v: "verdict_ok r"
    using assms DetectText_verdict DetectImage_verdict DetectAudio_verdict DetectVideo_verdict
      Detect_verdict by blast
  then show ?thesis using verdict_ok_finite[OF v] by (simp add: verdict_ok_def)
qed

theorem C7_verdict_witness:
  "DetectText no_keys ascii_env short_text_input = Some (Inr (humanmark_result ''text'' 0.275))
   \<and> Human (humanmark_result ''text'' 0.275) = True
   \<and> Confidence (humanmark_result ''text'' 0.275) = Fin 0.45
   \<and> DetectImage no_keys ascii_env tiny_image_input = Some (Inr (humanmark_result ''image'' 0.55))
   \<and> Human (humanmark_result ''image'' 0.55) = False
   \<and> Confidence (humanmark_result ''image'' 0.55) = Fin 0.1
   \<and> DetectAudio no_keys ascii_env tiny_audio_input = Some (Inr (humanmark_result ''audio'' 0.455))
   \<and> Human (humanmark_result ''audio'' 0.455) = True
   \<and> Confidence (humanmark_result ''audio'' 0.455) = Fin 0.09
   \<and> DetectVideo no_keys ascii_env two_encoders_input
       = Some (Inr (humanmark_result ''video'' 0.6675))
   \<and> Human (humanmark_result ''video'' 0.6675) = False
   \<and> Confidence (humanmark_result ''video'' 0.6675) = Fin 0.335"
  using C7_verdict_from_score [of no_keys ascii_env short_text_input "humanmark_result ''text'' 0.275"]
        C7_verdict_from_score [of no_keys ascii_env tiny_image_input "humanmark_result ''image'' 0.55"]
        C7_verdict_from_score [of no_keys ascii_env tiny_audio_input "humanmark_result ''audio'' 0.455"]
        C7_verdict_from_score [of no_keys ascii_env two_encoders_input "humanmark_result ''video'' 0.6675"]
  unfolding short_text_detected tiny_image_detected tiny_audio_detected two_encoders_detected
  by (simp add: humanmark_result_def)

end
